theory Spec2Isabelle
  imports Complex_Main "HOL-Library.Multiset"
begin

section \<open>Pixel values\<close>

text \<open>
  The kernels of \<^verbatim>\<open>f_imageproc.hpp\<close> are templates over the element type of an
  xtensor container; line numbers below refer to that file. The properties studied here
  concern the floating-point case, where NaN marks an invalid measurement, and the
  element type \<^verbatim>\<open>float\<close> of the images: the IEEE 754 binary32 format, with arithmetic
  in the default rounding mode, to nearest and ties to even. Every operation of a kernel
  is taken to be rounded to the element type on its own, as with \<^verbatim>\<open>FLT_EVAL_METHOD\<close>
  0 and no contraction of expressions.

  Up to its sign, a finite value of that format is \<open>m * 2 ^ k / 2 ^ 149\<close> for a
  significand \<open>m < 2 ^ 24\<close> and an exponent \<open>k \<le> 253\<close>; the exponent \<open>k = 0\<close>
  holds the subnormal numbers and the first binade of the normal ones, and every
  other exponent the significands from \<open>2 ^ 23\<close> on. The largest finite value is
  \<open>(2 ^ 24 - 1) * 2 ^ 253 / 2 ^ 149\<close>, which is \<^verbatim>\<open>FLT_MAX\<close>.
\<close>

text \<open>The integer nearest to a real, the even one of the two in a tie.\<close>

definition rne :: "real \<Rightarrow> int" where
  "rne q =
     (let n = \<lfloor>q\<rfloor>; r = q - of_int n in
      if r < 1 / 2 then n
      else if 1 / 2 < r then n + 1
      else if even n then n else n + 1)"

text \<open>
  The exponent of a magnitude \<open>y\<close>, given in units of \<open>1 / 2 ^ 149\<close>: the least
  \<open>k\<close> from \<open>k0\<close> on with \<open>y < 2 ^ (24 + k)\<close>, and none if that takes an exponent
  above 253.
\<close>

function binade_from :: "nat \<Rightarrow> real \<Rightarrow> nat option" where
  "binade_from k0 y =
     (if 254 \<le> k0 then None
      else if y < 2 ^ (24 + k0) then Some k0
      else binade_from (Suc k0) y)"
  by pat_completeness auto
termination
  by (relation "measure (\<lambda>(k0, y). 254 - k0)") auto

declare binade_from.simps [simp del]

text \<open>
  The finite value nearest to a real \<open>x\<close>: the significand is rounded at the exponent
  of \<open>x\<close>. There is none when the rounded magnitude reaches \<open>2 ^ 128\<close>, which is
  the significand \<open>2 ^ 24\<close> at the exponent 253, or lies beyond it: the operation
  overflows.
\<close>

definition nearest_float :: "real \<Rightarrow> real option" where
  "nearest_float x =
     (case binade_from 0 (\<bar>x\<bar> * 2 ^ 149) of
        None \<Rightarrow> None
      | Some k \<Rightarrow>
          let m = rne (\<bar>x\<bar> * 2 ^ 149 / 2 ^ k);
              r = of_int m * 2 ^ k / 2 ^ 149
          in if k = 253 \<and> m = 2 ^ 24 then None
             else Some (if x < 0 then - r else r))"

text \<open>
  The finite values are the reals that rounding leaves alone. The two zeros of the
  format are one value here: they compare equal and differ only as divisors, and the
  kernels divide by counts alone.
\<close>

typedef float32 = "{x. nearest_float x = Some x}"
  by (rule exI [of _ 0]) (simp add: nearest_float_def binade_from.simps rne_def)

text \<open>
  A pixel value is NaN, an infinity or a finite value; the payload of a NaN is not
  represented. Comparisons and arithmetic follow the IEEE rules: every comparison with
  NaN is false, NaN is absorbing for the arithmetic operators, and an operation on
  finite values returns the exact result rounded, or an infinity when it overflows.
\<close>

datatype fp = NaN | NInf | Fin float32 | PInf

text \<open>
  The conversion of a number to the element type, as in \<^verbatim>\<open>value_type(0.5)\<close>, and
  the rounding of an exact result.
\<close>

definition float_of :: "real \<Rightarrow> fp" where
  "float_of x =
     (case nearest_float x of
        None \<Rightarrow> if x < 0 then NInf else PInf
      | Some y \<Rightarrow> Fin (Abs_float32 y))"

text \<open>\<^verbatim>\<open>std::isnan\<close>\<close>

fun isnan :: "fp \<Rightarrow> bool" where
  "isnan NaN = True"
| "isnan _ = False"

text \<open>\<^verbatim>\<open>std::numeric_limits<value_type>::quiet_NaN()\<close>\<close>

definition quiet_NaN :: fp where
  "quiet_NaN = NaN"

text \<open>\<^verbatim>\<open>value_type(count)\<close> for a \<^verbatim>\<open>size_t\<close> count, and \<^verbatim>\<open>value_type(0.5)\<close>.\<close>

definition value_of_count :: "nat \<Rightarrow> fp" where
  "value_of_count n = float_of (real n)"

definition value_half :: fp where
  "value_half = float_of (1 / 2)"

fun fadd :: "fp \<Rightarrow> fp \<Rightarrow> fp" where
  "fadd NaN _ = NaN"
| "fadd _ NaN = NaN"
| "fadd PInf NInf = NaN"
| "fadd NInf PInf = NaN"
| "fadd PInf _ = PInf"
| "fadd _ PInf = PInf"
| "fadd NInf _ = NInf"
| "fadd _ NInf = NInf"
| "fadd (Fin a) (Fin b) = float_of (Rep_float32 a + Rep_float32 b)"

fun fsub :: "fp \<Rightarrow> fp \<Rightarrow> fp" where
  "fsub NaN _ = NaN"
| "fsub _ NaN = NaN"
| "fsub PInf PInf = NaN"
| "fsub NInf NInf = NaN"
| "fsub PInf _ = PInf"
| "fsub _ NInf = PInf"
| "fsub NInf _ = NInf"
| "fsub _ PInf = NInf"
| "fsub (Fin a) (Fin b) = float_of (Rep_float32 a - Rep_float32 b)"

text \<open>The sign of a product or quotient with an infinity: \<open>True\<close> for a negative result.\<close>

fun finf :: "bool \<Rightarrow> fp" where
  "finf neg = (if neg then NInf else PInf)"

fun fmul :: "fp \<Rightarrow> fp \<Rightarrow> fp" where
  "fmul NaN _ = NaN"
| "fmul _ NaN = NaN"
| "fmul (Fin a) (Fin b) = float_of (Rep_float32 a * Rep_float32 b)"
| "fmul (Fin a) PInf = (if Rep_float32 a = 0 then NaN else finf (Rep_float32 a < 0))"
| "fmul (Fin a) NInf = (if Rep_float32 a = 0 then NaN else finf (0 < Rep_float32 a))"
| "fmul PInf (Fin b) = (if Rep_float32 b = 0 then NaN else finf (Rep_float32 b < 0))"
| "fmul NInf (Fin b) = (if Rep_float32 b = 0 then NaN else finf (0 < Rep_float32 b))"
| "fmul PInf PInf = PInf"
| "fmul NInf NInf = PInf"
| "fmul PInf NInf = NInf"
| "fmul NInf PInf = NInf"

fun fdiv :: "fp \<Rightarrow> fp \<Rightarrow> fp" where
  "fdiv NaN _ = NaN"
| "fdiv _ NaN = NaN"
| "fdiv (Fin a) (Fin b) =
     (if Rep_float32 b = 0
      then (if Rep_float32 a = 0 then NaN else finf (Rep_float32 a < 0))
      else float_of (Rep_float32 a / Rep_float32 b))"
| "fdiv (Fin a) _ = float_of 0"
| "fdiv PInf (Fin b) = finf (Rep_float32 b < 0)"
| "fdiv NInf (Fin b) = finf (0 \<le> Rep_float32 b)"
| "fdiv _ _ = NaN"

fun fless :: "fp \<Rightarrow> fp \<Rightarrow> bool" where
  "fless NaN _ = False"
| "fless _ NaN = False"
| "fless (Fin a) (Fin b) = (Rep_float32 a < Rep_float32 b)"
| "fless NInf NInf = False"
| "fless NInf _ = True"
| "fless PInf _ = False"
| "fless (Fin a) PInf = True"
| "fless (Fin a) NInf = False"

text \<open>
  The operators of the source on pixel values: \<^verbatim>\<open>value_type(0)\<close> is \<open>0\<close>, and
  \<open>+\<close>, \<open>-\<close>, \<open>*\<close>, \<open>/\<close>, \<open><\<close> and \<open>>\<close> are the functions above. Thresholds are
  compared as pixel values.
\<close>

instantiation fp :: "{zero, plus, minus, times, inverse, ord}"
begin

definition zero_fp :: fp where
  "zero_fp = float_of 0"

definition plus_fp :: "fp \<Rightarrow> fp \<Rightarrow> fp" where
  "plus_fp a b = fadd a b"

definition minus_fp :: "fp \<Rightarrow> fp \<Rightarrow> fp" where
  "minus_fp a b = fsub a b"

definition times_fp :: "fp \<Rightarrow> fp \<Rightarrow> fp" where
  "times_fp a b = fmul a b"

definition divide_fp :: "fp \<Rightarrow> fp \<Rightarrow> fp" where
  "divide_fp a b = fdiv a b"

definition inverse_fp :: "fp \<Rightarrow> fp" where
  "inverse_fp a = fdiv (float_of 1) a"

definition less_fp :: "fp \<Rightarrow> fp \<Rightarrow> bool" where
  "less_fp a b = fless a b"

definition less_eq_fp :: "fp \<Rightarrow> fp \<Rightarrow> bool" where
  "less_eq_fp a b = (fless a b \<or> (\<not> isnan a \<and> a = b))"

instance ..

end

section \<open>Containers\<close>

text \<open>
  An xtensor container is a shape together with its elements, read and written through
  \<^verbatim>\<open>operator()\<close> at an index tuple. The model keeps exactly that interface: the
  shape, and a store from index tuples to elements. Only the entries inside the shape
  belong to the container; the kernels never touch the others. An image has a shape
  \<open>(rows, cols)\<close>, an image array a shape \<open>(frames, rows, cols)\<close>, so the rank is
  part of the type as it is for \<^verbatim>\<open>xt::pytensor<T, 2>\<close> and \<^verbatim>\<open>xt::pytensor<T, 3>\<close>.
\<close>

record ('i, 'a) tensor =
  shape :: 'i
  elems :: "'i \<Rightarrow> 'a"

type_synonym 'a image = "(nat \<times> nat, 'a) tensor"
type_synonym 'a image_array = "(nat \<times> nat \<times> nat, 'a) tensor"

text \<open>\<^verbatim>\<open>src(j, k)\<close> and \<^verbatim>\<open>src(i, j, k)\<close> as a read, and as the target of an assignment.\<close>

definition at2 :: "'a image \<Rightarrow> nat \<Rightarrow> nat \<Rightarrow> 'a" where
  "at2 a j k = elems a (j, k)"

definition put2 :: "'a image \<Rightarrow> nat \<Rightarrow> nat \<Rightarrow> 'a \<Rightarrow> 'a image" where
  "put2 a j k v = a\<lparr>elems := (elems a)((j, k) := v)\<rparr>"

definition at3 :: "'a image_array \<Rightarrow> nat \<Rightarrow> nat \<Rightarrow> nat \<Rightarrow> 'a" where
  "at3 a i j k = elems a (i, j, k)"

definition put3 :: "'a image_array \<Rightarrow> nat \<Rightarrow> nat \<Rightarrow> nat \<Rightarrow> 'a \<Rightarrow> 'a image_array" where
  "put3 a i j k v = a\<lparr>elems := (elems a)((i, j, k) := v)\<rparr>"

text \<open>\<^verbatim>\<open>shape()\<close> as the list of extents that \<^verbatim>\<open>checkShape\<close> compares.\<close>

definition shape2 :: "'a image \<Rightarrow> nat list" where
  "shape2 a = [fst (shape a), snd (shape a)]"

definition shape3 :: "'a image_array \<Rightarrow> nat list" where
  "shape3 a = [fst (shape a), fst (snd (shape a)), snd (snd (shape a))]"

section \<open>Errors and outcomes\<close>

datatype error = ShapeMismatch string | InvalidArgument string

text \<open>
  A kernel call either throws or returns. Both outcomes carry the caller's mutable
  buffers as they are at that moment, so that a write made before a throw would be
  visible in the model. \<open>Returned\<close> also carries the returned value (\<open>()\<close> for the
  \<^verbatim>\<open>void\<close> kernels).
\<close>

datatype ('s, 'r) outcome = Raised error 's | Returned 's 'r

text \<open>
  Modelled from the spec: \<^verbatim>\<open>checkShape\<close> is declared in \<^verbatim>\<open>f_utilities.hpp\<close>, which
  is not among the sources. Following section 4.1 of the specification it compares
  \<open>shapeA\<close>, without its first \<open>offset\<close> extents, against \<open>shapeB\<close> and fails with a
  shape-mismatch error carrying the message when they differ. \<open>None\<close> stands for a
  normal return.
\<close>

definition checkShape :: "nat list \<Rightarrow> nat list \<Rightarrow> string \<Rightarrow> nat \<Rightarrow> error option" where
  "checkShape shapeA shapeB msg offset =
     (if drop offset shapeA = shapeB then None else Some (ShapeMismatch msg))"

section \<open>Loops\<close>

text \<open>\<^verbatim>\<open>for (i = b; i < e; ++i) body\<close>, and the loop nests built from it.\<close>

definition for_loop :: "nat \<Rightarrow> nat \<Rightarrow> (nat \<Rightarrow> 's \<Rightarrow> 's) \<Rightarrow> 's \<Rightarrow> 's" where
  "for_loop b e body s = foldl (\<lambda>s i. body i s) s [b..<e]"

type_synonym range = "nat \<times> nat"

definition for2 :: "range \<Rightarrow> range \<Rightarrow> (nat \<Rightarrow> nat \<Rightarrow> 's \<Rightarrow> 's) \<Rightarrow> 's \<Rightarrow> 's" where
  "for2 rws cls body =
     for_loop (fst rws) (snd rws) (\<lambda>j. for_loop (fst cls) (snd cls) (\<lambda>k. body j k))"

definition for3 ::
  "range \<Rightarrow> range \<Rightarrow> range \<Rightarrow> (nat \<Rightarrow> nat \<Rightarrow> nat \<Rightarrow> 's \<Rightarrow> 's) \<Rightarrow> 's \<Rightarrow> 's" where
  "for3 pgs rws cls body =
     for_loop (fst pgs) (snd pgs) (\<lambda>i. for2 rws cls (\<lambda>j k. body i j k))"

section \<open>Parallel execution\<close>

text \<open>
  With \<^verbatim>\<open>FOAM_WITH_TBB\<close> defined, the stack-wide kernels hand their loop nest to
  \<^verbatim>\<open>tbb::parallel_for\<close> over a \<^verbatim>\<open>blocked_range2d\<close> or \<^verbatim>\<open>blocked_range3d\<close>.
  The scheduler splits the range into blocks and calls the kernel's lambda once per
  block; the lambda runs the loop nest over the block's sub-ranges. The splitting is the
  scheduler's choice and not part of the sources, so the list of blocks of one call is a
  parameter of the model, in the order in which the blocks take effect. The build
  configuration of a kernel is \<open>WithTBB blocks\<close> or \<open>NoTBB\<close>. The ranges hold
  \<^verbatim>\<open>int\<close> bounds; extents are taken to fit, and are natural numbers here.
\<close>

type_synonym block2 = "range \<times> range"
type_synonym block3 = "range \<times> range \<times> range"

datatype 'b build = WithTBB "'b list" | NoTBB

definition parallel_for2 :: "block2 list \<Rightarrow> (nat \<Rightarrow> nat \<Rightarrow> 's \<Rightarrow> 's) \<Rightarrow> 's \<Rightarrow> 's" where
  "parallel_for2 blocks body s = foldl (\<lambda>s (rws, cls). for2 rws cls body s) s blocks"

definition parallel_for3 ::
  "block3 list \<Rightarrow> (nat \<Rightarrow> nat \<Rightarrow> nat \<Rightarrow> 's \<Rightarrow> 's) \<Rightarrow> 's \<Rightarrow> 's" where
  "parallel_for3 blocks body s =
     foldl (\<lambda>s (pgs, rws, cls). for3 pgs rws cls body s) s blocks"

text \<open>
  The index tuples a loop nest visits, in order, and what the scheduler guarantees of
  its blocks: each has ordered bounds, and together they visit every index of the range
  exactly once.
\<close>

definition visit2 :: "range \<Rightarrow> range \<Rightarrow> (nat \<times> nat) list" where
  "visit2 rws cls = List.product [fst rws..<snd rws] [fst cls..<snd cls]"

definition visit3 :: "range \<Rightarrow> range \<Rightarrow> range \<Rightarrow> (nat \<times> nat \<times> nat) list" where
  "visit3 pgs rws cls = List.product [fst pgs..<snd pgs] (visit2 rws cls)"

definition ordered :: "range \<Rightarrow> bool" where
  "ordered r = (fst r \<le> snd r)"

definition visits2 :: "block2 list \<Rightarrow> (nat \<times> nat) list" where
  "visits2 blocks = concat (map (\<lambda>(rws, cls). visit2 rws cls) blocks)"

definition visits3 :: "block3 list \<Rightarrow> (nat \<times> nat \<times> nat) list" where
  "visits3 blocks = concat (map (\<lambda>(pgs, rws, cls). visit3 pgs rws cls) blocks)"

definition partition2 :: "block2 list \<Rightarrow> nat \<times> nat \<Rightarrow> bool" where
  "partition2 blocks shp =
     (list_all (\<lambda>(rws, cls). ordered rws \<and> ordered cls) blocks \<and>
      mset (visits2 blocks) = mset (visit2 (0, fst shp) (0, snd shp)))"

definition partition3 :: "block3 list \<Rightarrow> nat \<times> nat \<times> nat \<Rightarrow> bool" where
  "partition3 blocks shp =
     (list_all (\<lambda>(pgs, rws, cls). ordered pgs \<and> ordered rws \<and> ordered cls) blocks \<and>
      mset (visits3 blocks) = mset (visit3 (0, fst shp) (0, fst (snd shp)) (0, snd (snd shp))))"

text \<open>The loop nest of a stack-wide kernel under either configuration.\<close>

definition run3 ::
  "block3 build \<Rightarrow> nat \<times> nat \<times> nat \<Rightarrow> (nat \<Rightarrow> nat \<Rightarrow> nat \<Rightarrow> 's \<Rightarrow> 's) \<Rightarrow> 's \<Rightarrow> 's" where
  "run3 bld shp body s =
     (case bld of
        WithTBB blocks \<Rightarrow> parallel_for3 blocks body s
      | NoTBB \<Rightarrow> for3 (0, fst shp) (0, fst (snd shp)) (0, snd (snd shp)) body s)"

section \<open>Masking a single image\<close>

text \<open>\<^verbatim>\<open>maskImageDataZero(E& src, T lb, T ub)\<close> for an image, lines 235-251; it has no failing path.\<close>

definition maskImageDataZero_image_thr :: "fp image \<Rightarrow> fp \<Rightarrow> fp \<Rightarrow> fp image" where
  "maskImageDataZero_image_thr src lb ub =
     for2 (0, fst (shape src)) (0, snd (shape src))
       (\<lambda>j k src.
          let v = at2 src j k in
          if isnan v \<or> v < lb \<or> v > ub then put2 src j k 0 else src)
       src"

text \<open>\<^verbatim>\<open>imageDataNanMask(const E& src, N& out)\<close>, lines 210-225.\<close>

definition imageDataNanMask :: "fp image \<Rightarrow> bool image \<Rightarrow> (bool image, unit) outcome" where
  "imageDataNanMask src out =
     (case checkShape (shape2 src) (shape2 out) ''Image and output array have different shapes'' 0 of
        Some e \<Rightarrow> Raised e out
      | None \<Rightarrow>
          Returned
            (for2 (0, fst (shape src)) (0, snd (shape src))
               (\<lambda>j k out. if isnan (at2 src j k) then put2 out j k True else out)
               out)
            ())"

text \<open>\<^verbatim>\<open>maskImageDataZero(E& src, T lb, T ub, N& out)\<close>, lines 262-285.\<close>

definition maskImageDataZero_image_thr_out ::
  "fp image \<Rightarrow> fp \<Rightarrow> fp \<Rightarrow> bool image \<Rightarrow> (fp image \<times> bool image, unit) outcome" where
  "maskImageDataZero_image_thr_out src lb ub out =
     (case checkShape (shape2 src) (shape2 out) ''Image and output array have different shapes'' 0 of
        Some e \<Rightarrow> Raised e (src, out)
      | None \<Rightarrow>
          Returned
            (for2 (0, fst (shape src)) (0, snd (shape src))
               (\<lambda>j k (src, out).
                  let v = at2 src j k in
                  if isnan v \<or> v < lb \<or> v > ub then (put2 src j k 0, put2 out j k True)
                  else (src, out))
               (src, out))
            ())"

text \<open>\<^verbatim>\<open>maskImageDataNan(E& src, T lb, T ub, N& out)\<close>, lines 321-345.\<close>

definition maskImageDataNan_image_thr_out ::
  "fp image \<Rightarrow> fp \<Rightarrow> fp \<Rightarrow> bool image \<Rightarrow> (fp image \<times> bool image, unit) outcome" where
  "maskImageDataNan_image_thr_out src lb ub out =
     (case checkShape (shape2 src) (shape2 out) ''Image and output array have different shapes'' 0 of
        Some e \<Rightarrow> Raised e (src, out)
      | None \<Rightarrow>
          Returned
            (for2 (0, fst (shape src)) (0, snd (shape src))
               (\<lambda>j k (src, out).
                  let v = at2 src j k in
                  if isnan v then (src, put2 out j k True)
                  else if v < lb \<or> v > ub then (put2 src j k quiet_NaN, put2 out j k True)
                  else (src, out))
               (src, out))
            ())"

text \<open>\<^verbatim>\<open>maskImageDataZero(E& src, const M& mask)\<close> for an image, lines 354-371.\<close>

definition maskImageDataZero_image_mask ::
  "fp image \<Rightarrow> bool image \<Rightarrow> (fp image, unit) outcome" where
  "maskImageDataZero_image_mask src msk =
     (case checkShape (shape2 src) (shape2 msk) ''Image and mask have different shapes'' 0 of
        Some e \<Rightarrow> Raised e src
      | None \<Rightarrow>
          Returned
            (for2 (0, fst (shape src)) (0, snd (shape src))
               (\<lambda>j k src. if at2 msk j k \<or> isnan (at2 src j k) then put2 src j k 0 else src)
               src)
            ())"

text \<open>\<^verbatim>\<open>maskImageDataZero(E& src, const M& mask, M& out)\<close>, lines 381-403.\<close>

definition maskImageDataZero_image_mask_out ::
  "fp image \<Rightarrow> bool image \<Rightarrow> bool image \<Rightarrow> (fp image \<times> bool image, unit) outcome" where
  "maskImageDataZero_image_mask_out src msk out =
     (case checkShape (shape2 src) (shape2 msk) ''Image and mask have different shapes'' 0 of
        Some e \<Rightarrow> Raised e (src, out)
      | None \<Rightarrow>
     (case checkShape (shape2 src) (shape2 out) ''Image and output array have different shapes'' 0 of
        Some e \<Rightarrow> Raised e (src, out)
      | None \<Rightarrow>
          Returned
            (for2 (0, fst (shape src)) (0, snd (shape src))
               (\<lambda>j k (src, out).
                  if at2 msk j k \<or> isnan (at2 src j k) then (put2 src j k 0, put2 out j k True)
                  else (src, out))
               (src, out))
            ()))"

text \<open>\<^verbatim>\<open>maskImageDataNan(E& src, const M& mask)\<close> for an image, lines 411-428.\<close>

definition maskImageDataNan_image_mask ::
  "fp image \<Rightarrow> bool image \<Rightarrow> (fp image, unit) outcome" where
  "maskImageDataNan_image_mask src msk =
     (case checkShape (shape2 src) (shape2 msk) ''Image and mask have different shapes'' 0 of
        Some e \<Rightarrow> Raised e src
      | None \<Rightarrow>
          Returned
            (for2 (0, fst (shape src)) (0, snd (shape src))
               (\<lambda>j k src. if at2 msk j k then put2 src j k quiet_NaN else src)
               src)
            ())"

text \<open>
  \<^verbatim>\<open>maskImageDataNan(E& src, const M& mask, N& out)\<close>, lines 436-461. Its second branch assigns the
  NaN constant to the boolean \<^verbatim>\<open>out(j, k)\<close>; the conversion of a floating-point value
  to \<^verbatim>\<open>bool\<close> yields \<^verbatim>\<open>false\<close> for zero and \<^verbatim>\<open>true\<close> otherwise.
\<close>

definition bool_of_value :: "fp \<Rightarrow> bool" where
  "bool_of_value v = (v \<noteq> float_of 0)"

definition maskImageDataNan_image_mask_out ::
  "fp image \<Rightarrow> bool image \<Rightarrow> bool image \<Rightarrow> (fp image \<times> bool image, unit) outcome" where
  "maskImageDataNan_image_mask_out src msk out =
     (case checkShape (shape2 src) (shape2 msk) ''Image and mask have different shapes'' 0 of
        Some e \<Rightarrow> Raised e (src, out)
      | None \<Rightarrow>
     (case checkShape (shape2 src) (shape2 out) ''Image and output array have different shapes'' 0 of
        Some e \<Rightarrow> Raised e (src, out)
      | None \<Rightarrow>
          Returned
            (for2 (0, fst (shape src)) (0, snd (shape src))
               (\<lambda>j k (src, out).
                  if isnan (at2 src j k) then (src, put2 out j k True)
                  else if at2 msk j k
                    then (put2 src j k quiet_NaN, put2 out j k (bool_of_value quiet_NaN))
                  else (src, out))
               (src, out))
            ()))"

text \<open>\<^verbatim>\<open>maskImageDataZero(E& src, const M& mask, T lb, T ub)\<close> for an image, lines 472-495.\<close>

definition maskImageDataZero_image_mask_thr ::
  "fp image \<Rightarrow> bool image \<Rightarrow> fp \<Rightarrow> fp \<Rightarrow> (fp image, unit) outcome" where
  "maskImageDataZero_image_mask_thr src msk lb ub =
     (case checkShape (shape2 src) (shape2 msk) ''Image and mask have different shapes'' 0 of
        Some e \<Rightarrow> Raised e src
      | None \<Rightarrow>
          Returned
            (for2 (0, fst (shape src)) (0, snd (shape src))
               (\<lambda>j k src.
                  if at2 msk j k then put2 src j k 0
                  else
                    let v = at2 src j k in
                    if isnan v \<or> v < lb \<or> v > ub then put2 src j k 0 else src)
               src)
            ())"

text \<open>\<^verbatim>\<open>maskImageDataZero(E& src, const M& mask, T lb, T ub, N& out)\<close>, lines 507-537.\<close>

definition maskImageDataZero_image_mask_thr_out ::
  "fp image \<Rightarrow> bool image \<Rightarrow> fp \<Rightarrow> fp \<Rightarrow> bool image \<Rightarrow> (fp image \<times> bool image, unit) outcome" where
  "maskImageDataZero_image_mask_thr_out src msk lb ub out =
     (case checkShape (shape2 src) (shape2 msk) ''Image and mask have different shapes'' 0 of
        Some e \<Rightarrow> Raised e (src, out)
      | None \<Rightarrow>
     (case checkShape (shape2 src) (shape2 out) ''Image and output array have different shapes'' 0 of
        Some e \<Rightarrow> Raised e (src, out)
      | None \<Rightarrow>
          Returned
            (for2 (0, fst (shape src)) (0, snd (shape src))
               (\<lambda>j k (src, out).
                  if at2 msk j k then (put2 src j k 0, put2 out j k True)
                  else
                    let v = at2 src j k in
                    if isnan v \<or> v < lb \<or> v > ub then (put2 src j k 0, put2 out j k True)
                    else (src, out))
               (src, out))
            ()))"

text \<open>\<^verbatim>\<open>maskImageDataNan(E& src, const M& mask, T lb, T ub)\<close> for an image, lines 547-571.\<close>

definition maskImageDataNan_image_mask_thr ::
  "fp image \<Rightarrow> bool image \<Rightarrow> fp \<Rightarrow> fp \<Rightarrow> (fp image, unit) outcome" where
  "maskImageDataNan_image_mask_thr src msk lb ub =
     (case checkShape (shape2 src) (shape2 msk) ''Image and mask have different shapes'' 0 of
        Some e \<Rightarrow> Raised e src
      | None \<Rightarrow>
          Returned
            (for2 (0, fst (shape src)) (0, snd (shape src))
               (\<lambda>j k src.
                  if at2 msk j k then put2 src j k quiet_NaN
                  else
                    let v = at2 src j k in
                    if isnan v then src
                    else if v < lb \<or> v > ub then put2 src j k quiet_NaN
                    else src)
               src)
            ())"

text \<open>
  \<^verbatim>\<open>maskImageDataNan(E& src, const M& mask, T lb, T ub, N& out)\<close>, lines 581-611: mask and
  threshold with NaN, recording the invalidated pixels in \<open>out\<close>.
\<close>

definition maskImageDataNan_image_mask_thr_out ::
  "fp image \<Rightarrow> bool image \<Rightarrow> fp \<Rightarrow> fp \<Rightarrow> bool image \<Rightarrow> (fp image \<times> bool image, unit) outcome" where
  "maskImageDataNan_image_mask_thr_out src msk lb ub out =
     (case checkShape (shape2 src) (shape2 msk) ''Image and mask have different shapes'' 0 of
        Some e \<Rightarrow> Raised e (src, out)
      | None \<Rightarrow>
     (case checkShape (shape2 src) (shape2 out) ''Image and output array have different shapes'' 0 of
        Some e \<Rightarrow> Raised e (src, out)
      | None \<Rightarrow>
          Returned
            (for2 (0, fst (shape src)) (0, snd (shape src))
               (\<lambda>j k (src, out).
                  let v = at2 src j k in
                  if at2 msk j k then (put2 src j k quiet_NaN, put2 out j k True)
                  else if isnan v then (src, put2 out j k True)
                  else if v < lb \<or> v > ub then (put2 src j k quiet_NaN, put2 out j k True)
                  else (src, out))
               (src, out))
            ()))"

section \<open>Masking an array of images\<close>

text \<open>
  The boolean mask of a stack-wide kernel is an image mask, compared with the last two
  extents of the stack and read at \<open>(j, k)\<close> for every frame \<open>i\<close>.
\<close>

text \<open>
  Modelled from the spec: without TBB the kernels that take no mask assign through
  \<^verbatim>\<open>xt::filter(src, condition) = value\<close>, an xtensor library expression that is not
  among the sources. Following section 4.6 of the specification it is the same
  operation as one pass over the whole array: every element of the container that
  satisfies the condition is assigned the value.
\<close>

definition xt_filter_assign :: "fp image_array \<Rightarrow> (fp \<Rightarrow> bool) \<Rightarrow> fp \<Rightarrow> fp image_array" where
  "xt_filter_assign a cond v =
     a\<lparr>elems :=
         (\<lambda>(i, j, k).
            if i < fst (shape a) \<and> j < fst (snd (shape a)) \<and> k < snd (snd (shape a)) \<and>
               cond (elems a (i, j, k))
            then v else elems a (i, j, k))\<rparr>"

text \<open>\<^verbatim>\<open>maskImageDataZero(E& src)\<close> for an image array, lines 618-643; no failing path.\<close>

definition maskImageDataZero_array :: "block3 build \<Rightarrow> fp image_array \<Rightarrow> fp image_array" where
  "maskImageDataZero_array bld src =
     (case bld of
        WithTBB blocks \<Rightarrow>
          parallel_for3 blocks
            (\<lambda>i j k src. if isnan (at3 src i j k) then put3 src i j k 0 else src)
            src
      | NoTBB \<Rightarrow> xt_filter_assign src isnan 0)"

text \<open>\<^verbatim>\<open>maskImageDataZero(E& src, T lb, T ub)\<close> for an image array, lines 661-689.\<close>

definition maskImageDataZero_array_thr ::
  "block3 build \<Rightarrow> fp image_array \<Rightarrow> fp \<Rightarrow> fp \<Rightarrow> fp image_array" where
  "maskImageDataZero_array_thr bld src lb ub =
     (case bld of
        WithTBB blocks \<Rightarrow>
          parallel_for3 blocks
            (\<lambda>i j k src.
               let v = at3 src i j k in
               if isnan v \<or> v < lb \<or> v > ub then put3 src i j k 0 else src)
            src
      | NoTBB \<Rightarrow> xt_filter_assign src (\<lambda>v. isnan v \<or> v < lb \<or> v > ub) 0)"

text \<open>\<^verbatim>\<open>maskImageDataNan(E& src, T lb, T ub)\<close> for an image array, lines 698-728.\<close>

definition maskImageDataNan_array_thr ::
  "block3 build \<Rightarrow> fp image_array \<Rightarrow> fp \<Rightarrow> fp \<Rightarrow> fp image_array" where
  "maskImageDataNan_array_thr bld src lb ub =
     (case bld of
        WithTBB blocks \<Rightarrow>
          parallel_for3 blocks
            (\<lambda>i j k src.
               let v = at3 src i j k in
               if isnan v then src
               else if v < lb \<or> v > ub then put3 src i j k quiet_NaN
               else src)
            src
      | NoTBB \<Rightarrow> xt_filter_assign src (\<lambda>v. v < lb \<or> v > ub) quiet_NaN)"

text \<open>\<^verbatim>\<open>maskImageDataZero(E& src, const M& mask)\<close> for an image array, lines 737-773.\<close>

definition maskImageDataZero_array_mask ::
  "block3 build \<Rightarrow> fp image_array \<Rightarrow> bool image \<Rightarrow> (fp image_array, unit) outcome" where
  "maskImageDataZero_array_mask bld src msk =
     (case checkShape (shape3 src) (shape2 msk) ''Image and mask have different shapes'' 1 of
        Some e \<Rightarrow> Raised e src
      | None \<Rightarrow>
          Returned
            (run3 bld (shape src)
               (\<lambda>i j k src.
                  if at2 msk j k \<or> isnan (at3 src i j k) then put3 src i j k 0 else src)
               src)
            ())"

text \<open>\<^verbatim>\<open>maskImageDataNan(E& src, const M& mask)\<close> for an image array, lines 781-817.\<close>

definition maskImageDataNan_array_mask ::
  "block3 build \<Rightarrow> fp image_array \<Rightarrow> bool image \<Rightarrow> (fp image_array, unit) outcome" where
  "maskImageDataNan_array_mask bld src msk =
     (case checkShape (shape3 src) (shape2 msk) ''Image and mask have different shapes'' 1 of
        Some e \<Rightarrow> Raised e src
      | None \<Rightarrow>
          Returned
            (run3 bld (shape src)
               (\<lambda>i j k src. if at2 msk j k then put3 src i j k quiet_NaN else src)
               src)
            ())"

text \<open>\<^verbatim>\<open>maskImageDataZero(E& src, const M& mask, T lb, T ub)\<close> for an image array, lines 826-869.\<close>

definition maskImageDataZero_array_mask_thr ::
  "block3 build \<Rightarrow> fp image_array \<Rightarrow> bool image \<Rightarrow> fp \<Rightarrow> fp \<Rightarrow> (fp image_array, unit) outcome" where
  "maskImageDataZero_array_mask_thr bld src msk lb ub =
     (case checkShape (shape3 src) (shape2 msk) ''Image and mask have different shapes'' 1 of
        Some e \<Rightarrow> Raised e src
      | None \<Rightarrow>
          Returned
            (run3 bld (shape src)
               (\<lambda>i j k src.
                  if at2 msk j k then put3 src i j k 0
                  else
                    let v = at3 src i j k in
                    if isnan v \<or> v < lb \<or> v > ub then put3 src i j k 0 else src)
               src)
            ())"

text \<open>\<^verbatim>\<open>maskImageDataNan(E& src, const M& mask, T lb, T ub)\<close> for an image array, lines 877-921.\<close>

definition maskImageDataNan_array_mask_thr ::
  "block3 build \<Rightarrow> fp image_array \<Rightarrow> bool image \<Rightarrow> fp \<Rightarrow> fp \<Rightarrow> (fp image_array, unit) outcome" where
  "maskImageDataNan_array_mask_thr bld src msk lb ub =
     (case checkShape (shape3 src) (shape2 msk) ''Image and mask have different shapes'' 1 of
        Some e \<Rightarrow> Raised e src
      | None \<Rightarrow>
          Returned
            (run3 bld (shape src)
               (\<lambda>i j k src.
                  if at2 msk j k then put3 src i j k quiet_NaN
                  else
                    let v = at3 src i j k in
                    if isnan v then src
                    else if v < lb \<or> v > ub then put3 src i j k quiet_NaN
                    else src)
               src)
            ())"

section \<open>Moving average\<close>

text \<open>\<^verbatim>\<open>movingAvgImageData(E& src, const E& data, size_t count)\<close> for an image, lines 930-947.\<close>

definition movingAvgImageData_image ::
  "fp image \<Rightarrow> fp image \<Rightarrow> nat \<Rightarrow> (fp image, unit) outcome" where
  "movingAvgImageData_image src data cnt =
     (if cnt = 0 then Raised (InvalidArgument '''count' cannot be zero!'') src
      else
     (case checkShape (shape2 src) (shape2 data) ''Inconsistent data shapes'' 0 of
        Some e \<Rightarrow> Raised e src
      | None \<Rightarrow>
          Returned
            (for2 (0, fst (shape src)) (0, snd (shape src))
               (\<lambda>j k src.
                  put2 src j k
                    (at2 src j k + (at2 data j k - at2 src j k) / value_of_count cnt))
               src)
            ()))"

text \<open>
  \<^verbatim>\<open>movingAvgImageData(E& src, const E& data, size_t count)\<close> for an image array,
  lines 956-992.
\<close>

definition movingAvgImageData_array ::
  "block3 build \<Rightarrow> fp image_array \<Rightarrow> fp image_array \<Rightarrow> nat \<Rightarrow> (fp image_array, unit) outcome" where
  "movingAvgImageData_array bld src data cnt =
     (if cnt = 0 then Raised (InvalidArgument '''count' cannot be zero!'') src
      else
     (case checkShape (shape3 src) (shape3 data) ''Inconsistent data shapes'' 0 of
        Some e \<Rightarrow> Raised e src
      | None \<Rightarrow>
          Returned
            (run3 bld (shape src)
               (\<lambda>i j k src.
                  put3 src i j k
                    (at3 src i j k + (at3 data i j k - at3 src i j k) / value_of_count cnt))
               src)
            ()))"

section \<open>Gain and offset correction\<close>

datatype policy = OffsetPolicy | GainPolicy

text \<open>\<^verbatim>\<open>Policy::correct(v, a)\<close> of the two policy classes, lines 994-1008.\<close>

fun correct :: "policy \<Rightarrow> fp \<Rightarrow> fp \<Rightarrow> fp" where
  "correct OffsetPolicy v a = v - a"
| "correct GainPolicy v a = v * a"

text \<open>
  \<^verbatim>\<open>correctImageData<Policy>(E& src, const E& constants)\<close> for an image array,
  lines 1018-1051.
\<close>

definition correctImageData_policy_array ::
  "block3 build \<Rightarrow> policy \<Rightarrow> fp image_array \<Rightarrow> fp image_array \<Rightarrow> (fp image_array, unit) outcome" where
  "correctImageData_policy_array bld pol src constants =
     (case checkShape (shape3 src) (shape3 constants) ''data and constants have different shapes'' 0 of
        Some e \<Rightarrow> Raised e src
      | None \<Rightarrow>
          Returned
            (run3 bld (shape src)
               (\<lambda>i j k src. put3 src i j k (correct pol (at3 src i j k) (at3 constants i j k)))
               src)
            ())"

text \<open>\<^verbatim>\<open>correctImageData<Policy>(E& src, const E& constants)\<close> for an image, lines 1061-1075.\<close>

definition correctImageData_policy_image ::
  "policy \<Rightarrow> fp image \<Rightarrow> fp image \<Rightarrow> (fp image, unit) outcome" where
  "correctImageData_policy_image pol src constants =
     (case checkShape (shape2 src) (shape2 constants) ''data and constants have different shapes'' 0 of
        Some e \<Rightarrow> Raised e src
      | None \<Rightarrow>
          Returned
            (for2 (0, fst (shape src)) (0, snd (shape src))
               (\<lambda>j k src. put2 src j k (correct pol (at2 src j k) (at2 constants j k)))
               src)
            ())"

text \<open>
  \<^verbatim>\<open>correctImageData(E& src, const E& gain, const E& offset)\<close> for an image array,
  lines 1084-1118.
\<close>

definition correctImageData_array ::
  "block3 build \<Rightarrow> fp image_array \<Rightarrow> fp image_array \<Rightarrow> fp image_array \<Rightarrow> (fp image_array, unit) outcome" where
  "correctImageData_array bld src gain offset =
     (case checkShape (shape3 src) (shape3 gain) ''data and gain constants have different shapes'' 0 of
        Some e \<Rightarrow> Raised e src
      | None \<Rightarrow>
     (case checkShape (shape3 src) (shape3 offset) ''data and offset constants have different shapes'' 0 of
        Some e \<Rightarrow> Raised e src
      | None \<Rightarrow>
          Returned
            (run3 bld (shape src)
               (\<lambda>i j k src.
                  put3 src i j k (at3 gain i j k * (at3 src i j k - at3 offset i j k)))
               src)
            ()))"

text \<open>
  \<^verbatim>\<open>correctImageData(E& src, const E& gain, const E& offset)\<close> for an image,
  lines 1127-1142.
\<close>

definition correctImageData_image ::
  "fp image \<Rightarrow> fp image \<Rightarrow> fp image \<Rightarrow> (fp image, unit) outcome" where
  "correctImageData_image src gain offset =
     (case checkShape (shape2 src) (shape2 gain) ''data and gain constants have different shapes'' 0 of
        Some e \<Rightarrow> Raised e src
      | None \<Rightarrow>
     (case checkShape (shape2 src) (shape2 offset) ''data and offset constants have different shapes'' 0 of
        Some e \<Rightarrow> Raised e src
      | None \<Rightarrow>
          Returned
            (for2 (0, fst (shape src)) (0, snd (shape src))
               (\<lambda>j k src.
                  put2 src j k (at2 gain j k * (at2 src j k - at2 offset j k)))
               src)
            ()))"

section \<open>NaN-aware mean\<close>

text \<open>
  \<^verbatim>\<open>detail::nanmeanImageArrayImp(E&& src, const std::vector<size_t>& keep)\<close>, lines
  36-89, which exists only with \<^verbatim>\<open>FOAM_WITH_TBB\<close>. The result \<^verbatim>\<open>mean\<close> is allocated with
  \<^verbatim>\<open>from_shape\<close>, which leaves its elements uninitialised: \<open>fresh\<close> stands for
  that storage. An empty \<open>keep\<close> selects every frame.
\<close>

definition nanmeanImageArrayImp ::
  "block2 list \<Rightarrow> fp image \<Rightarrow> fp image_array \<Rightarrow> nat list \<Rightarrow> fp image" where
  "nanmeanImageArrayImp blocks fresh src keep =
     parallel_for2 blocks
       (\<lambda>j k mean.
          let accumulate = (\<lambda>(cnt, total) i.
                 let v = at3 src i j k in
                 if \<not> isnan v then (cnt + 1, total + v) else (cnt, total));
              (cnt, total) =
                 (if keep = []
                  then for_loop 0 (fst (shape src)) (\<lambda>i acc. accumulate acc i) (0::nat, 0)
                  else foldl accumulate (0::nat, 0) keep)
          in if cnt = 0 then put2 mean j k quiet_NaN
             else put2 mean j k (total / value_of_count cnt))
       (fresh\<lparr>shape := (fst (snd (shape src)), snd (snd (shape src)))\<rparr>)"

text \<open>
  The sequential branches of the aggregation kernels are written with xtensor
  expressions: \<^verbatim>\<open>xt::nanmean\<close> along axis 0, \<^verbatim>\<open>xt::view\<close> with \<^verbatim>\<open>xt::keep\<close>, and
  \<^verbatim>\<open>xt::stack\<close>. xtensor is a library and not among the sources; the four
  definitions that follow stand for these expressions.
\<close>

text \<open>
  Modelled from the spec: \<^verbatim>\<open>xt::nanmean<value_type>\<close> on the values along the
  reduced axis. Following section 4.3 of the specification, the mean averages the values
  that are not NaN and is NaN when there is none. The sum is taken in the element type,
  from 0 and in the order of the axis.
\<close>

definition xt_nanmean_values :: "fp list \<Rightarrow> fp" where
  "xt_nanmean_values vs =
     (let good = filter (\<lambda>v. \<not> isnan v) vs in
      if good = [] then quiet_NaN
      else foldl (\<lambda>total v. total + v) 0 good / value_of_count (length good))"

text \<open>
  Modelled from the spec: \<^verbatim>\<open>xt::eval(xt::nanmean<value_type>(a, 0))\<close>, the image
  whose pixel \<open>(j, k)\<close> is the NaN-aware mean of the values \<open>a(i, j, k)\<close> over the
  frames \<open>i\<close> of \<open>a\<close> (section 4.3 of the specification).
\<close>

definition xt_nanmean_axis0 :: "fp image_array \<Rightarrow> fp image" where
  "xt_nanmean_axis0 a =
     \<lparr>shape = snd (shape a),
      elems = (\<lambda>(j, k). xt_nanmean_values (map (\<lambda>i. at3 a i j k) [0..<fst (shape a)]))\<rparr>"

text \<open>
  Modelled from the spec: \<^verbatim>\<open>xt::view(src, xt::keep(keep), xt::all(), xt::all())\<close>,
  the stack of the frames of \<open>src\<close> at the indices listed in \<open>keep\<close>, in that order
  (section 4.3 of the specification: the frame indices in \<open>keep\<close>).
\<close>

definition xt_view_keep :: "fp image_array \<Rightarrow> nat list \<Rightarrow> fp image_array" where
  "xt_view_keep a keep =
     \<lparr>shape = (length keep, snd (shape a)),
      elems = (\<lambda>(i, j, k). at3 a (keep ! i) j k)\<rparr>"

text \<open>
  Modelled from the spec: \<^verbatim>\<open>xt::stack(xt::xtuple(src1, src2))\<close>, the stack whose
  frames 0 and 1 are the two images (section 4.3 of the specification: the pairwise
  mean is the mean over the two images at each pixel).
\<close>

definition xt_stack :: "fp image \<Rightarrow> fp image \<Rightarrow> fp image_array" where
  "xt_stack a b =
     \<lparr>shape = (2, shape a),
      elems = (\<lambda>(i, j, k). if i = 0 then at2 a j k else at2 b j k)\<rparr>"

text \<open>
  \<^verbatim>\<open>nanmeanImageArray(E&& src, const std::vector<size_t>& keep)\<close>, lines 101-112. The
  stack is only read, and handed back unchanged with either outcome.
\<close>

definition nanmeanImageArray_keep ::
  "block2 build \<Rightarrow> fp image \<Rightarrow> fp image_array \<Rightarrow> nat list \<Rightarrow> (fp image_array, fp image) outcome" where
  "nanmeanImageArray_keep bld fresh src keep =
     (case bld of
        WithTBB blocks \<Rightarrow>
          if keep = [] then Raised (InvalidArgument ''keep cannot be empty!'') src
          else Returned src (nanmeanImageArrayImp blocks fresh src keep)
      | NoTBB \<Rightarrow> Returned src (xt_nanmean_axis0 (xt_view_keep src keep)))"

text \<open>\<^verbatim>\<open>nanmeanImageArray(E&& src)\<close>, lines 114-123.\<close>

definition nanmeanImageArray_all ::
  "block2 build \<Rightarrow> fp image \<Rightarrow> fp image_array \<Rightarrow> (fp image_array, fp image) outcome" where
  "nanmeanImageArray_all bld fresh src =
     (case bld of
        WithTBB blocks \<Rightarrow> Returned src (nanmeanImageArrayImp blocks fresh src [])
      | NoTBB \<Rightarrow> Returned src (xt_nanmean_axis0 src))"

text \<open>\<^verbatim>\<open>nanmeanImageArray(E&& src1, E&& src2)\<close> for two images, lines 132-170.\<close>

definition nanmeanImageArray_pair ::
  "block2 build \<Rightarrow> fp image \<Rightarrow> fp image \<Rightarrow> fp image \<Rightarrow> (fp image \<times> fp image, fp image) outcome" where
  "nanmeanImageArray_pair bld fresh src1 src2 =
     (case checkShape (shape2 src1) (shape2 src2) ''Images have different shapes'' 0 of
        Some e \<Rightarrow> Raised e (src1, src2)
      | None \<Rightarrow>
     (case bld of
        WithTBB blocks \<Rightarrow>
          Returned (src1, src2)
            (parallel_for2 blocks
               (\<lambda>j k mean.
                  let x = at2 src1 j k; y = at2 src2 j k in
                  if isnan x \<and> isnan y then put2 mean j k quiet_NaN
                  else if isnan x then put2 mean j k y
                  else if isnan y then put2 mean j k x
                  else put2 mean j k (value_half * (x + y)))
               (fresh\<lparr>shape := shape src1\<rparr>))
      | NoTBB \<Rightarrow> Returned (src1, src2) (xt_nanmean_axis0 (xt_stack src1 src2))))"

section \<open>Loop nests as traversals\<close>

text \<open>
  Every loop body of the kernels reads and writes the buffers at the current index only.
  \<open>pw1\<close> and \<open>pw2\<close> are the general shapes of such a body over one and over two
  mutable buffers; \<open>map_on\<close> and \<open>map_on2\<close> are what a traversal that visits each
  index of a set once makes of them.
\<close>

definition pw1 :: "('i \<Rightarrow> 'a \<Rightarrow> 'a) \<Rightarrow> 'i \<Rightarrow> ('i, 'a) tensor \<Rightarrow> ('i, 'a) tensor" where
  "pw1 F p a = a\<lparr>elems := (elems a)(p := F p (elems a p))\<rparr>"

definition pw2 ::
  "('i \<Rightarrow> 'a \<Rightarrow> 'b \<Rightarrow> 'a) \<Rightarrow> ('i \<Rightarrow> 'a \<Rightarrow> 'b \<Rightarrow> 'b) \<Rightarrow> 'i
   \<Rightarrow> ('i, 'a) tensor \<times> ('i, 'b) tensor \<Rightarrow> ('i, 'a) tensor \<times> ('i, 'b) tensor" where
  "pw2 F G p s =
     ((fst s)\<lparr>elems := (elems (fst s))(p := F p (elems (fst s) p) (elems (snd s) p))\<rparr>,
      (snd s)\<lparr>elems := (elems (snd s))(p := G p (elems (fst s) p) (elems (snd s) p))\<rparr>)"

definition map_on :: "'i set \<Rightarrow> ('i \<Rightarrow> 'a \<Rightarrow> 'a) \<Rightarrow> ('i, 'a) tensor \<Rightarrow> ('i, 'a) tensor" where
  "map_on S F a = a\<lparr>elems := (\<lambda>p. if p \<in> S then F p (elems a p) else elems a p)\<rparr>"

definition map_on2 ::
  "'i set \<Rightarrow> ('i \<Rightarrow> 'a \<Rightarrow> 'b \<Rightarrow> 'a) \<Rightarrow> ('i \<Rightarrow> 'a \<Rightarrow> 'b \<Rightarrow> 'b)
   \<Rightarrow> ('i, 'a) tensor \<times> ('i, 'b) tensor \<Rightarrow> ('i, 'a) tensor \<times> ('i, 'b) tensor" where
  "map_on2 S F G s =
     ((fst s)\<lparr>elems :=
         (\<lambda>p. if p \<in> S then F p (elems (fst s) p) (elems (snd s) p) else elems (fst s) p)\<rparr>,
      (snd s)\<lparr>elems :=
         (\<lambda>p. if p \<in> S then G p (elems (fst s) p) (elems (snd s) p) else elems (snd s) p)\<rparr>)"

definition inside2 :: "nat \<times> nat \<Rightarrow> (nat \<times> nat) set" where
  "inside2 shp = {(j, k). j < fst shp \<and> k < snd shp}"

definition inside3 :: "nat \<times> nat \<times> nat \<Rightarrow> (nat \<times> nat \<times> nat) set" where
  "inside3 shp = {(i, j, k). i < fst shp \<and> j < fst (snd shp) \<and> k < snd (snd shp)}"

text \<open>A build configuration whose blocks, if any, partition the range of the call.\<close>

definition valid2 :: "block2 build \<Rightarrow> nat \<times> nat \<Rightarrow> bool" where
  "valid2 bld shp = (case bld of WithTBB blocks \<Rightarrow> partition2 blocks shp | NoTBB \<Rightarrow> True)"

definition valid3 :: "block3 build \<Rightarrow> nat \<times> nat \<times> nat \<Rightarrow> bool" where
  "valid3 bld shp = (case bld of WithTBB blocks \<Rightarrow> partition3 blocks shp | NoTBB \<Rightarrow> True)"

section \<open>The mean of the specification\<close>

text \<open>
  The sum of a sequence of values as the kernels accumulate it, from 0 and in order,
  every addition rounded, and the NaN-aware mean of the specification in these terms.
\<close>

definition fp_sum :: "fp list \<Rightarrow> fp" where
  "fp_sum vs = foldl (\<lambda>total v. total + v) 0 vs"

definition nanmean_of :: "fp list \<Rightarrow> fp" where
  "nanmean_of vs =
     (let good = filter (\<lambda>v. \<not> isnan v) vs in
      if good = [] then NaN else fp_sum good / value_of_count (length good))"

text \<open>
  The real number of a finite value, and the sequences whose accumulation from \<open>t\<close>
  never rounds: every value is finite, and every partial sum is a finite value as it
  stands.
\<close>

fun finite_value :: "fp \<Rightarrow> real" where
  "finite_value (Fin a) = Rep_float32 a"
| "finite_value _ = 0"

fun exact_sums :: "real \<Rightarrow> fp list \<Rightarrow> bool" where
  "exact_sums t [] = True"
| "exact_sums t (Fin a # vs) =
     (nearest_float (t + Rep_float32 a) = Some (t + Rep_float32 a) \<and>
      exact_sums (t + Rep_float32 a) vs)"
| "exact_sums t (_ # vs) = False"

section \<open>Example buffers and schedules\<close>

text \<open>\<^verbatim>\<open>FLT_MAX\<close>, the largest finite value of the element type.\<close>

definition FLT_MAX :: real where
  "FLT_MAX = (2 ^ 24 - 1) * 2 ^ 104"


definition image_of_row :: "'a list \<Rightarrow> 'a image" where
  "image_of_row vs = \<lparr>shape = (1, length vs), elems = (\<lambda>(j, k). vs ! k)\<rparr>"

definition array_of_frames :: "'a list list \<Rightarrow> 'a image_array" where
  "array_of_frames fs =
     \<lparr>shape = (length fs, 1, length (hd fs)), elems = (\<lambda>(i, j, k). fs ! i ! k)\<rparr>"

definition constant_image :: "nat \<times> nat \<Rightarrow> 'a \<Rightarrow> 'a image" where
  "constant_image shp v = \<lparr>shape = shp, elems = (\<lambda>p. v)\<rparr>"

text \<open>Two blocks for a stack of two frames of one row and two columns, last frame first.\<close>

definition example_blocks3 :: "block3 list" where
  "example_blocks3 = [((1, 2), (0, 1), (0, 2)), ((0, 1), (0, 1), (0, 2))]"

text \<open>An example schedule for one row of three columns, last two columns first.\<close>

definition example_blocks2 :: "block2 list" where
  "example_blocks2 = [((0, 1), (1, 3)), ((0, 1), (0, 1))]"

section \<open>Rounding\<close>

text \<open>The exponent that the search finds is the least one that fits.\<close>

lemma binade_from_Some:
  "binade_from k0 y = Some k \<longleftrightarrow>
     k0 \<le> k \<and> k < 254 \<and> y < 2 ^ (24 + k) \<and> (\<forall>i. k0 \<le> i \<and> i < k \<longrightarrow> \<not> y < 2 ^ (24 + i))"
proof (induction k0 y rule: binade_from.induct)
  case (1 k0 y)
  show ?case
  proof (cases "254 \<le> k0")
    case True
    then show ?thesis
      by (subst binade_from.simps) auto
  next
    case False
    show ?thesis
    proof (cases "y < 2 ^ (24 + k0)")
      case True
      have "binade_from k0 y = Some k0"
        using False True by (subst binade_from.simps) simp
      moreover have "k0 = k" if "k0 \<le> k" "\<forall>i. k0 \<le> i \<and> i < k \<longrightarrow> \<not> y < 2 ^ (24 + i)"
        using that True by (metis le_neq_implies_less order_refl)
      ultimately show ?thesis
        using False True by auto
    next
      case ny: False
      have step: "binade_from k0 y = binade_from (Suc k0) y"
        using False ny by (subst binade_from.simps) simp
      have "(Suc k0 \<le> k \<and> k < 254 \<and> y < 2 ^ (24 + k) \<and>
             (\<forall>i. Suc k0 \<le> i \<and> i < k \<longrightarrow> \<not> y < 2 ^ (24 + i)))
          = (k0 \<le> k \<and> k < 254 \<and> y < 2 ^ (24 + k) \<and>
             (\<forall>i. k0 \<le> i \<and> i < k \<longrightarrow> \<not> y < 2 ^ (24 + i)))"
        using ny by (metis Suc_leD Suc_leI le_neq_implies_less)
      then show ?thesis
        using 1 [OF False ny] step by simp
    qed
  qed
qed

text \<open>
  Rounding is idempotent: what it returns is a finite value, so the results of the
  arithmetic operators are values of the element type.
\<close>

lemma rne_of_int: "rne (of_int m) = m"
  by (simp add: rne_def)

lemma rne_lower: "of_int l \<le> q \<Longrightarrow> l \<le> rne q"
proof -
  assume "of_int l \<le> q"
  then have "l \<le> \<lfloor>q\<rfloor>"
    by (simp add: le_floor_iff)
  then show ?thesis
    by (simp add: rne_def Let_def)
qed

lemma rne_upper: "q < of_int u \<Longrightarrow> rne q \<le> u"
proof -
  assume "q < of_int u"
  then have "\<lfloor>q\<rfloor> < u"
    by (simp add: floor_less_iff)
  then show ?thesis
    by (simp add: rne_def Let_def)
qed

lemma nearest_float_idem:
  assumes "nearest_float x = Some y"
  shows "nearest_float y = Some y"
proof -
  define y0 where "y0 = \<bar>x\<bar> * 2 ^ 149"
  from assms obtain k where bk: "binade_from 0 y0 = Some k"
    by (auto simp: nearest_float_def y0_def split: option.splits)
  define m where "m = rne (y0 / 2 ^ k)"
  define r where "r = real_of_int m * 2 ^ k / 2 ^ 149"
  from assms bk have nov: "\<not> (k = 253 \<and> m = 2 ^ 24)" and y: "y = (if x < 0 then - r else r)"
    by (auto simp: nearest_float_def y0_def m_def r_def Let_def split: if_splits)
  from bk have k: "k < 254" "y0 < 2 ^ (24 + k)" "\<And>i. i < k \<Longrightarrow> 2 ^ (24 + i) \<le> y0"
    by (auto simp: binade_from_Some not_less)
  have y0: "0 \<le> y0"
    by (simp add: y0_def)
  have qu: "y0 / 2 ^ k < real_of_int (2 ^ 24)"
    using k(2) by (simp add: power_add pos_divide_less_eq)
  have m0: "0 \<le> m"
    unfolding m_def using y0 by (intro rne_lower) simp
  have mu: "m \<le> 2 ^ 24"
    unfolding m_def using qu by (rule rne_upper)
  have ml: "2 ^ 23 \<le> m" if "0 < k"
  proof -
    from that obtain i where i: "k = Suc i"
      by (cases k) auto
    then have "2 ^ (24 + i) \<le> y0"
      using k(3) [of i] by simp
    then have "real_of_int (2 ^ 23) \<le> y0 / 2 ^ k"
      by (simp add: i power_add pos_le_divide_eq)
    then show ?thesis
      unfolding m_def by (rule rne_lower)
  qed
  have r0: "0 \<le> r"
    using m0 by (simp add: r_def)
  have absy: "\<bar>y\<bar> * 2 ^ 149 = real_of_int m * 2 ^ k"
    using r0 by (auto simp: y r_def)
  have sgn: "(if y < 0 then - r else r) = y"
    using r0 by (auto simp: y)
  show ?thesis
  proof (cases "m = 2 ^ 24")
    case False
    with mu have lt: "m < 2 ^ 24"
      by simp
    then have lt': "real_of_int m < 2 ^ 24"
      by (metis of_int_less_iff of_int_numeral of_int_power)
    have low: "2 ^ (24 + i) \<le> real_of_int m * 2 ^ k" if "i < k" for i
    proof -
      from that have "0 < k"
        by simp
      then have "(2::real) ^ 23 \<le> real_of_int m"
        using ml by (metis of_int_le_iff of_int_numeral of_int_power)
      then have "(2::real) ^ 23 * 2 ^ k \<le> real_of_int m * 2 ^ k"
        by simp
      then have "(2::real) ^ (23 + k) \<le> real_of_int m * 2 ^ k"
        by (simp only: power_add)
      moreover have "(2::real) ^ (24 + i) \<le> 2 ^ (23 + k)"
        using that by (intro power_increasing) simp_all
      ultimately show ?thesis
        by (rule order_trans [rotated])
    qed
    have b: "binade_from 0 (real_of_int m * 2 ^ k) = Some k"
      unfolding binade_from_Some using k(1) lt' low by (auto simp: power_add not_less)
    have "nearest_float y = Some (if y < 0 then - r else r)"
      unfolding nearest_float_def absy b using lt by (simp add: rne_of_int r_def)
    then show ?thesis
      using sgn by simp
  next
    case True
    with nov k(1) have k': "Suc k < 254"
      by simp
    have v: "real_of_int m * 2 ^ k = 2 ^ (24 + k)"
      by (simp add: True power_add)
    have b: "binade_from 0 (real_of_int m * 2 ^ k) = Some (Suc k)"
      unfolding binade_from_Some v using k'
      by (auto simp: not_less intro!: power_increasing)
    have q: "(2::real) ^ (24 + k) / 2 ^ Suc k = real_of_int (2 ^ 23)"
      by (simp add: power_add)
    have rr: "r = 2 ^ 23 * 2 ^ Suc k / 2 ^ 149"
      by (simp add: r_def True)
    have "rne (real_of_int m * 2 ^ k / 2 ^ Suc k) = 2 ^ 23"
      unfolding v q by (rule rne_of_int)
    then have "nearest_float y = Some (if y < 0 then - r else r)"
      unfolding nearest_float_def absy b by (simp add: rr)
    then show ?thesis
      using sgn by simp
  qed
qed

text \<open>
  Rounding moves a number by at most half a unit in the last place of its exponent.
\<close>

lemma rne_error: "\<bar>q - real_of_int (rne q)\<bar> \<le> 1 / 2"
proof -
  have "real_of_int \<lfloor>q\<rfloor> \<le> q" and "q < real_of_int \<lfloor>q\<rfloor> + 1"
    by linarith+
  then show ?thesis
    by (auto simp: rne_def Let_def)
qed

lemma nearest_float_error:
  assumes "nearest_float x = Some y"
  shows "\<exists>k<254. binade_from 0 (\<bar>x\<bar> * 2 ^ 149) = Some k \<and> \<bar>x - y\<bar> \<le> 2 ^ k / 2 ^ 150"
proof -
  define c :: real where "c = 2 ^ 149"
  have c: "0 < c"
    by (simp add: c_def)
  from assms obtain k where bk: "binade_from 0 (\<bar>x\<bar> * c) = Some k"
    by (auto simp: nearest_float_def c_def split: option.splits)
  define m where "m = rne (\<bar>x\<bar> * c / 2 ^ k)"
  define r where "r = real_of_int m * 2 ^ k / c"
  from assms bk have y: "y = (if x < 0 then - r else r)"
    by (auto simp: nearest_float_def c_def m_def r_def Let_def split: if_splits)
  have "\<bar>\<bar>x\<bar> * c / 2 ^ k - real_of_int m\<bar> \<le> 1 / 2"
    unfolding m_def by (rule rne_error)
  then have "\<bar>\<bar>x\<bar> * c / 2 ^ k - real_of_int m\<bar> * (2 ^ k / c) \<le> 1 / 2 * (2 ^ k / c)"
    using c by (intro mult_right_mono) simp_all
  moreover have "\<bar>\<bar>x\<bar> * c / 2 ^ k - real_of_int m\<bar> * (2 ^ k / c) = \<bar>\<bar>x\<bar> - r\<bar>"
  proof -
    have "\<bar>\<bar>x\<bar> * c / 2 ^ k - real_of_int m\<bar> * (2 ^ k / c)
        = \<bar>(\<bar>x\<bar> * c / 2 ^ k - real_of_int m) * (2 ^ k / c)\<bar>"
      using c by (simp add: abs_mult)
    also have "(\<bar>x\<bar> * c / 2 ^ k - real_of_int m) * (2 ^ k / c) = \<bar>x\<bar> - r"
      using c by (simp add: r_def field_simps)
    finally show ?thesis .
  qed
  ultimately have e: "\<bar>\<bar>x\<bar> - r\<bar> \<le> 2 ^ k / (2 * c)"
    by simp
  have "\<bar>x - y\<bar> = \<bar>\<bar>x\<bar> - r\<bar>"
  proof (cases "x < 0")
    case True
    then show ?thesis
      by (simp add: y abs_minus_commute)
  next
    case False
    then show ?thesis
      by (simp add: y)
  qed
  with e have "\<bar>x - y\<bar> \<le> 2 ^ k / (2 * c)"
    by simp
  moreover have "2 * c = 2 ^ 150"
    by (simp add: c_def)
  moreover from bk have "k < 254"
    by (simp add: binade_from_Some)
  ultimately show ?thesis
    using bk unfolding c_def by auto
qed

text \<open>Every integer up to \<open>2 ^ 24\<close> is a finite value.\<close>

lemma binade_exists:
  assumes "y < 2 ^ (24 + j)" and "j < 254"
  shows "\<exists>k\<le>j. binade_from 0 y = Some k"
proof -
  define k where "k = (LEAST k. y < 2 ^ (24 + k))"
  have a: "y < 2 ^ (24 + k)"
    unfolding k_def using assms(1) by (rule LeastI)
  have b: "k \<le> j"
    unfolding k_def using assms(1) by (rule Least_le)
  have c: "\<not> y < 2 ^ (24 + i)" if "i < k" for i
    using that unfolding k_def by (rule not_less_Least)
  have "binade_from 0 y = Some k"
    unfolding binade_from_Some using a b c assms(2) by simp
  with b show ?thesis
    by blast
qed

lemma nearest_float_exact:
  assumes "binade_from 0 (\<bar>x\<bar> * 2 ^ 149) = Some k"
    and "\<bar>x\<bar> * 2 ^ 149 / 2 ^ k = real_of_int m"
  shows "nearest_float x = Some x"
proof -
  from assms(1) have "\<bar>x\<bar> * 2 ^ 149 < 2 ^ (24 + k)"
    by (simp add: binade_from_Some)
  then have "\<bar>x\<bar> * 2 ^ 149 / 2 ^ k < 2 ^ 24"
    by (simp add: power_add pos_divide_less_eq)
  then have "real_of_int m < 2 ^ 24"
    unfolding assms(2) .
  then have m: "m \<noteq> 2 ^ 24"
    by auto
  have r: "real_of_int m * 2 ^ k / 2 ^ 149 = \<bar>x\<bar>"
    unfolding assms(2) [symmetric] by simp
  have "nearest_float x = Some (if x < 0 then - \<bar>x\<bar> else \<bar>x\<bar>)"
    unfolding nearest_float_def assms(1) option.case assms(2) rne_of_int Let_def r
    using m by simp
  then show ?thesis
    by simp
qed

lemma nearest_float_of_nat:
  assumes "n \<le> 2 ^ 24"
  shows "nearest_float (real n) = Some (real n)"
proof -
  define y where "y = \<bar>real n\<bar> * 2 ^ 149"
  have yn: "y = real n * 2 ^ 149"
    by (simp add: y_def)
  have "real n \<le> 2 ^ 24"
    using assms by (metis of_nat_le_iff of_nat_numeral of_nat_power)
  then have "real n < 2 ^ 25"
    by simp
  then have "y < 2 ^ 25 * 2 ^ 149"
    unfolding yn by (intro mult_strict_right_mono) simp_all
  then have "y < 2 ^ (24 + 150)"
    by (simp add: power_add)
  then obtain k where k: "k \<le> 150" "binade_from 0 y = Some k"
    using binade_exists [of y 150] by auto
  show ?thesis
  proof (cases "k \<le> 149")
    case True
    then have e: "(2::real) ^ 149 = 2 ^ (149 - k) * 2 ^ k"
      by (simp add: power_add [symmetric])
    have "y / 2 ^ k = real n * 2 ^ (149 - k)"
      unfolding yn e by simp
    then have "y / 2 ^ k = real_of_int (int n * 2 ^ (149 - k))"
      by simp
    with k(2) show ?thesis
      unfolding y_def by (rule nearest_float_exact)
  next
    case False
    with k(1) have k150: "k = 150"
      by simp
    from k(2) have "\<forall>i. 0 \<le> i \<and> i < 150 \<longrightarrow> \<not> y < 2 ^ (24 + i)"
      unfolding binade_from_Some k150 by blast
    then have "\<not> y < 2 ^ (24 + 149)"
      by (rule allE [of _ 149]) (simp del: power_numeral)
    then have "2 ^ 24 * 2 ^ 149 \<le> real n * 2 ^ 149"
      by (simp add: yn power_add not_less)
    then have "(2::real) ^ 24 \<le> real n"
      by simp
    with \<open>real n \<le> 2 ^ 24\<close> have "real n = 2 ^ 24"
      by simp
    then have "y / 2 ^ k = real_of_int (2 ^ 23)"
      by (simp add: yn k150)
    with k(2) show ?thesis
      unfolding y_def by (rule nearest_float_exact)
  qed
qed

text \<open>
  The finite values are, up to their sign, the numbers \<open>m * 2 ^ k / 2 ^ 149\<close> with
  \<open>m < 2 ^ 24\<close> and \<open>k \<le> 253\<close>: those of the binary32 format.
\<close>

lemma float32_iff:
  "nearest_float x = Some x \<longleftrightarrow>
     (\<exists>m k. m < 2 ^ 24 \<and> k < 254 \<and> \<bar>x\<bar> * 2 ^ 149 = real m * 2 ^ k)"
proof
  assume a: "nearest_float x = Some x"
  define y0 where "y0 = \<bar>x\<bar> * 2 ^ 149"
  from a obtain k where bk: "binade_from 0 y0 = Some k"
    by (auto simp: nearest_float_def y0_def split: option.splits)
  define m where "m = rne (y0 / 2 ^ k)"
  define r where "r = real_of_int m * 2 ^ k / 2 ^ 149"
  from a bk have nov: "\<not> (k = 253 \<and> m = 2 ^ 24)" and x: "x = (if x < 0 then - r else r)"
    by (auto simp: nearest_float_def y0_def m_def r_def Let_def split: if_splits)
  from bk have k: "k < 254" "y0 < 2 ^ (24 + k)"
    by (auto simp: binade_from_Some)
  have "0 \<le> y0 / 2 ^ k"
    by (simp add: y0_def)
  then have m0: "0 \<le> m"
    unfolding m_def by (intro rne_lower) simp
  have "y0 / 2 ^ k < real_of_int (2 ^ 24)"
    using k(2) by (simp add: power_add pos_divide_less_eq)
  then have mu: "m \<le> 2 ^ 24"
    unfolding m_def by (rule rne_upper)
  have "\<bar>x\<bar> = r"
    using x m0 by (cases "x < 0") (auto simp: r_def)
  then have e: "\<bar>x\<bar> * 2 ^ 149 = real_of_int m * 2 ^ k"
    by (simp add: r_def)
  show "\<exists>m k. m < 2 ^ 24 \<and> k < 254 \<and> \<bar>x\<bar> * 2 ^ 149 = real m * 2 ^ k"
  proof (cases "m = 2 ^ 24")
    case False
    with mu m0 have "nat m < 2 ^ 24"
      by (simp add: nat_less_iff)
    moreover have "real (nat m) = real_of_int m"
      using m0 by simp
    ultimately show ?thesis
      using k(1) e by (intro exI [of _ "nat m"] exI [of _ k]) simp
  next
    case True
    with nov k(1) have "Suc k < 254"
      by simp
    moreover have "\<bar>x\<bar> * 2 ^ 149 = real (2 ^ 23) * 2 ^ Suc k"
      unfolding e True by simp
    moreover have "(2::nat) ^ 23 < 2 ^ 24"
      by simp
    ultimately show ?thesis
      by blast
  qed
next
  assume "\<exists>m k. m < 2 ^ 24 \<and> k < 254 \<and> \<bar>x\<bar> * 2 ^ 149 = real m * 2 ^ k"
  then obtain m k where m: "m < 2 ^ 24" and k: "k < 254"
    and e: "\<bar>x\<bar> * 2 ^ 149 = real m * 2 ^ k"
    by blast
  from m have "real m < 2 ^ 24"
    by (metis of_nat_less_iff of_nat_numeral of_nat_power)
  then have "real m * 2 ^ k < 2 ^ 24 * 2 ^ k"
    by (intro mult_strict_right_mono) simp_all
  then have "\<bar>x\<bar> * 2 ^ 149 < 2 ^ (24 + k)"
    unfolding e by (simp only: power_add)
  from binade_exists [OF this k] obtain k' where k': "k' \<le> k"
    and b: "binade_from 0 (\<bar>x\<bar> * 2 ^ 149) = Some k'"
    by blast
  from k' have "(2::real) ^ k = 2 ^ (k - k') * 2 ^ k'"
    by (simp add: power_add [symmetric])
  then have "\<bar>x\<bar> * 2 ^ 149 / 2 ^ k' = real m * 2 ^ (k - k')"
    unfolding e by simp
  then have "\<bar>x\<bar> * 2 ^ 149 / 2 ^ k' = real_of_int (int m * 2 ^ (k - k'))"
    by simp
  with b show "nearest_float x = Some x"
    by (rule nearest_float_exact)
qed

text \<open>Conversion at the finite values, and the values that the examples use.\<close>

lemma float_of_exact: "nearest_float x = Some x \<Longrightarrow> float_of x = Fin (Abs_float32 x)"
  by (simp add: float_of_def)

lemma Rep_Abs_exact: "nearest_float x = Some x \<Longrightarrow> Rep_float32 (Abs_float32 x) = x"
  by (simp add: Abs_float32_inverse)

lemma float_of_Fin:
  "nearest_float x = Some y \<Longrightarrow>
   float_of x = Fin (Abs_float32 y) \<and> Rep_float32 (Abs_float32 y) = y"
  by (simp add: float_of_def Rep_Abs_exact nearest_float_idem)

lemma Abs_exact_eq:
  "nearest_float x = Some x \<Longrightarrow> nearest_float y = Some y \<Longrightarrow>
   Abs_float32 x = Abs_float32 y \<longleftrightarrow> x = y"
  by (simp add: Abs_float32_inject)

lemma nearest_float_Rep: "nearest_float (Rep_float32 a) = Some (Rep_float32 a)"
  using Rep_float32 [of a] by simp

lemma float_of_Rep: "float_of (Rep_float32 a) = Fin a"
  by (simp add: float_of_def nearest_float_Rep Rep_float32_inverse)

lemma float_of_not_nan: "\<not> isnan (float_of x)"
  by (simp add: float_of_def split: option.splits)

lemmas nearest_float_eval = nearest_float_def binade_from.simps rne_def Let_def

lemma float_values:
  "nearest_float 0 = Some 0"
  "nearest_float 1 = Some 1"
  "nearest_float 2 = Some 2"
  "nearest_float 3 = Some 3"
  "nearest_float 4 = Some 4"
  "nearest_float 5 = Some 5"
  "nearest_float 6 = Some 6"
  "nearest_float 7 = Some 7"
  "nearest_float 8 = Some 8"
  "nearest_float 9 = Some 9"
  "nearest_float 10 = Some 10"
  "nearest_float 15 = Some 15"
  "nearest_float 20 = Some 20"
  "nearest_float 50 = Some 50"
  "nearest_float (1 / 2) = Some (1 / 2)"
  "nearest_float (- 1) = Some (- 1)"
  "nearest_float (- 6) = Some (- 6)"
  "nearest_float (- 24) = Some (- 24)"
  by (simp_all add: nearest_float_eval)

text \<open>
  Landmarks of the format: the smallest subnormal number and the tie below it, a third,
  the first integer that is not a finite value, \<^verbatim>\<open>FLT_MAX\<close>, and the overflow
  threshold \<open>2 ^ 128 - 2 ^ 103\<close>.
\<close>

lemma float_landmarks:
  "nearest_float (1 / 2 ^ 149) = Some (1 / 2 ^ 149)"
  "nearest_float (1 / 2 ^ 150) = Some 0"
  "nearest_float (1 / 3) = Some (11184811 / 33554432)"
  "nearest_float 16777216 = Some 16777216"
  "nearest_float 16777217 = Some 16777216"
  "nearest_float (- 16777216) = Some (- 16777216)"
  "nearest_float 340282346638528859811704183484516925440
     = Some 340282346638528859811704183484516925440"
  "nearest_float 340282356779733661637539395458142568447
     = Some 340282346638528859811704183484516925440"
  "nearest_float 340282356779733661637539395458142568448 = None"
  "nearest_float 680564693277057719623408366969033850880 = None"
  by (simp_all add: nearest_float_eval)

lemmas float_eval =
  float_values float_of_exact Rep_Abs_exact Abs_exact_eq float_of_Rep nearest_float_Rep
  zero_fp_def plus_fp_def minus_fp_def times_fp_def divide_fp_def less_fp_def
  value_of_count_def value_half_def

text \<open>Adding to zero and dividing by one are exact; halving is dividing by two.\<close>

lemma zero_plus: "0 + x = (x::fp)"
  by (cases x) (simp_all add: float_eval)

lemma divide_by_one: "x / value_of_count (Suc 0) = x"
  by (cases x) (simp_all add: float_eval)

lemma half_of: "x / value_of_count (Suc (Suc 0)) = value_half * x"
  by (cases x) (simp_all add: float_eval)

section \<open>Traversal lemmas\<close>

lemma foldl_pw1:
  "distinct ps \<Longrightarrow> foldl (\<lambda>a p. pw1 F p a) a ps = map_on (set ps) F a"
proof (induction ps arbitrary: a)
  case Nil
  then show ?case by (simp add: map_on_def)
next
  case (Cons p ps)
  then have "foldl (\<lambda>a p. pw1 F p a) (pw1 F p a) ps = map_on (set ps) F (pw1 F p a)"
    by simp
  also have "\<dots> = map_on (set (p # ps)) F a"
    using Cons.prems by (auto simp: map_on_def pw1_def fun_eq_iff)
  finally show ?case by simp
qed

lemma foldl_pw2:
  "distinct ps \<Longrightarrow> foldl (\<lambda>s p. pw2 F G p s) s ps = map_on2 (set ps) F G s"
proof (induction ps arbitrary: s)
  case Nil
  then show ?case by (simp add: map_on2_def)
next
  case (Cons p ps)
  then have "foldl (\<lambda>s p. pw2 F G p s) (pw2 F G p s) ps = map_on2 (set ps) F G (pw2 F G p s)"
    by simp
  also have "\<dots> = map_on2 (set (p # ps)) F G s"
    using Cons.prems by (auto simp: map_on2_def pw2_def fun_eq_iff)
  finally show ?case by simp
qed

lemma for2_visit2:
  "for2 rws cls body s = foldl (\<lambda>s p. body (fst p) (snd p) s) s (visit2 rws cls)"
proof -
  have "foldl (\<lambda>s j. foldl (\<lambda>s k. body j k s) s ys) s xs
        = foldl (\<lambda>s p. body (fst p) (snd p) s) s (List.product xs ys)" for xs ys
    by (induction xs arbitrary: s) (simp_all add: foldl_map)
  then show ?thesis
    by (simp add: for2_def for_loop_def visit2_def)
qed

lemma for3_visit3:
  "for3 pgs rws cls body s
   = foldl (\<lambda>s p. body (fst p) (fst (snd p)) (snd (snd p)) s) s (visit3 pgs rws cls)"
proof -
  have "foldl (\<lambda>s i. foldl (\<lambda>s p. body i (fst p) (snd p) s) s ys) s xs
        = foldl (\<lambda>s p. body (fst p) (fst (snd p)) (snd (snd p)) s) s (List.product xs ys)"
    for xs ys
    by (induction xs arbitrary: s) (simp_all add: foldl_map)
  then show ?thesis
    by (simp add: for3_def for_loop_def visit3_def for2_visit2)
qed

lemma parallel_for2_visits2:
  "parallel_for2 blocks body s = foldl (\<lambda>s p. body (fst p) (snd p) s) s (visits2 blocks)"
  unfolding parallel_for2_def visits2_def
  by (induction blocks arbitrary: s) (simp_all add: for2_visit2 split_beta)

lemma parallel_for3_visits3:
  "parallel_for3 blocks body s
   = foldl (\<lambda>s p. body (fst p) (fst (snd p)) (snd (snd p)) s) s (visits3 blocks)"
  unfolding parallel_for3_def visits3_def
  by (induction blocks arbitrary: s) (simp_all add: for3_visit3 split_beta)

lemma distinct_visit2: "distinct (visit2 rws cls)"
  by (simp add: visit2_def distinct_product)

lemma distinct_visit3: "distinct (visit3 pgs rws cls)"
  by (simp add: visit3_def distinct_product distinct_visit2)

lemma set_visit2: "set (visit2 (0, fst shp) (0, snd shp)) = inside2 shp"
  by (auto simp: visit2_def inside2_def)

lemma set_visit3: "set (visit3 (0, fst shp) (0, fst (snd shp)) (0, snd (snd shp))) = inside3 shp"
  by (auto simp: visit3_def visit2_def inside3_def)

lemma partition2_visits:
  assumes "partition2 blocks shp"
  shows "distinct (visits2 blocks)" and "set (visits2 blocks) = inside2 shp"
proof -
  have m: "mset (visits2 blocks) = mset (visit2 (0, fst shp) (0, snd shp))"
    using assms by (simp add: partition2_def)
  show "distinct (visits2 blocks)"
    using mset_eq_imp_distinct_iff [OF m] distinct_visit2 by blast
  show "set (visits2 blocks) = inside2 shp"
    using mset_eq_setD [OF m] by (simp add: set_visit2)
qed

lemma partition3_visits:
  assumes "partition3 blocks shp"
  shows "distinct (visits3 blocks)" and "set (visits3 blocks) = inside3 shp"
proof -
  have m: "mset (visits3 blocks) = mset (visit3 (0, fst shp) (0, fst (snd shp)) (0, snd (snd shp)))"
    using assms by (simp add: partition3_def)
  show "distinct (visits3 blocks)"
    using mset_eq_imp_distinct_iff [OF m] distinct_visit3 by blast
  show "set (visits3 blocks) = inside3 shp"
    using mset_eq_setD [OF m] by (simp add: set_visit3)
qed

lemma for2_pw1:
  "for2 (0, fst shp) (0, snd shp) (\<lambda>j k. pw1 F (j, k)) a = map_on (inside2 shp) F a"
  by (simp add: for2_visit2 foldl_pw1 distinct_visit2 set_visit2)

lemma for2_pw2:
  "for2 (0, fst shp) (0, snd shp) (\<lambda>j k. pw2 F G (j, k)) s = map_on2 (inside2 shp) F G s"
  by (simp add: for2_visit2 foldl_pw2 distinct_visit2 set_visit2)

lemma parallel_for2_pw1:
  "partition2 blocks shp \<Longrightarrow>
   parallel_for2 blocks (\<lambda>j k. pw1 F (j, k)) a = map_on (inside2 shp) F a"
  by (simp add: parallel_for2_visits2 foldl_pw1 partition2_visits)

lemma run3_pw1:
  "valid3 bld shp \<Longrightarrow> run3 bld shp (\<lambda>i j k. pw1 F (i, j, k)) a = map_on (inside3 shp) F a"
  by (cases bld)
     (simp_all add: run3_def valid3_def parallel_for3_visits3 for3_visit3 foldl_pw1
        partition3_visits distinct_visit3 set_visit3)

lemma example_blocks3_partition: "partition3 example_blocks3 (2, 1, 2)"
  by (simp add: example_blocks3_def partition3_def ordered_def visits3_def visit3_def
      visit2_def upt_rec)

lemma example_blocks2_partition: "partition2 example_blocks2 (1, 3)"
  by (simp add: example_blocks2_def partition2_def ordered_def visits2_def visit2_def upt_rec)

section \<open>Mask and threshold with NaN, with output\<close>

lemma maskImageDataNan_image_mask_thr_out_closed:
  assumes "shape msk = shape src" and "shape out = shape src"
  shows "maskImageDataNan_image_mask_thr_out src msk lb ub out =
     Returned
       (map_on2 (inside2 (shape src))
          (\<lambda>p v b. if elems msk p then quiet_NaN
                    else if isnan v then v
                    else if v < lb \<or> v > ub then quiet_NaN else v)
          (\<lambda>p v b. if elems msk p then True
                    else if isnan v then True
                    else if v < lb \<or> v > ub then True else b)
          (src, out))
       ()"
proof -
  have body: "(\<lambda>j k (src, out).
                  let v = at2 src j k in
                  if at2 msk j k then (put2 src j k quiet_NaN, put2 out j k True)
                  else if isnan v then (src, put2 out j k True)
                  else if v < lb \<or> v > ub then (put2 src j k quiet_NaN, put2 out j k True)
                  else (src, out))
     = (\<lambda>j k. pw2
          (\<lambda>p v b. if elems msk p then quiet_NaN
                    else if isnan v then v
                    else if v < lb \<or> v > ub then quiet_NaN else v)
          (\<lambda>p v b. if elems msk p then True
                    else if isnan v then True
                    else if v < lb \<or> v > ub then True else b) (j, k))"
    by (auto simp: fun_eq_iff pw2_def at2_def put2_def Let_def)
  show ?thesis
    unfolding maskImageDataNan_image_mask_thr_out_def body
    using assms by (simp add: checkShape_def shape2_def for2_pw2)
qed

text \<open>
  C1. With a mask and an output mask of the image's shape, the kernel returns, keeps the
  three shapes, and treats every pixel \<open>(j, k)\<close> of the image by the first rule that
  applies: where the mask is true the pixel becomes NaN and the output bit true; else
  where the pixel is NaN already it keeps its value and the output bit becomes true;
  else where it is below \<open>lb\<close> or above \<open>ub\<close> it becomes NaN and the output bit
  true; else pixel and output bit are unchanged.
\<close>

theorem maskImageDataNan_mask_thr_out_per_pixel:
  assumes "shape msk = shape src" and "shape out = shape src"
  shows "\<exists>src' out'.
     maskImageDataNan_image_mask_thr_out src msk lb ub out = Returned (src', out') () \<and>
     shape src' = shape src \<and> shape out' = shape out \<and>
     (\<forall>j k. j < fst (shape src) \<and> k < snd (shape src) \<longrightarrow>
        (let v = at2 src j k in
         if at2 msk j k then isnan (at2 src' j k) \<and> at2 out' j k
         else if isnan v then at2 src' j k = v \<and> at2 out' j k
         else if v < lb \<or> v > ub then isnan (at2 src' j k) \<and> at2 out' j k
         else at2 src' j k = v \<and> at2 out' j k = at2 out j k))"
  unfolding maskImageDataNan_image_mask_thr_out_closed [OF assms]
  by (simp add: map_on2_def inside2_def at2_def quiet_NaN_def Let_def)

theorem maskImageDataNan_mask_thr_out_example:
  "\<exists>src' out'.
     maskImageDataNan_image_mask_thr_out
       (image_of_row [float_of 5, float_of 50]) (image_of_row [True, False]) (float_of 0) (float_of 10)
       (image_of_row [False, False]) = Returned (src', out') () \<and>
     at2 src' 0 0 = NaN \<and> at2 src' 0 1 = NaN \<and> at2 out' 0 0 \<and> at2 out' 0 1"
proof -
  let ?src = "image_of_row [float_of 5, float_of 50]"
  let ?msk = "image_of_row [True, False]"
  let ?out = "image_of_row [False, False]"
  have s1: "shape ?msk = shape ?src" and s2: "shape ?out = shape ?src"
    by (simp_all add: image_of_row_def)
  from maskImageDataNan_mask_thr_out_per_pixel [OF s1 s2, of "float_of 0" "float_of 10"]
  obtain src' out' where
    r: "maskImageDataNan_image_mask_thr_out ?src ?msk (float_of 0) (float_of 10) ?out = Returned (src', out') ()"
    and px: "\<And>j k. j < fst (shape ?src) \<and> k < snd (shape ?src) \<Longrightarrow>
        (let v = at2 ?src j k in
         if at2 ?msk j k then isnan (at2 src' j k) \<and> at2 out' j k
         else if isnan v then at2 src' j k = v \<and> at2 out' j k
         else if v < float_of 0 \<or> v > float_of 10 then isnan (at2 src' j k) \<and> at2 out' j k
         else at2 src' j k = v \<and> at2 out' j k = at2 ?out j k)"
    by blast
  have n: "isnan x \<Longrightarrow> x = NaN" for x
    by (cases x) simp_all
  have "isnan (at2 src' 0 0) \<and> at2 out' 0 0"
    using px [of 0 0] by (simp add: image_of_row_def at2_def)
  moreover have "isnan (at2 src' 0 1) \<and> at2 out' 0 1"
    using px [of 0 1] by (simp add: image_of_row_def at2_def float_eval)
  ultimately show ?thesis
    using r n by blast
qed

section \<open>Masking an image with a boolean mask\<close>

lemma maskImageDataZero_image_mask_closed:
  assumes "shape msk = shape src"
  shows "maskImageDataZero_image_mask src msk =
     Returned (map_on (inside2 (shape src)) (\<lambda>p v. if elems msk p \<or> isnan v then 0 else v) src) ()"
proof -
  have body: "(\<lambda>j k src. if at2 msk j k \<or> isnan (at2 src j k) then put2 src j k 0 else src)
     = (\<lambda>j k. pw1 (\<lambda>p v. if elems msk p \<or> isnan v then 0 else v) (j, k))"
    by (auto simp: fun_eq_iff pw1_def at2_def put2_def)
  show ?thesis
    unfolding maskImageDataZero_image_mask_def body
    using assms by (simp add: checkShape_def shape2_def for2_pw1)
qed

lemma maskImageDataNan_image_mask_closed:
  assumes "shape msk = shape src"
  shows "maskImageDataNan_image_mask src msk =
     Returned (map_on (inside2 (shape src)) (\<lambda>p v. if elems msk p then quiet_NaN else v) src) ()"
proof -
  have body: "(\<lambda>j k src. if at2 msk j k then put2 src j k quiet_NaN else src)
     = (\<lambda>j k. pw1 (\<lambda>p v. if elems msk p then quiet_NaN else v) (j, k))"
    by (auto simp: fun_eq_iff pw1_def at2_def put2_def)
  show ?thesis
    unfolding maskImageDataNan_image_mask_def body
    using assms by (simp add: checkShape_def shape2_def for2_pw1)
qed

text \<open>
  C7. With a mask of the image's shape both mask-only kernels return and keep the
  shape. The Zero variant leaves 0 at every pixel where the mask is true or the pixel
  is NaN, and the pixel's value elsewhere. The Nan variant leaves NaN at every pixel
  where the mask is true and the pixel's value, NaN or not, where the mask is false.
\<close>

theorem mask_only_zero_and_nan_variants:
  assumes "shape msk = shape src"
  shows "\<exists>z n.
     maskImageDataZero_image_mask src msk = Returned z () \<and>
     maskImageDataNan_image_mask src msk = Returned n () \<and>
     shape z = shape src \<and> shape n = shape src \<and>
     (\<forall>j k. j < fst (shape src) \<and> k < snd (shape src) \<longrightarrow>
        at2 z j k = (if at2 msk j k \<or> isnan (at2 src j k) then 0 else at2 src j k) \<and>
        at2 n j k = (if at2 msk j k then NaN else at2 src j k))"
  unfolding maskImageDataZero_image_mask_closed [OF assms]
    maskImageDataNan_image_mask_closed [OF assms]
  by (simp add: map_on_def inside2_def at2_def quiet_NaN_def)

theorem mask_only_zero_and_nan_variants_example:
  "\<exists>z n.
     maskImageDataZero_image_mask
       (image_of_row [NaN, float_of 5, float_of 7]) (image_of_row [False, True, False]) = Returned z () \<and>
     maskImageDataNan_image_mask
       (image_of_row [NaN, float_of 5, float_of 7]) (image_of_row [False, True, False]) = Returned n () \<and>
     at2 z 0 0 = float_of 0 \<and> at2 z 0 1 = float_of 0 \<and> at2 z 0 2 = float_of 7 \<and>
     at2 n 0 0 = NaN \<and> at2 n 0 1 = NaN \<and> at2 n 0 2 = float_of 7"
proof -
  let ?src = "image_of_row [NaN, float_of 5, float_of 7]"
  let ?msk = "image_of_row [False, True, False]"
  have s: "shape ?msk = shape ?src"
    by (simp add: image_of_row_def)
  from mask_only_zero_and_nan_variants [OF s]
  obtain z n where
    r: "maskImageDataZero_image_mask ?src ?msk = Returned z ()"
       "maskImageDataNan_image_mask ?src ?msk = Returned n ()"
    and px: "\<And>j k. j < fst (shape ?src) \<and> k < snd (shape ?src) \<Longrightarrow>
        at2 z j k = (if at2 ?msk j k \<or> isnan (at2 ?src j k) then 0 else at2 ?src j k) \<and>
        at2 n j k = (if at2 ?msk j k then NaN else at2 ?src j k)"
    by blast
  have "at2 z 0 0 = float_of 0 \<and> at2 n 0 0 = NaN"
    using px [of 0 0] by (simp add: image_of_row_def at2_def float_eval)
  moreover have "at2 z 0 1 = float_of 0 \<and> at2 n 0 1 = NaN"
    using px [of 0 1] by (simp add: image_of_row_def at2_def float_eval)
  moreover have "at2 z 0 2 = float_of 7 \<and> at2 n 0 2 = float_of 7"
    using px [of 0 2] by (simp add: image_of_row_def at2_def float_eval)
  ultimately show ?thesis
    using r by blast
qed

section \<open>Threshold masking with zero\<close>

lemma maskImageDataZero_image_thr_closed:
  "maskImageDataZero_image_thr src lb ub =
     map_on (inside2 (shape src)) (\<lambda>p v. if isnan v \<or> v < lb \<or> v > ub then 0 else v) src"
proof -
  have body: "(\<lambda>j k src.
          let v = at2 src j k in
          if isnan v \<or> v < lb \<or> v > ub then put2 src j k 0 else src)
     = (\<lambda>j k. pw1 (\<lambda>p v. if isnan v \<or> v < lb \<or> v > ub then 0 else v) (j, k))"
    by (auto simp: fun_eq_iff pw1_def at2_def put2_def Let_def)
  show ?thesis
    unfolding maskImageDataZero_image_thr_def body by (simp add: for2_pw1)
qed

text \<open>
  C10. Threshold masking of an image with zero is idempotent: a second application
  with the same bounds returns the image that the first one produced.
\<close>

theorem maskImageDataZero_thr_idempotent:
  "maskImageDataZero_image_thr (maskImageDataZero_image_thr src lb ub) lb ub
   = maskImageDataZero_image_thr src lb ub"
  by (simp add: maskImageDataZero_image_thr_closed map_on_def fun_eq_iff)

theorem maskImageDataZero_thr_idempotent_example:
  "maskImageDataZero_image_thr
     (maskImageDataZero_image_thr (image_of_row [NaN, float_of (1 / 2), float_of 5, float_of 20]) (float_of 1) (float_of 10))
     (float_of 1) (float_of 10)
   = maskImageDataZero_image_thr (image_of_row [NaN, float_of (1 / 2), float_of 5, float_of 20]) (float_of 1) (float_of 10) \<and>
   map (at2 (maskImageDataZero_image_thr (image_of_row [NaN, float_of (1 / 2), float_of 5, float_of 20]) (float_of 1) (float_of 10)) 0)
     [0, 1, 2, 3] = [float_of 0, float_of 0, float_of 5, float_of 0]"
  using maskImageDataZero_thr_idempotent [of "image_of_row [NaN, float_of (1 / 2), float_of 5, float_of 20]" "float_of 1" "float_of 10"]
  by (simp add: maskImageDataZero_image_thr_closed map_on_def inside2_def at2_def
      image_of_row_def float_eval)

section \<open>Moving average: the update\<close>

lemma movingAvgImageData_image_closed:
  assumes "0 < cnt" and "shape data = shape src"
  shows "movingAvgImageData_image src data cnt =
     Returned
       (map_on (inside2 (shape src)) (\<lambda>p v. v + (elems data p - v) / value_of_count cnt) src) ()"
proof -
  have body: "(\<lambda>j k src.
        put2 src j k (at2 src j k + (at2 data j k - at2 src j k) / value_of_count cnt))
     = (\<lambda>j k. pw1 (\<lambda>p v. v + (elems data p - v) / value_of_count cnt) (j, k))"
    by (simp add: fun_eq_iff pw1_def at2_def put2_def)
  show ?thesis
    unfolding movingAvgImageData_image_def body
    using assms by (simp add: checkShape_def shape2_def for2_pw1)
qed

lemma movingAvgImageData_array_closed:
  assumes "0 < cnt" and "shape data = shape src" and "valid3 bld (shape src)"
  shows "movingAvgImageData_array bld src data cnt =
     Returned
       (map_on (inside3 (shape src)) (\<lambda>p v. v + (elems data p - v) / value_of_count cnt) src) ()"
proof -
  have body: "(\<lambda>i j k src.
        put3 src i j k (at3 src i j k + (at3 data i j k - at3 src i j k) / value_of_count cnt))
     = (\<lambda>i j k. pw1 (\<lambda>p v. v + (elems data p - v) / value_of_count cnt) (i, j, k))"
    by (simp add: fun_eq_iff pw1_def at3_def put3_def)
  show ?thesis
    unfolding movingAvgImageData_array_def body
    using assms by (simp add: checkShape_def shape3_def run3_pw1)
qed

lemma moving_average_nan:
  "isnan a \<or> isnan d \<Longrightarrow> isnan (a + (d - a) / c)"
  by (cases a; cases d; cases c) (simp_all add: plus_fp_def minus_fp_def divide_fp_def)

text \<open>
  C8. For a count of at least 1 and a new frame of the average's shape, the update of
  an image and of an image array (under any build configuration whose blocks partition
  the stack) returns, keeps the shape, and leaves at every element
  \<open>avg + (new - avg) / count\<close>, computed from the values before the call. No NaN is
  skipped: where either operand is NaN, so is the result. Starting from an average of 0
  everywhere, the frames 2, 4 and 6 with the counts 1, 2 and 3 give 2, 3 and 4.
\<close>

theorem movingAvg_update:
  "(0 < cnt \<and> shape data = shape src \<longrightarrow>
      (\<exists>src'. movingAvgImageData_image src data cnt = Returned src' () \<and>
         shape src' = shape src \<and>
         (\<forall>j k. j < fst (shape src) \<and> k < snd (shape src) \<longrightarrow>
            at2 src' j k = at2 src j k + (at2 data j k - at2 src j k) / value_of_count cnt \<and>
            (isnan (at2 src j k) \<or> isnan (at2 data j k) \<longrightarrow> isnan (at2 src' j k))))) \<and>
   (0 < cnt \<and> shape adata = shape asrc \<and> valid3 bld (shape asrc) \<longrightarrow>
      (\<exists>asrc'. movingAvgImageData_array bld asrc adata cnt = Returned asrc' () \<and>
         shape asrc' = shape asrc \<and>
         (\<forall>i j k. i < fst (shape asrc) \<and> j < fst (snd (shape asrc)) \<and> k < snd (snd (shape asrc)) \<longrightarrow>
            at3 asrc' i j k
              = at3 asrc i j k + (at3 adata i j k - at3 asrc i j k) / value_of_count cnt \<and>
            (isnan (at3 asrc i j k) \<or> isnan (at3 adata i j k) \<longrightarrow> isnan (at3 asrc' i j k))))) \<and>
   (\<exists>a1 a2 a3.
      movingAvgImageData_image (constant_image shp 0) (constant_image shp (float_of 2)) 1 = Returned a1 () \<and>
      movingAvgImageData_image a1 (constant_image shp (float_of 4)) 2 = Returned a2 () \<and>
      movingAvgImageData_image a2 (constant_image shp (float_of 6)) 3 = Returned a3 () \<and>
      (\<forall>j k. j < fst shp \<and> k < snd shp \<longrightarrow>
         at2 a1 j k = float_of 2 \<and> at2 a2 j k = float_of 3 \<and> at2 a3 j k = float_of 4))"
proof (intro conjI impI)
  assume h: "0 < cnt \<and> shape data = shape src"
  then show "\<exists>src'. movingAvgImageData_image src data cnt = Returned src' () \<and>
         shape src' = shape src \<and>
         (\<forall>j k. j < fst (shape src) \<and> k < snd (shape src) \<longrightarrow>
            at2 src' j k = at2 src j k + (at2 data j k - at2 src j k) / value_of_count cnt \<and>
            (isnan (at2 src j k) \<or> isnan (at2 data j k) \<longrightarrow> isnan (at2 src' j k)))"
    by (simp add: movingAvgImageData_image_closed map_on_def inside2_def at2_def
        moving_average_nan)
next
  assume h: "0 < cnt \<and> shape adata = shape asrc \<and> valid3 bld (shape asrc)"
  then show "\<exists>asrc'. movingAvgImageData_array bld asrc adata cnt = Returned asrc' () \<and>
         shape asrc' = shape asrc \<and>
         (\<forall>i j k. i < fst (shape asrc) \<and> j < fst (snd (shape asrc)) \<and> k < snd (snd (shape asrc)) \<longrightarrow>
            at3 asrc' i j k
              = at3 asrc i j k + (at3 adata i j k - at3 asrc i j k) / value_of_count cnt \<and>
            (isnan (at3 asrc i j k) \<or> isnan (at3 adata i j k) \<longrightarrow> isnan (at3 asrc' i j k)))"
    by (simp add: movingAvgImageData_array_closed map_on_def inside3_def at3_def
        moving_average_nan)
next
  show "\<exists>a1 a2 a3.
      movingAvgImageData_image (constant_image shp 0) (constant_image shp (float_of 2)) 1 = Returned a1 () \<and>
      movingAvgImageData_image a1 (constant_image shp (float_of 4)) 2 = Returned a2 () \<and>
      movingAvgImageData_image a2 (constant_image shp (float_of 6)) 3 = Returned a3 () \<and>
      (\<forall>j k. j < fst shp \<and> k < snd shp \<longrightarrow>
         at2 a1 j k = float_of 2 \<and> at2 a2 j k = float_of 3 \<and> at2 a3 j k = float_of 4)"
    by (simp add: movingAvgImageData_image_closed map_on_def inside2_def at2_def
        constant_image_def float_eval)
qed

theorem movingAvg_update_example:
  "(\<exists>src'. movingAvgImageData_image (image_of_row [float_of 1, NaN]) (image_of_row [float_of 3, float_of 4]) 2
        = Returned src' () \<and>
      at2 src' 0 0 = float_of 2 \<and> at2 src' 0 1 = NaN) \<and>
   (\<exists>asrc'. movingAvgImageData_array (WithTBB example_blocks3)
        (array_of_frames [[float_of 0, float_of 2], [float_of 4, float_of 5]])
        (array_of_frames [[float_of 2, float_of 6], [float_of 8, NaN]]) 2 = Returned asrc' () \<and>
      at3 asrc' 0 0 0 = float_of 1 \<and> at3 asrc' 0 0 1 = float_of 4 \<and>
      at3 asrc' 1 0 0 = float_of 6 \<and> at3 asrc' 1 0 1 = NaN) \<and>
   (\<exists>a1 a2 a3.
      movingAvgImageData_image (constant_image (2, 2) 0) (constant_image (2, 2) (float_of 2)) 1
        = Returned a1 () \<and>
      movingAvgImageData_image a1 (constant_image (2, 2) (float_of 4)) 2 = Returned a2 () \<and>
      movingAvgImageData_image a2 (constant_image (2, 2) (float_of 6)) 3 = Returned a3 () \<and>
      at2 a1 1 0 = float_of 2 \<and> at2 a2 1 0 = float_of 3 \<and> at2 a3 1 0 = float_of 4)"
proof -
  let ?src = "image_of_row [float_of 1, NaN]"
  let ?data = "image_of_row [float_of 3, float_of 4]"
  let ?asrc = "array_of_frames [[float_of 0, float_of 2], [float_of 4, float_of 5]]"
  let ?adata = "array_of_frames [[float_of 2, float_of 6], [float_of 8, NaN]]"
  let ?bld = "WithTBB example_blocks3"
  note t = movingAvg_update [where cnt = 2 and src = ?src and data = ?data
      and asrc = ?asrc and adata = ?adata and bld = ?bld and shp = "(2, 2)"]
  have h1: "0 < (2::nat) \<and> shape ?data = shape ?src"
    by (simp add: image_of_row_def)
  have sh: "shape ?asrc = (2, 1, 2)" "shape ?adata = (2, 1, 2)"
    by (simp_all add: array_of_frames_def)
  have h2: "0 < (2::nat) \<and> shape ?adata = shape ?asrc \<and> valid3 ?bld (shape ?asrc)"
    using example_blocks3_partition by (simp add: sh valid3_def)
  from t h1 obtain src' where
    r: "movingAvgImageData_image ?src ?data 2 = Returned src' ()"
    and px: "\<And>j k. j < fst (shape ?src) \<and> k < snd (shape ?src) \<Longrightarrow>
        at2 src' j k = at2 ?src j k + (at2 ?data j k - at2 ?src j k) / value_of_count 2 \<and>
        (isnan (at2 ?src j k) \<or> isnan (at2 ?data j k) \<longrightarrow> isnan (at2 src' j k))"
    by blast
  have "at2 src' 0 0 = float_of 2"
    using px [of 0 0] by (simp add: image_of_row_def at2_def float_eval)
  moreover have "at2 src' 0 1 = NaN"
    using px [of 0 1] by (simp add: image_of_row_def at2_def float_eval)
  ultimately have first: "\<exists>src'. movingAvgImageData_image ?src ?data 2 = Returned src' () \<and>
      at2 src' 0 0 = float_of 2 \<and> at2 src' 0 1 = NaN"
    using r by blast
  from t h2 obtain asrc' where
    ar: "movingAvgImageData_array ?bld ?asrc ?adata 2 = Returned asrc' ()"
    and apx: "\<And>i j k. i < fst (shape ?asrc) \<and> j < fst (snd (shape ?asrc)) \<and>
          k < snd (snd (shape ?asrc)) \<Longrightarrow>
        at3 asrc' i j k
          = at3 ?asrc i j k + (at3 ?adata i j k - at3 ?asrc i j k) / value_of_count 2 \<and>
        (isnan (at3 ?asrc i j k) \<or> isnan (at3 ?adata i j k) \<longrightarrow> isnan (at3 asrc' i j k))"
    by blast
  have "at3 asrc' 0 0 0 = float_of 1"
    using apx [of 0 0 0] by (simp add: array_of_frames_def at3_def float_eval)
  moreover have "at3 asrc' 0 0 1 = float_of 4"
    using apx [of 0 0 1] by (simp add: array_of_frames_def at3_def float_eval)
  moreover have "at3 asrc' 1 0 0 = float_of 6"
    using apx [of 1 0 0] by (simp add: array_of_frames_def at3_def float_eval)
  moreover have "at3 asrc' 1 0 1 = NaN"
    using apx [of 1 0 1]
    by (simp add: array_of_frames_def at3_def float_eval)
  ultimately have second: "\<exists>asrc'. movingAvgImageData_array ?bld ?asrc ?adata 2 = Returned asrc' () \<and>
      at3 asrc' 0 0 0 = float_of 1 \<and> at3 asrc' 0 0 1 = float_of 4 \<and>
      at3 asrc' 1 0 0 = float_of 6 \<and> at3 asrc' 1 0 1 = NaN"
    using ar by blast
  from t obtain a1 a2 a3 where
    rm: "movingAvgImageData_image (constant_image (2, 2) 0) (constant_image (2, 2) (float_of 2)) 1
        = Returned a1 ()"
      "movingAvgImageData_image a1 (constant_image (2, 2) (float_of 4)) 2 = Returned a2 ()"
      "movingAvgImageData_image a2 (constant_image (2, 2) (float_of 6)) 3 = Returned a3 ()"
    and rpx: "\<And>j k. j < fst (2::nat, 2::nat) \<and> k < snd (2::nat, 2::nat) \<Longrightarrow>
        at2 a1 j k = float_of 2 \<and> at2 a2 j k = float_of 3 \<and> at2 a3 j k = float_of 4"
    by blast
  have "at2 a1 1 0 = float_of 2 \<and> at2 a2 1 0 = float_of 3 \<and> at2 a3 1 0 = float_of 4"
    using rpx [of 1 0] by simp
  with rm have third: "\<exists>a1 a2 a3.
      movingAvgImageData_image (constant_image (2, 2) 0) (constant_image (2, 2) (float_of 2)) 1
        = Returned a1 () \<and>
      movingAvgImageData_image a1 (constant_image (2, 2) (float_of 4)) 2 = Returned a2 () \<and>
      movingAvgImageData_image a2 (constant_image (2, 2) (float_of 6)) 3 = Returned a3 () \<and>
      at2 a1 1 0 = float_of 2 \<and> at2 a2 1 0 = float_of 3 \<and> at2 a3 1 0 = float_of 4"
    by blast
  from first second third show ?thesis by blast
qed

section \<open>Gain and offset correction: the combined form\<close>

lemma correctImageData_image_closed:
  assumes "shape gain = shape src" and "shape offset = shape src"
  shows "correctImageData_image src gain offset =
     Returned (map_on (inside2 (shape src)) (\<lambda>p v. elems gain p * (v - elems offset p)) src) ()"
proof -
  have body: "(\<lambda>j k src. put2 src j k (at2 gain j k * (at2 src j k - at2 offset j k)))
     = (\<lambda>j k. pw1 (\<lambda>p v. elems gain p * (v - elems offset p)) (j, k))"
    by (simp add: fun_eq_iff pw1_def at2_def put2_def)
  show ?thesis
    unfolding correctImageData_image_def body
    using assms by (simp add: checkShape_def shape2_def for2_pw1)
qed

lemma correctImageData_array_closed:
  assumes "shape gain = shape src" and "shape offset = shape src" and "valid3 bld (shape src)"
  shows "correctImageData_array bld src gain offset =
     Returned (map_on (inside3 (shape src)) (\<lambda>p v. elems gain p * (v - elems offset p)) src) ()"
proof -
  have body: "(\<lambda>i j k src. put3 src i j k (at3 gain i j k * (at3 src i j k - at3 offset i j k)))
     = (\<lambda>i j k. pw1 (\<lambda>p v. elems gain p * (v - elems offset p)) (i, j, k))"
    by (simp add: fun_eq_iff pw1_def at3_def put3_def)
  show ?thesis
    unfolding correctImageData_array_def body
    using assms by (simp add: checkShape_def shape3_def run3_pw1)
qed

text \<open>
  C9. With gain and offset constants of the data's shape, the combined correction of an
  image and of an image array (under any build configuration whose blocks partition the
  stack) returns, keeps the shape, and leaves \<open>gain * (src - offset)\<close> at every
  element: the offset is subtracted first, the gain multiplied second. The kernel has
  no parameter that would change this order.
\<close>

theorem correct_gain_offset:
  "(shape gain = shape src \<and> shape offset = shape src \<longrightarrow>
      (\<exists>src'. correctImageData_image src gain offset = Returned src' () \<and>
         shape src' = shape src \<and>
         (\<forall>j k. j < fst (shape src) \<and> k < snd (shape src) \<longrightarrow>
            at2 src' j k = at2 gain j k * (at2 src j k - at2 offset j k)))) \<and>
   (shape again = shape asrc \<and> shape aoffset = shape asrc \<and> valid3 bld (shape asrc) \<longrightarrow>
      (\<exists>asrc'. correctImageData_array bld asrc again aoffset = Returned asrc' () \<and>
         shape asrc' = shape asrc \<and>
         (\<forall>i j k. i < fst (shape asrc) \<and> j < fst (snd (shape asrc)) \<and> k < snd (snd (shape asrc)) \<longrightarrow>
            at3 asrc' i j k = at3 again i j k * (at3 asrc i j k - at3 aoffset i j k))))"
  by (simp add: correctImageData_image_closed correctImageData_array_closed map_on_def
      inside2_def inside3_def at2_def at3_def)

theorem correct_gain_offset_example:
  "(\<exists>src'. correctImageData_image (image_of_row [float_of 5, float_of 7]) (image_of_row [float_of 2, float_of 3])
        (image_of_row [float_of 1, float_of 4]) = Returned src' () \<and>
      at2 src' 0 0 = float_of 8 \<and> at2 src' 0 1 = float_of 9) \<and>
   (\<exists>asrc'. correctImageData_array (WithTBB example_blocks3)
        (array_of_frames [[float_of 5, float_of 7], [float_of 1, float_of 0]])
        (array_of_frames [[float_of 2, float_of 3], [float_of 10, float_of 4]])
        (array_of_frames [[float_of 1, float_of 4], [float_of 0, float_of 6]]) = Returned asrc' () \<and>
      at3 asrc' 0 0 0 = float_of 8 \<and> at3 asrc' 0 0 1 = float_of 9 \<and>
      at3 asrc' 1 0 0 = float_of 10 \<and> at3 asrc' 1 0 1 = float_of (- 24))"
proof -
  let ?src = "image_of_row [float_of 5, float_of 7]"
  let ?gain = "image_of_row [float_of 2, float_of 3]"
  let ?offset = "image_of_row [float_of 1, float_of 4]"
  let ?asrc = "array_of_frames [[float_of 5, float_of 7], [float_of 1, float_of 0]]"
  let ?again = "array_of_frames [[float_of 2, float_of 3], [float_of 10, float_of 4]]"
  let ?aoffset = "array_of_frames [[float_of 1, float_of 4], [float_of 0, float_of 6]]"
  let ?bld = "WithTBB example_blocks3"
  note t = correct_gain_offset [where src = ?src and gain = ?gain and offset = ?offset
      and asrc = ?asrc and again = ?again and aoffset = ?aoffset and bld = ?bld]
  have h1: "shape ?gain = shape ?src \<and> shape ?offset = shape ?src"
    by (simp add: image_of_row_def)
  have sh: "shape ?asrc = (2, 1, 2)" "shape ?again = (2, 1, 2)" "shape ?aoffset = (2, 1, 2)"
    by (simp_all add: array_of_frames_def)
  have h2: "shape ?again = shape ?asrc \<and> shape ?aoffset = shape ?asrc \<and> valid3 ?bld (shape ?asrc)"
    using example_blocks3_partition by (simp add: sh valid3_def)
  from t h1 obtain src' where
    r: "correctImageData_image ?src ?gain ?offset = Returned src' ()"
    and px: "\<And>j k. j < fst (shape ?src) \<and> k < snd (shape ?src) \<Longrightarrow>
        at2 src' j k = at2 ?gain j k * (at2 ?src j k - at2 ?offset j k)"
    by blast
  have "at2 src' 0 0 = float_of 8"
    using px [of 0 0] by (simp add: image_of_row_def at2_def float_eval)
  moreover have "at2 src' 0 1 = float_of 9"
    using px [of 0 1] by (simp add: image_of_row_def at2_def float_eval)
  ultimately have first: "\<exists>src'. correctImageData_image ?src ?gain ?offset = Returned src' () \<and>
      at2 src' 0 0 = float_of 8 \<and> at2 src' 0 1 = float_of 9"
    using r by blast
  from t h2 obtain asrc' where
    ar: "correctImageData_array ?bld ?asrc ?again ?aoffset = Returned asrc' ()"
    and apx: "\<And>i j k. i < fst (shape ?asrc) \<and> j < fst (snd (shape ?asrc)) \<and>
          k < snd (snd (shape ?asrc)) \<Longrightarrow>
        at3 asrc' i j k = at3 ?again i j k * (at3 ?asrc i j k - at3 ?aoffset i j k)"
    by blast
  have "at3 asrc' 0 0 0 = float_of 8"
    using apx [of 0 0 0] by (simp add: array_of_frames_def at3_def float_eval)
  moreover have "at3 asrc' 0 0 1 = float_of 9"
    using apx [of 0 0 1] by (simp add: array_of_frames_def at3_def float_eval)
  moreover have "at3 asrc' 1 0 0 = float_of 10"
    using apx [of 1 0 0] by (simp add: array_of_frames_def at3_def float_eval)
  moreover have "at3 asrc' 1 0 1 = float_of (- 24)"
    using apx [of 1 0 1] by (simp add: array_of_frames_def at3_def float_eval)
  ultimately have second: "\<exists>asrc'. correctImageData_array ?bld ?asrc ?again ?aoffset = Returned asrc' () \<and>
      at3 asrc' 0 0 0 = float_of 8 \<and> at3 asrc' 0 0 1 = float_of 9 \<and>
      at3 asrc' 1 0 0 = float_of 10 \<and> at3 asrc' 1 0 1 = float_of (- 24)"
    using ar by blast
  from first second show ?thesis by blast
qed

section \<open>NaN-aware mean of a stack\<close>

lemma xt_nanmean_values_nanmean_of: "xt_nanmean_values vs = nanmean_of vs"
  by (simp add: xt_nanmean_values_def nanmean_of_def fp_sum_def quiet_NaN_def Let_def)

lemma accumulate_foldl:
  "foldl (\<lambda>acc i. if \<not> isnan (f i) then (fst acc + 1, snd acc + f i) else acc) (c, t) is
   = (c + length (filter (\<lambda>v. \<not> isnan v) (map f is)),
      foldl (\<lambda>total v. total + v) t (filter (\<lambda>v. \<not> isnan v) (map f is)))"
  by (induction "is" arbitrary: c t) simp_all

lemma nanmean_pixel:
  "(let accumulate = (\<lambda>(cnt, total) i.
           let v = at3 src i j k in
           if \<not> isnan v then (cnt + 1, total + v) else (cnt, total));
        (cnt, total) =
           (if keep = []
            then for_loop 0 n (\<lambda>i acc. accumulate acc i) (0::nat, 0)
            else foldl accumulate (0::nat, 0) keep)
    in if cnt = 0 then put2 mean j k quiet_NaN
       else put2 mean j k (total / value_of_count cnt))
   = pw1 (\<lambda>p v. nanmean_of (map (\<lambda>i. at3 src i (fst p) (snd p)) (if keep = [] then [0..<n] else keep)))
       (j, k) mean"
proof -
  let ?acc = "\<lambda>(cnt::nat, total) i.
           let v = at3 src i j k in
           if \<not> isnan v then (cnt + 1, total + v) else (cnt, total)"
  let ?sel = "if keep = [] then [0..<n] else keep"
  let ?good = "filter (\<lambda>v. \<not> isnan v) (map (\<lambda>i. at3 src i j k) ?sel)"
  have acc: "?acc = (\<lambda>acc i. if \<not> isnan (at3 src i j k)
                then (fst acc + 1, snd acc + at3 src i j k) else acc)"
    by (auto simp: fun_eq_iff Let_def)
  have sel: "(if keep = []
            then for_loop 0 n (\<lambda>i acc. ?acc acc i) (0::nat, 0)
            else foldl ?acc (0::nat, 0) keep) = foldl ?acc (0, 0) ?sel"
    by (simp add: for_loop_def)
  have res: "foldl ?acc (0, 0) ?sel = (length ?good, fp_sum ?good)"
    unfolding acc accumulate_foldl fp_sum_def by (simp del: filter_map)
  have key: "(let (cnt, total) = (length g, fp_sum g)
         in if cnt = 0 then put2 mean j k quiet_NaN
            else put2 mean j k (total / value_of_count cnt))
        = put2 mean j k (if g = [] then NaN else fp_sum g / value_of_count (length g))" for g
    by (simp add: quiet_NaN_def)
  have "(let (cnt, total) = foldl ?acc (0, 0) ?sel
         in if cnt = 0 then put2 mean j k quiet_NaN
            else put2 mean j k (total / value_of_count cnt))
        = (let (cnt, total) = (length ?good, fp_sum ?good)
         in if cnt = 0 then put2 mean j k quiet_NaN
            else put2 mean j k (total / value_of_count cnt))"
    by (simp only: res)
  also have "\<dots> = put2 mean j k (if ?good = [] then NaN else fp_sum ?good / value_of_count (length ?good))"
    by (rule key)
  also have "\<dots> = put2 mean j k (nanmean_of (map (\<lambda>i. at3 src i j k) ?sel))"
    by (simp only: nanmean_of_def Let_def)
  finally have main: "(let (cnt, total) = foldl ?acc (0, 0) ?sel
         in if cnt = 0 then put2 mean j k quiet_NaN
            else put2 mean j k (total / value_of_count cnt))
        = put2 mean j k (nanmean_of (map (\<lambda>i. at3 src i j k) ?sel))" .
  have start: "(let accumulate = ?acc;
        (cnt, total) =
           (if keep = []
            then for_loop 0 n (\<lambda>i acc. accumulate acc i) (0::nat, 0)
            else foldl accumulate (0::nat, 0) keep)
    in if cnt = 0 then put2 mean j k quiet_NaN
       else put2 mean j k (total / value_of_count cnt))
    = (let (cnt, total) = foldl ?acc (0, 0) ?sel
         in if cnt = 0 then put2 mean j k quiet_NaN
            else put2 mean j k (total / value_of_count cnt))"
    by (cases "keep = []") (simp_all add: for_loop_def)
  show ?thesis
    unfolding start main by (simp add: pw1_def put2_def)
qed

lemma nanmeanImageArrayImp_closed:
  assumes "partition2 blocks (snd (shape src))"
  shows "nanmeanImageArrayImp blocks fresh src keep =
     map_on (inside2 (snd (shape src)))
       (\<lambda>p v. nanmean_of (map (\<lambda>i. at3 src i (fst p) (snd p))
                  (if keep = [] then [0..<fst (shape src)] else keep)))
       (fresh\<lparr>shape := snd (shape src)\<rparr>)"
  unfolding nanmeanImageArrayImp_def nanmean_pixel
  using assms by (simp add: parallel_for2_pw1)

lemma nanmean_of_empty:
  "filter (\<lambda>v. \<not> isnan v) vs = [] \<Longrightarrow> nanmean_of vs = NaN"
  by (simp add: nanmean_of_def)

lemma nanmean_of_nonempty:
  "filter (\<lambda>v. \<not> isnan v) vs \<noteq> [] \<Longrightarrow>
   nanmean_of vs = fp_sum (filter (\<lambda>v. \<not> isnan v) vs)
                      / value_of_count (length (filter (\<lambda>v. \<not> isnan v) vs))"
  by (simp add: nanmean_of_def Let_def)

lemma exact_sums_foldl:
  "nearest_float t = Some t \<Longrightarrow> exact_sums t vs \<Longrightarrow>
   foldl (\<lambda>total v. total + v) (Fin (Abs_float32 t)) vs
     = Fin (Abs_float32 (t + sum_list (map finite_value vs))) \<and>
   nearest_float (t + sum_list (map finite_value vs)) = Some (t + sum_list (map finite_value vs))"
proof (induction vs arbitrary: t)
  case Nil
  then show ?case
    by simp
next
  case (Cons v vs)
  from Cons.prems(2) obtain a where v: "v = Fin a"
    by (cases v) simp_all
  from Cons.prems(2) have e: "nearest_float (t + Rep_float32 a) = Some (t + Rep_float32 a)"
    and r: "exact_sums (t + Rep_float32 a) vs"
    by (simp_all add: v)
  have "Fin (Abs_float32 t) + v = Fin (Abs_float32 (t + Rep_float32 a))"
    using Cons.prems(1) e by (simp add: v plus_fp_def Rep_Abs_exact float_of_exact)
  then show ?case
    using Cons.IH [OF e r] by (simp add: v add.assoc)
qed

lemma exact_sums_not_nan: "exact_sums t vs \<Longrightarrow> filter (\<lambda>v. \<not> isnan v) vs = vs"
proof (induction vs arbitrary: t)
  case Nil
  then show ?case
    by simp
next
  case (Cons v vs)
  then show ?case
    by (cases v) auto
qed

lemma nanmean_of_exact:
  assumes "good \<noteq> []" and "exact_sums 0 good" and "length good \<le> 2 ^ 24"
  shows "fp_sum good / value_of_count (length good)
     = float_of (sum_list (map finite_value good) / real (length good))"
proof -
  let ?s = "sum_list (map finite_value good)"
  have z: "nearest_float 0 = Some 0"
    by (rule float_values)
  from exact_sums_foldl [OF z assms(2)]
  have s: "fp_sum good = Fin (Abs_float32 ?s)" and e: "nearest_float ?s = Some ?s"
    by (simp_all add: fp_sum_def zero_fp_def float_of_exact z)
  have n: "nearest_float (real (length good)) = Some (real (length good))"
    using assms(3) by (rule nearest_float_of_nat)
  have "real (length good) \<noteq> 0"
    using assms(1) by simp
  then show ?thesis
    by (simp add: s value_of_count_def float_of_exact n divide_fp_def Rep_Abs_exact e)
qed

lemma xt_nanmean_axis0_view_keep:
  "xt_nanmean_axis0 (xt_view_keep src keep) =
     \<lparr>shape = snd (shape src),
      elems = (\<lambda>p. nanmean_of (map (\<lambda>i. at3 src i (fst p) (snd p)) keep))\<rparr>"
proof -
  have "map (\<lambda>i. at3 src (keep ! i) j k) [0..<length keep] = map (\<lambda>i. at3 src i j k) keep" for j k
    by (rule nth_equalityI) simp_all
  then show ?thesis
    by (simp add: xt_nanmean_axis0_def xt_view_keep_def xt_nanmean_values_nanmean_of at3_def
        split_def)
qed

lemma xt_nanmean_axis0_all:
  "xt_nanmean_axis0 src =
     \<lparr>shape = snd (shape src),
      elems = (\<lambda>p. nanmean_of (map (\<lambda>i. at3 src i (fst p) (snd p)) [0..<fst (shape src)]))\<rparr>"
  by (simp add: xt_nanmean_axis0_def xt_nanmean_values_nanmean_of split_def)

lemma pair_mean:
  "nanmean_of [x, y] =
     (if isnan x \<and> isnan y then NaN else if isnan x then y else if isnan y then x
      else value_half * (x + y))"
proof -
  have one: "nanmean_of [v] = v" if "\<not> isnan v" for v
    using that by (simp add: nanmean_of_def fp_sum_def zero_plus divide_by_one)
  have two: "nanmean_of [x, y] = value_half * (x + y)" if "\<not> isnan x" "\<not> isnan y"
    using that by (simp add: nanmean_of_def fp_sum_def zero_plus half_of)
  have l: "nanmean_of [x, y] = nanmean_of [y]" if "isnan x"
    using that by (simp add: nanmean_of_def)
  have r: "nanmean_of [x, y] = nanmean_of [x]" if "isnan y"
    using that by (simp add: nanmean_of_def)
  show ?thesis
    using one two l r by (auto simp: nanmean_of_def)
qed

lemma xt_nanmean_axis0_stack:
  "xt_nanmean_axis0 (xt_stack a b) =
     \<lparr>shape = shape a, elems = (\<lambda>p. nanmean_of [elems a p, elems b p])\<rparr>"
  by (simp add: xt_nanmean_axis0_def xt_stack_def xt_nanmean_values_nanmean_of at3_def at2_def
      split_def upt_rec numeral_2_eq_2)

lemma nanmeanImageArray_pair_closed:
  assumes "shape src2 = shape src1" and "valid2 bld (shape src1)"
  shows "\<exists>mean. nanmeanImageArray_pair bld fresh src1 src2 = Returned (src1, src2) mean \<and>
     shape mean = shape src1 \<and>
     (\<forall>p \<in> inside2 (shape src1). elems mean p = nanmean_of [elems src1 p, elems src2 p])"
proof (cases bld)
  case (WithTBB blocks)
  have body: "(\<lambda>j k mean.
                  let x = at2 src1 j k; y = at2 src2 j k in
                  if isnan x \<and> isnan y then put2 mean j k quiet_NaN
                  else if isnan x then put2 mean j k y
                  else if isnan y then put2 mean j k x
                  else put2 mean j k (value_half * (x + y)))
     = (\<lambda>j k. pw1 (\<lambda>p v. nanmean_of [elems src1 p, elems src2 p]) (j, k))"
    by (auto simp: fun_eq_iff pw1_def at2_def put2_def Let_def pair_mean quiet_NaN_def)
  show ?thesis
    unfolding nanmeanImageArray_pair_def body
    using assms WithTBB
    by (simp add: checkShape_def shape2_def valid2_def parallel_for2_pw1 map_on_def)
next
  case NoTBB
  show ?thesis
    unfolding nanmeanImageArray_pair_def
    using assms NoTBB
    by (simp add: checkShape_def shape2_def xt_nanmean_axis0_stack)
qed

lemma stack_pixel_mean:
  "(let good = filter (\<lambda>v. \<not> isnan v) vs in
      (good = [] \<longrightarrow> isnan (nanmean_of vs)) \<and>
      (good \<noteq> [] \<longrightarrow> nanmean_of vs = fp_sum good / value_of_count (length good)) \<and>
      (good \<noteq> [] \<and> exact_sums 0 good \<and> length good \<le> 2 ^ 24 \<longrightarrow>
         nanmean_of vs = float_of (sum_list (map finite_value good) / real (length good))))"
  unfolding Let_def
  using nanmean_of_empty [of vs] nanmean_of_nonempty [of vs]
    nanmean_of_exact [of "filter (\<lambda>v. \<not> isnan v) vs"]
  by auto

lemma nanmeanImageArray_keep_closed:
  assumes "valid2 bld (snd (shape src))" and "keep \<noteq> []"
  shows "\<exists>mean. nanmeanImageArray_keep bld fresh src keep = Returned src mean \<and>
     shape mean = snd (shape src) \<and>
     (\<forall>j k. j < fst (snd (shape src)) \<and> k < snd (snd (shape src)) \<longrightarrow>
        at2 mean j k = nanmean_of (map (\<lambda>i. at3 src i j k) keep))"
  using assms
  by (cases bld)
     (simp_all add: nanmeanImageArray_keep_def valid2_def nanmeanImageArrayImp_closed
        xt_nanmean_axis0_view_keep map_on_def inside2_def at2_def)

lemma nanmeanImageArray_all_closed:
  assumes "valid2 bld (snd (shape src))"
  shows "\<exists>mean. nanmeanImageArray_all bld fresh src = Returned src mean \<and>
     shape mean = snd (shape src) \<and>
     (\<forall>j k. j < fst (snd (shape src)) \<and> k < snd (snd (shape src)) \<longrightarrow>
        at2 mean j k = nanmean_of (map (\<lambda>i. at3 src i j k) [0..<fst (shape src)]))"
  using assms
  by (cases bld)
     (simp_all add: nanmeanImageArray_all_def valid2_def nanmeanImageArrayImp_closed
        xt_nanmean_axis0_all map_on_def inside2_def at2_def)

text \<open>
  C2, as amended. Built with TBB, where the mean is the loop nest of
  \<^verbatim>\<open>nanmeanImageArrayImp\<close>, and with blocks that partition the pixels of a frame: for
  a non-empty \<open>keep\<close> whose entries are frame indices of the stack, and for no
  selection at all, the stack-wide mean returns a new image with the shape of a frame
  and hands the stack back as it was. At every pixel, with \<open>good\<close> the selected
  values at that pixel that are not NaN, in the order of the selection (all frames in
  order when there is none): the result is NaN when \<open>good\<close> is empty; otherwise it is
  the sum of \<open>good\<close>, accumulated from 0 in that order with every addition rounded to
  the element type, divided by the number of these values as converted to the element
  type. Where no partial sum rounds and there are at most \<open>2 ^ 24\<close> values, this is
  the arithmetic mean of \<open>good\<close>, rounded once. The build without TBB hands the work
  to \<^verbatim>\<open>xt::nanmean\<close>, which is not among the sources; how it relates to the loop
  nest belongs to the section on parallel and sequential paths.
\<close>

theorem nanmean_stack:
  "(partition2 blocks (snd (shape src)) \<and> keep \<noteq> [] \<and>
    list_all (\<lambda>i. i < fst (shape src)) keep \<longrightarrow>
      (\<exists>mean. nanmeanImageArray_keep (WithTBB blocks) fresh src keep = Returned src mean \<and>
         shape mean = snd (shape src) \<and>
         (\<forall>j k. j < fst (snd (shape src)) \<and> k < snd (snd (shape src)) \<longrightarrow>
            (let good = filter (\<lambda>v. \<not> isnan v) (map (\<lambda>i. at3 src i j k) keep) in
             (good = [] \<longrightarrow> isnan (at2 mean j k)) \<and>
             (good \<noteq> [] \<longrightarrow> at2 mean j k = fp_sum good / value_of_count (length good)) \<and>
             (good \<noteq> [] \<and> exact_sums 0 good \<and> length good \<le> 2 ^ 24 \<longrightarrow>
                at2 mean j k
                  = float_of (sum_list (map finite_value good) / real (length good))))))) \<and>
   (partition2 blocks (snd (shape src)) \<longrightarrow>
      (\<exists>mean. nanmeanImageArray_all (WithTBB blocks) fresh src = Returned src mean \<and>
         shape mean = snd (shape src) \<and>
         (\<forall>j k. j < fst (snd (shape src)) \<and> k < snd (snd (shape src)) \<longrightarrow>
            (let good = filter (\<lambda>v. \<not> isnan v)
                          (map (\<lambda>i. at3 src i j k) [0..<fst (shape src)]) in
             (good = [] \<longrightarrow> isnan (at2 mean j k)) \<and>
             (good \<noteq> [] \<longrightarrow> at2 mean j k = fp_sum good / value_of_count (length good)) \<and>
             (good \<noteq> [] \<and> exact_sums 0 good \<and> length good \<le> 2 ^ 24 \<longrightarrow>
                at2 mean j k
                  = float_of (sum_list (map finite_value good) / real (length good)))))))"
proof (intro conjI impI)
  assume h: "partition2 blocks (snd (shape src)) \<and> keep \<noteq> [] \<and>
    list_all (\<lambda>i. i < fst (shape src)) keep"
  then have "valid2 (WithTBB blocks) (snd (shape src))" and "keep \<noteq> []"
    by (simp_all add: valid2_def)
  then obtain mean where
    m: "nanmeanImageArray_keep (WithTBB blocks) fresh src keep = Returned src mean"
       "shape mean = snd (shape src)"
       "\<And>j k. j < fst (snd (shape src)) \<and> k < snd (snd (shape src)) \<Longrightarrow>
          at2 mean j k = nanmean_of (map (\<lambda>i. at3 src i j k) keep)"
    using nanmeanImageArray_keep_closed [of "WithTBB blocks" src keep fresh] by blast
  show "\<exists>mean. nanmeanImageArray_keep (WithTBB blocks) fresh src keep = Returned src mean \<and>
         shape mean = snd (shape src) \<and>
         (\<forall>j k. j < fst (snd (shape src)) \<and> k < snd (snd (shape src)) \<longrightarrow>
            (let good = filter (\<lambda>v. \<not> isnan v) (map (\<lambda>i. at3 src i j k) keep) in
             (good = [] \<longrightarrow> isnan (at2 mean j k)) \<and>
             (good \<noteq> [] \<longrightarrow> at2 mean j k = fp_sum good / value_of_count (length good)) \<and>
             (good \<noteq> [] \<and> exact_sums 0 good \<and> length good \<le> 2 ^ 24 \<longrightarrow>
                at2 mean j k
                  = float_of (sum_list (map finite_value good) / real (length good)))))"
    using m stack_pixel_mean by (intro exI [of _ mean]) simp
next
  assume h: "partition2 blocks (snd (shape src))"
  then have "valid2 (WithTBB blocks) (snd (shape src))"
    by (simp add: valid2_def)
  then obtain mean where
    m: "nanmeanImageArray_all (WithTBB blocks) fresh src = Returned src mean"
       "shape mean = snd (shape src)"
       "\<And>j k. j < fst (snd (shape src)) \<and> k < snd (snd (shape src)) \<Longrightarrow>
          at2 mean j k = nanmean_of (map (\<lambda>i. at3 src i j k) [0..<fst (shape src)])"
    using nanmeanImageArray_all_closed [of "WithTBB blocks" src fresh] by blast
  show "\<exists>mean. nanmeanImageArray_all (WithTBB blocks) fresh src = Returned src mean \<and>
         shape mean = snd (shape src) \<and>
         (\<forall>j k. j < fst (snd (shape src)) \<and> k < snd (snd (shape src)) \<longrightarrow>
            (let good = filter (\<lambda>v. \<not> isnan v)
                          (map (\<lambda>i. at3 src i j k) [0..<fst (shape src)]) in
             (good = [] \<longrightarrow> isnan (at2 mean j k)) \<and>
             (good \<noteq> [] \<longrightarrow> at2 mean j k = fp_sum good / value_of_count (length good)) \<and>
             (good \<noteq> [] \<and> exact_sums 0 good \<and> length good \<le> 2 ^ 24 \<longrightarrow>
                at2 mean j k
                  = float_of (sum_list (map finite_value good) / real (length good)))))"
    using m stack_pixel_mean by (intro exI [of _ mean]) simp
qed

text \<open>
  The claim as first stated fails, because the accumulated sum rounds and overflows.
  Over the frames \<open>2 ^ 24\<close>, 1 and \<open>- 2 ^ 24\<close> the second addition rounds and the
  result is 0, where the arithmetic mean is a third. Over three frames of
  \<^verbatim>\<open>FLT_MAX\<close> the sum overflows and the result is the positive infinity, where the
  arithmetic mean is \<^verbatim>\<open>FLT_MAX\<close>.
\<close>

theorem nanmean_stack_not_arithmetic_mean:
  "\<exists>mean.
     nanmeanImageArray_keep (WithTBB example_blocks2) (constant_image (0, 0) 0)
       (array_of_frames
          [[float_of 16777216, float_of FLT_MAX, float_of 1],
           [float_of 1, float_of FLT_MAX, NaN],
           [float_of (- 16777216), float_of FLT_MAX, float_of 3]]) [0, 1, 2]
     = Returned
         (array_of_frames
            [[float_of 16777216, float_of FLT_MAX, float_of 1],
             [float_of 1, float_of FLT_MAX, NaN],
             [float_of (- 16777216), float_of FLT_MAX, float_of 3]]) mean \<and>
     at2 mean 0 0 = float_of 0 \<and>
     float_of 0 \<noteq> float_of ((16777216 + 1 + (- 16777216)) / 3) \<and>
     at2 mean 0 1 = PInf \<and>
     PInf \<noteq> float_of ((FLT_MAX + FLT_MAX + FLT_MAX) / 3)"
proof -
  let ?src = "array_of_frames
          [[float_of 16777216, float_of FLT_MAX, float_of 1],
           [float_of 1, float_of FLT_MAX, NaN],
           [float_of (- 16777216), float_of FLT_MAX, float_of 3]]"
  let ?fresh = "constant_image (0, 0) (0::fp)"
  have sh: "shape ?src = (3, 1, 3)"
    by (simp add: array_of_frames_def)
  have v: "valid2 (WithTBB example_blocks2) (snd (shape ?src))"
    using example_blocks2_partition by (simp add: sh valid2_def)
  from nanmeanImageArray_keep_closed [OF v, of "[0, 1, 2]" ?fresh]
  obtain mean where
    r: "nanmeanImageArray_keep (WithTBB example_blocks2) ?fresh ?src [0, 1, 2] = Returned ?src mean"
    and px: "\<And>j k. j < fst (snd (shape ?src)) \<and> k < snd (snd (shape ?src)) \<Longrightarrow>
        at2 mean j k = nanmean_of (map (\<lambda>i. at3 ?src i j k) [0, 1, 2])"
    by auto
  note third = nearest_float_idem [OF float_landmarks(3)]
  note ev = nanmean_of_def fp_sum_def float_of_def float_landmarks FLT_MAX_def third float_eval
  have "at2 mean 0 0 = float_of 0"
    using px [of 0 0] by (simp add: sh array_of_frames_def at3_def ev)
  moreover have "float_of 0 \<noteq> float_of ((16777216 + 1 + (- 16777216)) / 3)"
    by (simp add: ev)
  moreover have "at2 mean 0 1 = PInf"
    using px [of 0 1] by (simp add: sh array_of_frames_def at3_def ev)
  moreover have "PInf \<noteq> float_of ((FLT_MAX + FLT_MAX + FLT_MAX) / 3)"
    by (simp add: ev)
  ultimately show ?thesis
    using r by blast
qed

theorem nanmean_stack_example:
  "(\<exists>mean. nanmeanImageArray_keep (WithTBB example_blocks2) (constant_image (0, 0) 0)
        (array_of_frames
           [[float_of 1, NaN, float_of 2], [NaN, NaN, float_of 7], [float_of 3, NaN, float_of 6]])
        [2, 0]
        = Returned
            (array_of_frames
               [[float_of 1, NaN, float_of 2], [NaN, NaN, float_of 7], [float_of 3, NaN, float_of 6]])
            mean \<and>
      at2 mean 0 0 = float_of 2 \<and> at2 mean 0 1 = NaN \<and> at2 mean 0 2 = float_of ((6 + 2) / 2)) \<and>
   (\<exists>mean. nanmeanImageArray_all (WithTBB example_blocks2) (constant_image (0, 0) 0)
        (array_of_frames
           [[float_of 1, NaN, float_of 2], [NaN, NaN, float_of 7], [float_of 3, NaN, float_of 6]])
        = Returned
            (array_of_frames
               [[float_of 1, NaN, float_of 2], [NaN, NaN, float_of 7], [float_of 3, NaN, float_of 6]])
            mean \<and>
      at2 mean 0 0 = float_of 2 \<and> at2 mean 0 1 = NaN \<and>
      at2 mean 0 2 = float_of ((2 + 7 + 6) / 3))"
proof -
  let ?src = "array_of_frames
     [[float_of 1, NaN, float_of 2], [NaN, NaN, float_of 7], [float_of 3, NaN, float_of 6]]"
  let ?fresh = "constant_image (0, 0) (0::fp)"
  have sh: "shape ?src = (3, 1, 3)"
    by (simp add: array_of_frames_def)
  have n: "isnan x \<Longrightarrow> x = NaN" for x
    by (cases x) simp_all
  note ev = Let_def fp_sum_def float_eval
  have h1: "partition2 example_blocks2 (snd (shape ?src)) \<and> [2, 0] \<noteq> ([]::nat list) \<and>
      list_all (\<lambda>i. i < fst (shape ?src)) [2, 0]"
    using example_blocks2_partition by (simp add: sh)
  have h2: "partition2 example_blocks2 (snd (shape ?src))"
    using h1 by simp
  note t1 = nanmean_stack [where blocks = example_blocks2 and src = ?src
      and keep = "[2, 0]" and fresh = ?fresh, THEN conjunct1, rule_format, OF h1]
  note t2 = nanmean_stack [where blocks = example_blocks2 and src = ?src
      and keep = "[]" and fresh = ?fresh, THEN conjunct2, rule_format, OF h2]
  from t1 obtain mean where
    r: "nanmeanImageArray_keep (WithTBB example_blocks2) ?fresh ?src [2, 0] = Returned ?src mean"
    and px: "\<And>j k. j < fst (snd (shape ?src)) \<and> k < snd (snd (shape ?src)) \<Longrightarrow>
        (let good = filter (\<lambda>v. \<not> isnan v) (map (\<lambda>i. at3 ?src i j k) [2, 0]) in
         (good = [] \<longrightarrow> isnan (at2 mean j k)) \<and>
         (good \<noteq> [] \<longrightarrow> at2 mean j k = fp_sum good / value_of_count (length good)) \<and>
         (good \<noteq> [] \<and> exact_sums 0 good \<and> length good \<le> 2 ^ 24 \<longrightarrow>
            at2 mean j k = float_of (sum_list (map finite_value good) / real (length good))))"
    by blast
  have g2: "filter (\<lambda>v. \<not> isnan v) (map (\<lambda>i. at3 ?src i 0 2) [2, 0])
      = [Fin (Abs_float32 6), Fin (Abs_float32 2)]"
    by (simp add: array_of_frames_def at3_def float_eval)
  have e2: "exact_sums 0 [Fin (Abs_float32 6), Fin (Abs_float32 2)]"
    by (simp add: float_eval)
  have "at2 mean 0 0 = float_of 2"
    using px [of 0 0] by (simp add: sh array_of_frames_def at3_def ev)
  moreover have "at2 mean 0 1 = NaN"
    using px [of 0 1] n by (simp add: sh array_of_frames_def at3_def)
  moreover have "at2 mean 0 2 = float_of ((6 + 2) / 2)"
    using px [of 0 2, unfolded Let_def g2, THEN conjunct2, THEN conjunct2] e2
    by (simp add: array_of_frames_def float_eval)
  ultimately have first: "\<exists>mean.
      nanmeanImageArray_keep (WithTBB example_blocks2) ?fresh ?src [2, 0] = Returned ?src mean \<and>
      at2 mean 0 0 = float_of 2 \<and> at2 mean 0 1 = NaN \<and> at2 mean 0 2 = float_of ((6 + 2) / 2)"
    using r by blast
  from t2 obtain mean' where
    r': "nanmeanImageArray_all (WithTBB example_blocks2) ?fresh ?src = Returned ?src mean'"
    and px': "\<And>j k. j < fst (snd (shape ?src)) \<and> k < snd (snd (shape ?src)) \<Longrightarrow>
        (let good = filter (\<lambda>v. \<not> isnan v) (map (\<lambda>i. at3 ?src i j k) [0..<fst (shape ?src)]) in
         (good = [] \<longrightarrow> isnan (at2 mean' j k)) \<and>
         (good \<noteq> [] \<longrightarrow> at2 mean' j k = fp_sum good / value_of_count (length good)) \<and>
         (good \<noteq> [] \<and> exact_sums 0 good \<and> length good \<le> 2 ^ 24 \<longrightarrow>
            at2 mean' j k = float_of (sum_list (map finite_value good) / real (length good))))"
    by blast
  have fr: "[0..<fst (shape ?src)] = [0, 1, 2]"
    by (simp add: sh upt_rec)
  have g3: "filter (\<lambda>v. \<not> isnan v) (map (\<lambda>i. at3 ?src i 0 2) [0, 1, 2])
      = [Fin (Abs_float32 2), Fin (Abs_float32 7), Fin (Abs_float32 6)]"
    by (simp add: array_of_frames_def at3_def float_eval)
  have e3: "exact_sums 0 [Fin (Abs_float32 2), Fin (Abs_float32 7), Fin (Abs_float32 6)]"
    by (simp add: float_eval)
  have "at2 mean' 0 0 = float_of 2"
    using px' [of 0 0] unfolding fr by (simp add: sh array_of_frames_def at3_def ev)
  moreover have "at2 mean' 0 1 = NaN"
    using px' [of 0 1] n unfolding fr by (simp add: sh array_of_frames_def at3_def)
  moreover have "at2 mean' 0 2 = float_of ((2 + 7 + 6) / 3)"
    using px' [of 0 2, unfolded Let_def fr g3, THEN conjunct2, THEN conjunct2] e3
    by (simp add: array_of_frames_def float_eval)
  ultimately have second: "\<exists>mean.
      nanmeanImageArray_all (WithTBB example_blocks2) ?fresh ?src = Returned ?src mean \<and>
      at2 mean 0 0 = float_of 2 \<and> at2 mean 0 1 = NaN \<and>
      at2 mean 0 2 = float_of ((2 + 7 + 6) / 3)"
    using r' by blast
  from first second show ?thesis by blast
qed

section \<open>NaN-aware mean of two images\<close>

lemma half_of_exact_sum:
  assumes "exact_sums 0 [x, y]"
  shows "value_half * (x + y) = float_of ((finite_value x + finite_value y) / 2)"
proof -
  from assms obtain a b where xy: "x = Fin a" "y = Fin b"
    by (cases x; cases y) simp_all
  from assms have e: "nearest_float (Rep_float32 a + Rep_float32 b)
      = Some (Rep_float32 a + Rep_float32 b)"
    by (simp add: xy)
  show ?thesis
    by (simp add: xy plus_fp_def times_fp_def value_half_def float_of_exact e Rep_Abs_exact
        float_values)
qed

text \<open>
  C3, as amended. For two images of one shape, under a build configuration whose
  blocks, if any, partition the pixels, the pairwise mean returns a new image of that
  shape and hands both inputs back as they were. At every pixel the result is NaN when
  both inputs are NaN, the other input when exactly one is NaN, and otherwise the sum of
  the two, rounded to the element type, times one half, rounded again. Where the sum
  of two finite values does not round, this is their arithmetic mean, rounded once. For
  images of different shapes the call raises a shape-mismatch error, again with both
  inputs as they were.
\<close>

theorem nanmean_pair:
  "(shape src2 = shape src1 \<and> valid2 bld (shape src1) \<longrightarrow>
      (\<exists>mean. nanmeanImageArray_pair bld fresh src1 src2 = Returned (src1, src2) mean \<and>
         shape mean = shape src1 \<and>
         (\<forall>j k. j < fst (shape src1) \<and> k < snd (shape src1) \<longrightarrow>
            (let x = at2 src1 j k; y = at2 src2 j k in
             at2 mean j k =
               (if isnan x \<and> isnan y then NaN
                else if isnan x then y
                else if isnan y then x
                else value_half * (x + y)) \<and>
             (exact_sums 0 [x, y] \<longrightarrow>
                at2 mean j k = float_of ((finite_value x + finite_value y) / 2)))))) \<and>
   (shape src2 \<noteq> shape src1 \<longrightarrow>
      (\<exists>msg. nanmeanImageArray_pair bld fresh src1 src2 = Raised (ShapeMismatch msg) (src1, src2)))"
proof (intro conjI impI)
  assume h: "shape src2 = shape src1 \<and> valid2 bld (shape src1)"
  then obtain mean where
    m: "nanmeanImageArray_pair bld fresh src1 src2 = Returned (src1, src2) mean"
       "shape mean = shape src1"
       "\<forall>p \<in> inside2 (shape src1). elems mean p = nanmean_of [elems src1 p, elems src2 p]"
    using nanmeanImageArray_pair_closed [of src2 src1 bld fresh] by blast
  have ex: "exact_sums 0 [x, y] \<Longrightarrow> \<not> isnan x \<and> \<not> isnan y" for x y
    by (cases x; cases y) simp_all
  show "\<exists>mean. nanmeanImageArray_pair bld fresh src1 src2 = Returned (src1, src2) mean \<and>
         shape mean = shape src1 \<and>
         (\<forall>j k. j < fst (shape src1) \<and> k < snd (shape src1) \<longrightarrow>
            (let x = at2 src1 j k; y = at2 src2 j k in
             at2 mean j k =
               (if isnan x \<and> isnan y then NaN
                else if isnan x then y
                else if isnan y then x
                else value_half * (x + y)) \<and>
             (exact_sums 0 [x, y] \<longrightarrow>
                at2 mean j k = float_of ((finite_value x + finite_value y) / 2))))"
    using m ex half_of_exact_sum
    by (intro exI [of _ mean]) (auto simp: inside2_def at2_def pair_mean Let_def)
next
  assume "shape src2 \<noteq> shape src1"
  then show "\<exists>msg. nanmeanImageArray_pair bld fresh src1 src2
      = Raised (ShapeMismatch msg) (src1, src2)"
    by (auto simp: nanmeanImageArray_pair_def checkShape_def shape2_def prod_eq_iff)
qed

text \<open>
  The claim as first stated fails where the sum overflows: the pairwise mean of
  \<^verbatim>\<open>FLT_MAX\<close> and \<^verbatim>\<open>FLT_MAX\<close> is the positive infinity, where the arithmetic mean
  is \<^verbatim>\<open>FLT_MAX\<close>.
\<close>

theorem nanmean_pair_overflows:
  "\<exists>mean.
     nanmeanImageArray_pair (WithTBB example_blocks2) (constant_image (0, 0) 0)
       (image_of_row [float_of FLT_MAX, float_of 2, NaN])
       (image_of_row [float_of FLT_MAX, float_of 4, float_of 5])
     = Returned
         (image_of_row [float_of FLT_MAX, float_of 2, NaN],
          image_of_row [float_of FLT_MAX, float_of 4, float_of 5]) mean \<and>
     at2 mean 0 0 = PInf \<and>
     PInf \<noteq> float_of ((FLT_MAX + FLT_MAX) / 2)"
proof -
  let ?a = "image_of_row [float_of FLT_MAX, float_of 2, NaN]"
  let ?b = "image_of_row [float_of FLT_MAX, float_of 4, float_of 5]"
  let ?fresh = "constant_image (0, 0) (0::fp)"
  have sh: "shape ?a = (1, 3)" "shape ?b = (1, 3)"
    by (simp_all add: image_of_row_def)
  have v: "valid2 (WithTBB example_blocks2) (shape ?a)"
    using example_blocks2_partition by (simp add: sh valid2_def)
  from nanmeanImageArray_pair_closed [of ?b ?a "WithTBB example_blocks2" ?fresh] v
  obtain mean where
    r: "nanmeanImageArray_pair (WithTBB example_blocks2) ?fresh ?a ?b = Returned (?a, ?b) mean"
    and px: "\<forall>p \<in> inside2 (shape ?a). elems mean p = nanmean_of [elems ?a p, elems ?b p]"
    by (auto simp: sh)
  note ev = float_of_def float_landmarks FLT_MAX_def float_eval
  have "(0, 0) \<in> inside2 (shape ?a)"
    by (simp add: sh inside2_def)
  with px have "at2 mean 0 0 = nanmean_of [elems ?a (0, 0), elems ?b (0, 0)]"
    by (simp add: at2_def)
  then have "at2 mean 0 0 = PInf"
    by (simp add: pair_mean image_of_row_def ev)
  moreover have "PInf \<noteq> float_of ((FLT_MAX + FLT_MAX) / 2)"
    by (simp add: ev)
  ultimately show ?thesis
    using r by blast
qed

theorem nanmean_pair_example:
  "(\<exists>mean. nanmeanImageArray_pair (WithTBB example_blocks2) (constant_image (0, 0) 0)
        (image_of_row [float_of 5, NaN, float_of 2]) (image_of_row [NaN, NaN, float_of 4])
        = Returned (image_of_row [float_of 5, NaN, float_of 2], image_of_row [NaN, NaN, float_of 4])
            mean \<and>
      at2 mean 0 0 = float_of 5 \<and> at2 mean 0 1 = NaN \<and> at2 mean 0 2 = float_of ((2 + 4) / 2)) \<and>
   (\<exists>msg. nanmeanImageArray_pair NoTBB (constant_image (0, 0) 0)
        (image_of_row [float_of 5, NaN, float_of 2]) (image_of_row [float_of 1])
        = Raised (ShapeMismatch msg)
            (image_of_row [float_of 5, NaN, float_of 2], image_of_row [float_of 1]))"
proof -
  let ?a = "image_of_row [float_of 5, NaN, float_of 2]"
  let ?b = "image_of_row [NaN, NaN, float_of 4]"
  let ?c = "image_of_row [float_of 1]"
  let ?fresh = "constant_image (0, 0) (0::fp)"
  have sh: "shape ?a = (1, 3)" "shape ?b = (1, 3)" "shape ?c = (1, 1)"
    by (simp_all add: image_of_row_def)
  have h1: "shape ?b = shape ?a \<and> valid2 (WithTBB example_blocks2) (shape ?a)"
    using example_blocks2_partition by (simp add: sh valid2_def)
  have h2: "shape ?c \<noteq> shape ?a"
    by (simp add: sh)
  note t1 = nanmean_pair [where bld = "WithTBB example_blocks2" and fresh = ?fresh
      and ?src1.0 = ?a and ?src2.0 = ?b, THEN conjunct1, rule_format, OF h1]
  note t2 = nanmean_pair [where bld = NoTBB and fresh = ?fresh
      and ?src1.0 = ?a and ?src2.0 = ?c, THEN conjunct2, rule_format, OF h2]
  from t1 obtain mean where
    r: "nanmeanImageArray_pair (WithTBB example_blocks2) ?fresh ?a ?b = Returned (?a, ?b) mean"
    and px: "\<And>j k. j < fst (shape ?a) \<and> k < snd (shape ?a) \<Longrightarrow>
        (let x = at2 ?a j k; y = at2 ?b j k in
         at2 mean j k =
           (if isnan x \<and> isnan y then NaN
            else if isnan x then y
            else if isnan y then x
            else value_half * (x + y)) \<and>
         (exact_sums 0 [x, y] \<longrightarrow>
            at2 mean j k = float_of ((finite_value x + finite_value y) / 2)))"
    by blast
  have v2: "at2 ?a 0 2 = Fin (Abs_float32 2)" "at2 ?b 0 2 = Fin (Abs_float32 4)"
    by (simp_all add: image_of_row_def at2_def float_eval)
  have e2: "exact_sums 0 [Fin (Abs_float32 2), Fin (Abs_float32 4)]"
    by (simp add: float_eval)
  have "at2 mean 0 0 = float_of 5"
    using px [of 0 0] by (simp add: image_of_row_def at2_def float_eval)
  moreover have "at2 mean 0 1 = NaN"
    using px [of 0 1] by (simp add: image_of_row_def at2_def)
  moreover have "at2 mean 0 2 = float_of ((2 + 4) / 2)"
    using px [of 0 2, unfolded Let_def v2, THEN conjunct2] e2
    by (simp add: image_of_row_def float_eval)
  ultimately have "\<exists>mean.
      nanmeanImageArray_pair (WithTBB example_blocks2) ?fresh ?a ?b = Returned (?a, ?b) mean \<and>
      at2 mean 0 0 = float_of 5 \<and> at2 mean 0 1 = NaN \<and> at2 mean 0 2 = float_of ((2 + 4) / 2)"
    using r by blast
  with t2 show ?thesis by blast
qed

section \<open>The empty selection\<close>

text \<open>
  C4. Built with TBB, the stack-wide mean with a selection raises an invalid-argument
  error for the empty selection, whatever the blocks. Built without, it makes no such
  check and returns for the empty selection.
\<close>

theorem nanmean_empty_keep:
  "nanmeanImageArray_keep (WithTBB blocks) fresh src []
     = Raised (InvalidArgument ''keep cannot be empty!'') src \<and>
   (\<exists>mean. nanmeanImageArray_keep NoTBB fresh src [] = Returned src mean)"
  by (simp add: nanmeanImageArray_keep_def)

theorem nanmean_empty_keep_example:
  "nanmeanImageArray_keep (WithTBB example_blocks2) (constant_image (0, 0) 0)
     (array_of_frames [[float_of 1, NaN, float_of 2], [NaN, NaN, float_of 7]]) []
     = Raised (InvalidArgument ''keep cannot be empty!'')
         (array_of_frames [[float_of 1, NaN, float_of 2], [NaN, NaN, float_of 7]]) \<and>
   (\<exists>mean. nanmeanImageArray_keep NoTBB (constant_image (0, 0) 0)
      (array_of_frames [[float_of 1, NaN, float_of 2], [NaN, NaN, float_of 7]]) []
      = Returned (array_of_frames [[float_of 1, NaN, float_of 2], [NaN, NaN, float_of 7]]) mean)"
  by (rule nanmean_empty_keep)

section \<open>Validation precedes mutation\<close>

text \<open>
  C5. Whenever a kernel with a failing path raises (a shape mismatch, a zero count for
  the moving average, an empty selection for the stack-wide mean built with TBB), the
  buffers it was given are as the caller passed them: the state that \<open>Raised\<close>
  carries is the state of the mutable buffers at the throw. The masks and constants that
  a kernel takes by \<^verbatim>\<open>const\<close> reference are not part of that state; no kernel can
  write to them.
\<close>

theorem raise_leaves_buffers_unmodified:
  "(nanmeanImageArray_keep bld2 fresh asrc keep = Raised e ast \<longrightarrow> ast = asrc) \<and>
   (nanmeanImageArray_pair bld2 fresh src src2 = Raised e qst \<longrightarrow> qst = (src, src2)) \<and>
   (imageDataNanMask src out = Raised e bst \<longrightarrow> bst = out) \<and>
   (maskImageDataZero_image_thr_out src lb ub out = Raised e pst \<longrightarrow> pst = (src, out)) \<and>
   (maskImageDataNan_image_thr_out src lb ub out = Raised e pst \<longrightarrow> pst = (src, out)) \<and>
   (maskImageDataZero_image_mask src msk = Raised e st \<longrightarrow> st = src) \<and>
   (maskImageDataZero_image_mask_out src msk out = Raised e pst \<longrightarrow> pst = (src, out)) \<and>
   (maskImageDataNan_image_mask src msk = Raised e st \<longrightarrow> st = src) \<and>
   (maskImageDataNan_image_mask_out src msk out = Raised e pst \<longrightarrow> pst = (src, out)) \<and>
   (maskImageDataZero_image_mask_thr src msk lb ub = Raised e st \<longrightarrow> st = src) \<and>
   (maskImageDataZero_image_mask_thr_out src msk lb ub out = Raised e pst \<longrightarrow> pst = (src, out)) \<and>
   (maskImageDataNan_image_mask_thr src msk lb ub = Raised e st \<longrightarrow> st = src) \<and>
   (maskImageDataNan_image_mask_thr_out src msk lb ub out = Raised e pst \<longrightarrow> pst = (src, out)) \<and>
   (maskImageDataZero_array_mask bld asrc msk = Raised e ast \<longrightarrow> ast = asrc) \<and>
   (maskImageDataNan_array_mask bld asrc msk = Raised e ast \<longrightarrow> ast = asrc) \<and>
   (maskImageDataZero_array_mask_thr bld asrc msk lb ub = Raised e ast \<longrightarrow> ast = asrc) \<and>
   (maskImageDataNan_array_mask_thr bld asrc msk lb ub = Raised e ast \<longrightarrow> ast = asrc) \<and>
   (movingAvgImageData_image src data cnt = Raised e st \<longrightarrow> st = src) \<and>
   (movingAvgImageData_array bld asrc adata cnt = Raised e ast \<longrightarrow> ast = asrc) \<and>
   (correctImageData_policy_array bld pol asrc aconstants = Raised e ast \<longrightarrow> ast = asrc) \<and>
   (correctImageData_policy_image pol src constants = Raised e st \<longrightarrow> st = src) \<and>
   (correctImageData_array bld asrc again aoffset = Raised e ast \<longrightarrow> ast = asrc) \<and>
   (correctImageData_image src gain offset = Raised e st \<longrightarrow> st = src)"
proof (intro conjI impI)
qed (auto simp add: nanmeanImageArray_keep_def nanmeanImageArray_pair_def imageDataNanMask_def
    maskImageDataZero_image_thr_out_def maskImageDataNan_image_thr_out_def
    maskImageDataZero_image_mask_def maskImageDataZero_image_mask_out_def
    maskImageDataNan_image_mask_def maskImageDataNan_image_mask_out_def
    maskImageDataZero_image_mask_thr_def maskImageDataZero_image_mask_thr_out_def
    maskImageDataNan_image_mask_thr_def maskImageDataNan_image_mask_thr_out_def
    maskImageDataZero_array_mask_def maskImageDataNan_array_mask_def
    maskImageDataZero_array_mask_thr_def maskImageDataNan_array_mask_thr_def
    movingAvgImageData_image_def movingAvgImageData_array_def
    correctImageData_policy_array_def correctImageData_policy_image_def
    correctImageData_array_def correctImageData_image_def
    split: option.splits if_splits build.splits)

theorem raise_leaves_buffers_unmodified_example:
  "(\<exists>e. nanmeanImageArray_keep
      (WithTBB example_blocks2) (constant_image (0, 0) 0) (array_of_frames [[float_of 1, NaN]]) []
       = Raised e (array_of_frames [[float_of 1, NaN]])) \<and>
   (\<exists>e. nanmeanImageArray_pair
       NoTBB (constant_image (0, 0) 0) (image_of_row [float_of 5, NaN]) (image_of_row [float_of 1])
       = Raised e (image_of_row [float_of 5, NaN], image_of_row [float_of 1])) \<and>
   (\<exists>e. imageDataNanMask (image_of_row [float_of 5, NaN]) (image_of_row [False])
       = Raised e (image_of_row [False])) \<and>
   (\<exists>e. maskImageDataZero_image_thr_out
       (image_of_row [float_of 5, NaN]) (float_of 0) (float_of 10) (image_of_row [False])
       = Raised e (image_of_row [float_of 5, NaN], image_of_row [False])) \<and>
   (\<exists>e. maskImageDataNan_image_thr_out
       (image_of_row [float_of 5, NaN]) (float_of 0) (float_of 10) (image_of_row [False])
       = Raised e (image_of_row [float_of 5, NaN], image_of_row [False])) \<and>
   (\<exists>e. maskImageDataZero_image_mask (image_of_row [float_of 5, NaN]) (image_of_row [True])
       = Raised e (image_of_row [float_of 5, NaN])) \<and>
   (\<exists>e. maskImageDataZero_image_mask_out
       (image_of_row [float_of 5, NaN]) (image_of_row [True]) (image_of_row [False, False])
       = Raised e (image_of_row [float_of 5, NaN], image_of_row [False, False])) \<and>
   (\<exists>e. maskImageDataNan_image_mask (image_of_row [float_of 5, NaN]) (image_of_row [True])
       = Raised e (image_of_row [float_of 5, NaN])) \<and>
   (\<exists>e. maskImageDataNan_image_mask_out
       (image_of_row [float_of 5, NaN]) (image_of_row [True, False]) (image_of_row [False])
       = Raised e (image_of_row [float_of 5, NaN], image_of_row [False])) \<and>
   (\<exists>e. maskImageDataZero_image_mask_thr
       (image_of_row [float_of 5, NaN]) (image_of_row [True]) (float_of 0) (float_of 10)
       = Raised e (image_of_row [float_of 5, NaN])) \<and>
   (\<exists>e. maskImageDataZero_image_mask_thr_out
       (image_of_row [float_of 5, NaN]) (image_of_row [True]) (float_of 0) (float_of 10)
       (image_of_row [False, False])
       = Raised e (image_of_row [float_of 5, NaN], image_of_row [False, False])) \<and>
   (\<exists>e. maskImageDataNan_image_mask_thr
       (image_of_row [float_of 5, NaN]) (image_of_row [True]) (float_of 0) (float_of 10)
       = Raised e (image_of_row [float_of 5, NaN])) \<and>
   (\<exists>e. maskImageDataNan_image_mask_thr_out
       (image_of_row [float_of 5, NaN]) (image_of_row [True, False]) (float_of 0) (float_of 10)
       (image_of_row [False])
       = Raised e (image_of_row [float_of 5, NaN], image_of_row [False])) \<and>
   (\<exists>e. maskImageDataZero_array_mask
       NoTBB (array_of_frames [[float_of 1, NaN]]) (image_of_row [True])
       = Raised e (array_of_frames [[float_of 1, NaN]])) \<and>
   (\<exists>e. maskImageDataNan_array_mask
       (WithTBB example_blocks3) (array_of_frames [[float_of 1, NaN]]) (image_of_row [True])
       = Raised e (array_of_frames [[float_of 1, NaN]])) \<and>
   (\<exists>e. maskImageDataZero_array_mask_thr
       NoTBB (array_of_frames [[float_of 1, NaN]]) (image_of_row [True]) (float_of 0) (float_of 10)
       = Raised e (array_of_frames [[float_of 1, NaN]])) \<and>
   (\<exists>e. maskImageDataNan_array_mask_thr
       (WithTBB example_blocks3) (array_of_frames [[float_of 1, NaN]]) (image_of_row [True]) (float_of 0)
       (float_of 10)
       = Raised e (array_of_frames [[float_of 1, NaN]])) \<and>
   (\<exists>e. movingAvgImageData_image (image_of_row [float_of 5, NaN]) (image_of_row [float_of 1, float_of 2]) 0
       = Raised e (image_of_row [float_of 5, NaN])) \<and>
   (\<exists>e. movingAvgImageData_array
       (WithTBB example_blocks3) (array_of_frames [[float_of 1, NaN]]) (array_of_frames [[float_of 1]]) 1
       = Raised e (array_of_frames [[float_of 1, NaN]])) \<and>
   (\<exists>e. correctImageData_policy_array
       NoTBB GainPolicy (array_of_frames [[float_of 1, NaN]]) (array_of_frames [[float_of 1]])
       = Raised e (array_of_frames [[float_of 1, NaN]])) \<and>
   (\<exists>e. correctImageData_policy_image
       OffsetPolicy (image_of_row [float_of 5, NaN]) (image_of_row [float_of 1])
       = Raised e (image_of_row [float_of 5, NaN])) \<and>
   (\<exists>e. correctImageData_array
       (WithTBB example_blocks3) (array_of_frames [[float_of 1, NaN]]) (array_of_frames [[float_of 1, NaN]])
       (array_of_frames [[float_of 1]])
       = Raised e (array_of_frames [[float_of 1, NaN]])) \<and>
   (\<exists>e. correctImageData_image
       (image_of_row [float_of 5, NaN]) (image_of_row [float_of 1, float_of 2]) (image_of_row [float_of 1])
       = Raised e (image_of_row [float_of 5, NaN]))"
proof -
  note t0 = raise_leaves_buffers_unmodified
  note c1 = t0 [THEN conjunct1] and t1 = t0 [THEN conjunct2]
  note c2 = t1 [THEN conjunct1] and t2 = t1 [THEN conjunct2]
  note c3 = t2 [THEN conjunct1] and t3 = t2 [THEN conjunct2]
  note c4 = t3 [THEN conjunct1] and t4 = t3 [THEN conjunct2]
  note c5 = t4 [THEN conjunct1] and t5 = t4 [THEN conjunct2]
  note c6 = t5 [THEN conjunct1] and t6 = t5 [THEN conjunct2]
  note c7 = t6 [THEN conjunct1] and t7 = t6 [THEN conjunct2]
  note c8 = t7 [THEN conjunct1] and t8 = t7 [THEN conjunct2]
  note c9 = t8 [THEN conjunct1] and t9 = t8 [THEN conjunct2]
  note c10 = t9 [THEN conjunct1] and t10 = t9 [THEN conjunct2]
  note c11 = t10 [THEN conjunct1] and t11 = t10 [THEN conjunct2]
  note c12 = t11 [THEN conjunct1] and t12 = t11 [THEN conjunct2]
  note c13 = t12 [THEN conjunct1] and t13 = t12 [THEN conjunct2]
  note c14 = t13 [THEN conjunct1] and t14 = t13 [THEN conjunct2]
  note c15 = t14 [THEN conjunct1] and t15 = t14 [THEN conjunct2]
  note c16 = t15 [THEN conjunct1] and t16 = t15 [THEN conjunct2]
  note c17 = t16 [THEN conjunct1] and t17 = t16 [THEN conjunct2]
  note c18 = t17 [THEN conjunct1] and t18 = t17 [THEN conjunct2]
  note c19 = t18 [THEN conjunct1] and t19 = t18 [THEN conjunct2]
  note c20 = t19 [THEN conjunct1] and t20 = t19 [THEN conjunct2]
  note c21 = t20 [THEN conjunct1] and t21 = t20 [THEN conjunct2]
  note c22 = t21 [THEN conjunct1] and t22 = t21 [THEN conjunct2]
  note c23 = t22
  note ev = checkShape_def shape2_def shape3_def image_of_row_def array_of_frames_def
  obtain e1 s1 where r1: "nanmeanImageArray_keep
      (WithTBB example_blocks2) (constant_image (0, 0) 0) (array_of_frames [[float_of 1, NaN]]) []
      = Raised e1 s1"
    by (simp add: nanmeanImageArray_keep_def ev)
  have "s1 = (array_of_frames [[float_of 1, NaN]])"
    using r1 by (rule c1 [THEN mp])
  with r1 have w1: "\<exists>e. nanmeanImageArray_keep
      (WithTBB example_blocks2) (constant_image (0, 0) 0) (array_of_frames [[float_of 1, NaN]]) []
       = Raised e (array_of_frames [[float_of 1, NaN]])"
    by auto
  obtain e2 s2 where r2: "nanmeanImageArray_pair
      NoTBB (constant_image (0, 0) 0) (image_of_row [float_of 5, NaN]) (image_of_row [float_of 1])
      = Raised e2 s2"
    by (simp add: nanmeanImageArray_pair_def ev)
  have "s2 = (image_of_row [float_of 5, NaN], image_of_row [float_of 1])"
    using r2 by (rule c2 [THEN mp])
  with r2 have w2: "\<exists>e. nanmeanImageArray_pair
      NoTBB (constant_image (0, 0) 0) (image_of_row [float_of 5, NaN]) (image_of_row [float_of 1])
       = Raised e (image_of_row [float_of 5, NaN], image_of_row [float_of 1])"
    by auto
  obtain e3 s3 where r3: "imageDataNanMask (image_of_row [float_of 5, NaN]) (image_of_row [False])
      = Raised e3 s3"
    by (simp add: imageDataNanMask_def ev)
  have "s3 = (image_of_row [False])"
    using r3 by (rule c3 [THEN mp])
  with r3 have w3: "\<exists>e. imageDataNanMask (image_of_row [float_of 5, NaN]) (image_of_row [False])
       = Raised e (image_of_row [False])"
    by auto
  obtain e4 s4 where r4: "maskImageDataZero_image_thr_out
      (image_of_row [float_of 5, NaN]) (float_of 0) (float_of 10) (image_of_row [False])
      = Raised e4 s4"
    by (simp add: maskImageDataZero_image_thr_out_def ev)
  have "s4 = (image_of_row [float_of 5, NaN], image_of_row [False])"
    using r4 by (rule c4 [THEN mp])
  with r4 have w4: "\<exists>e. maskImageDataZero_image_thr_out
      (image_of_row [float_of 5, NaN]) (float_of 0) (float_of 10) (image_of_row [False])
       = Raised e (image_of_row [float_of 5, NaN], image_of_row [False])"
    by auto
  obtain e5 s5 where r5: "maskImageDataNan_image_thr_out
      (image_of_row [float_of 5, NaN]) (float_of 0) (float_of 10) (image_of_row [False])
      = Raised e5 s5"
    by (simp add: maskImageDataNan_image_thr_out_def ev)
  have "s5 = (image_of_row [float_of 5, NaN], image_of_row [False])"
    using r5 by (rule c5 [THEN mp])
  with r5 have w5: "\<exists>e. maskImageDataNan_image_thr_out
      (image_of_row [float_of 5, NaN]) (float_of 0) (float_of 10) (image_of_row [False])
       = Raised e (image_of_row [float_of 5, NaN], image_of_row [False])"
    by auto
  obtain e6 s6 where r6: "maskImageDataZero_image_mask
      (image_of_row [float_of 5, NaN]) (image_of_row [True])
      = Raised e6 s6"
    by (simp add: maskImageDataZero_image_mask_def ev)
  have "s6 = (image_of_row [float_of 5, NaN])"
    using r6 by (rule c6 [THEN mp])
  with r6 have w6: "\<exists>e. maskImageDataZero_image_mask
      (image_of_row [float_of 5, NaN]) (image_of_row [True])
       = Raised e (image_of_row [float_of 5, NaN])"
    by auto
  obtain e7 s7 where r7: "maskImageDataZero_image_mask_out
      (image_of_row [float_of 5, NaN]) (image_of_row [True]) (image_of_row [False, False])
      = Raised e7 s7"
    by (simp add: maskImageDataZero_image_mask_out_def ev)
  have "s7 = (image_of_row [float_of 5, NaN], image_of_row [False, False])"
    using r7 by (rule c7 [THEN mp])
  with r7 have w7: "\<exists>e. maskImageDataZero_image_mask_out
      (image_of_row [float_of 5, NaN]) (image_of_row [True]) (image_of_row [False, False])
       = Raised e (image_of_row [float_of 5, NaN], image_of_row [False, False])"
    by auto
  obtain e8 s8 where r8: "maskImageDataNan_image_mask
      (image_of_row [float_of 5, NaN]) (image_of_row [True])
      = Raised e8 s8"
    by (simp add: maskImageDataNan_image_mask_def ev)
  have "s8 = (image_of_row [float_of 5, NaN])"
    using r8 by (rule c8 [THEN mp])
  with r8 have w8: "\<exists>e. maskImageDataNan_image_mask
      (image_of_row [float_of 5, NaN]) (image_of_row [True])
       = Raised e (image_of_row [float_of 5, NaN])"
    by auto
  obtain e9 s9 where r9: "maskImageDataNan_image_mask_out
      (image_of_row [float_of 5, NaN]) (image_of_row [True, False]) (image_of_row [False])
      = Raised e9 s9"
    by (simp add: maskImageDataNan_image_mask_out_def ev)
  have "s9 = (image_of_row [float_of 5, NaN], image_of_row [False])"
    using r9 by (rule c9 [THEN mp])
  with r9 have w9: "\<exists>e. maskImageDataNan_image_mask_out
      (image_of_row [float_of 5, NaN]) (image_of_row [True, False]) (image_of_row [False])
       = Raised e (image_of_row [float_of 5, NaN], image_of_row [False])"
    by auto
  obtain e10 s10 where r10: "maskImageDataZero_image_mask_thr
      (image_of_row [float_of 5, NaN]) (image_of_row [True]) (float_of 0) (float_of 10)
      = Raised e10 s10"
    by (simp add: maskImageDataZero_image_mask_thr_def ev)
  have "s10 = (image_of_row [float_of 5, NaN])"
    using r10 by (rule c10 [THEN mp])
  with r10 have w10: "\<exists>e. maskImageDataZero_image_mask_thr
      (image_of_row [float_of 5, NaN]) (image_of_row [True]) (float_of 0) (float_of 10)
       = Raised e (image_of_row [float_of 5, NaN])"
    by auto
  obtain e11 s11 where r11: "maskImageDataZero_image_mask_thr_out
      (image_of_row [float_of 5, NaN]) (image_of_row [True]) (float_of 0) (float_of 10)
      (image_of_row [False, False])
      = Raised e11 s11"
    by (simp add: maskImageDataZero_image_mask_thr_out_def ev)
  have "s11 = (image_of_row [float_of 5, NaN], image_of_row [False, False])"
    using r11 by (rule c11 [THEN mp])
  with r11 have w11: "\<exists>e. maskImageDataZero_image_mask_thr_out
      (image_of_row [float_of 5, NaN]) (image_of_row [True]) (float_of 0) (float_of 10)
      (image_of_row [False, False])
       = Raised e (image_of_row [float_of 5, NaN], image_of_row [False, False])"
    by auto
  obtain e12 s12 where r12: "maskImageDataNan_image_mask_thr
      (image_of_row [float_of 5, NaN]) (image_of_row [True]) (float_of 0) (float_of 10)
      = Raised e12 s12"
    by (simp add: maskImageDataNan_image_mask_thr_def ev)
  have "s12 = (image_of_row [float_of 5, NaN])"
    using r12 by (rule c12 [THEN mp])
  with r12 have w12: "\<exists>e. maskImageDataNan_image_mask_thr
      (image_of_row [float_of 5, NaN]) (image_of_row [True]) (float_of 0) (float_of 10)
       = Raised e (image_of_row [float_of 5, NaN])"
    by auto
  obtain e13 s13 where r13: "maskImageDataNan_image_mask_thr_out
      (image_of_row [float_of 5, NaN]) (image_of_row [True, False]) (float_of 0) (float_of 10)
      (image_of_row [False])
      = Raised e13 s13"
    by (simp add: maskImageDataNan_image_mask_thr_out_def ev)
  have "s13 = (image_of_row [float_of 5, NaN], image_of_row [False])"
    using r13 by (rule c13 [THEN mp])
  with r13 have w13: "\<exists>e. maskImageDataNan_image_mask_thr_out
      (image_of_row [float_of 5, NaN]) (image_of_row [True, False]) (float_of 0) (float_of 10)
      (image_of_row [False])
       = Raised e (image_of_row [float_of 5, NaN], image_of_row [False])"
    by auto
  obtain e14 s14 where r14: "maskImageDataZero_array_mask
      NoTBB (array_of_frames [[float_of 1, NaN]]) (image_of_row [True])
      = Raised e14 s14"
    by (simp add: maskImageDataZero_array_mask_def ev)
  have "s14 = (array_of_frames [[float_of 1, NaN]])"
    using r14 by (rule c14 [THEN mp])
  with r14 have w14: "\<exists>e. maskImageDataZero_array_mask
      NoTBB (array_of_frames [[float_of 1, NaN]]) (image_of_row [True])
       = Raised e (array_of_frames [[float_of 1, NaN]])"
    by auto
  obtain e15 s15 where r15: "maskImageDataNan_array_mask
      (WithTBB example_blocks3) (array_of_frames [[float_of 1, NaN]]) (image_of_row [True])
      = Raised e15 s15"
    by (simp add: maskImageDataNan_array_mask_def ev)
  have "s15 = (array_of_frames [[float_of 1, NaN]])"
    using r15 by (rule c15 [THEN mp])
  with r15 have w15: "\<exists>e. maskImageDataNan_array_mask
      (WithTBB example_blocks3) (array_of_frames [[float_of 1, NaN]]) (image_of_row [True])
       = Raised e (array_of_frames [[float_of 1, NaN]])"
    by auto
  obtain e16 s16 where r16: "maskImageDataZero_array_mask_thr
      NoTBB (array_of_frames [[float_of 1, NaN]]) (image_of_row [True]) (float_of 0) (float_of 10)
      = Raised e16 s16"
    by (simp add: maskImageDataZero_array_mask_thr_def ev)
  have "s16 = (array_of_frames [[float_of 1, NaN]])"
    using r16 by (rule c16 [THEN mp])
  with r16 have w16: "\<exists>e. maskImageDataZero_array_mask_thr
      NoTBB (array_of_frames [[float_of 1, NaN]]) (image_of_row [True]) (float_of 0) (float_of 10)
       = Raised e (array_of_frames [[float_of 1, NaN]])"
    by auto
  obtain e17 s17 where r17: "maskImageDataNan_array_mask_thr
      (WithTBB example_blocks3) (array_of_frames [[float_of 1, NaN]]) (image_of_row [True]) (float_of 0)
      (float_of 10)
      = Raised e17 s17"
    by (simp add: maskImageDataNan_array_mask_thr_def ev)
  have "s17 = (array_of_frames [[float_of 1, NaN]])"
    using r17 by (rule c17 [THEN mp])
  with r17 have w17: "\<exists>e. maskImageDataNan_array_mask_thr
      (WithTBB example_blocks3) (array_of_frames [[float_of 1, NaN]]) (image_of_row [True]) (float_of 0)
      (float_of 10)
       = Raised e (array_of_frames [[float_of 1, NaN]])"
    by auto
  obtain e18 s18 where r18: "movingAvgImageData_image
      (image_of_row [float_of 5, NaN]) (image_of_row [float_of 1, float_of 2]) 0
      = Raised e18 s18"
    by (simp add: movingAvgImageData_image_def ev)
  have "s18 = (image_of_row [float_of 5, NaN])"
    using r18 by (rule c18 [THEN mp])
  with r18 have w18: "\<exists>e. movingAvgImageData_image
      (image_of_row [float_of 5, NaN]) (image_of_row [float_of 1, float_of 2]) 0
       = Raised e (image_of_row [float_of 5, NaN])"
    by auto
  obtain e19 s19 where r19: "movingAvgImageData_array
      (WithTBB example_blocks3) (array_of_frames [[float_of 1, NaN]]) (array_of_frames [[float_of 1]]) 1
      = Raised e19 s19"
    by (simp add: movingAvgImageData_array_def ev)
  have "s19 = (array_of_frames [[float_of 1, NaN]])"
    using r19 by (rule c19 [THEN mp])
  with r19 have w19: "\<exists>e. movingAvgImageData_array
      (WithTBB example_blocks3) (array_of_frames [[float_of 1, NaN]]) (array_of_frames [[float_of 1]]) 1
       = Raised e (array_of_frames [[float_of 1, NaN]])"
    by auto
  obtain e20 s20 where r20: "correctImageData_policy_array
      NoTBB GainPolicy (array_of_frames [[float_of 1, NaN]]) (array_of_frames [[float_of 1]])
      = Raised e20 s20"
    by (simp add: correctImageData_policy_array_def ev)
  have "s20 = (array_of_frames [[float_of 1, NaN]])"
    using r20 by (rule c20 [THEN mp])
  with r20 have w20: "\<exists>e. correctImageData_policy_array
      NoTBB GainPolicy (array_of_frames [[float_of 1, NaN]]) (array_of_frames [[float_of 1]])
       = Raised e (array_of_frames [[float_of 1, NaN]])"
    by auto
  obtain e21 s21 where r21: "correctImageData_policy_image
      OffsetPolicy (image_of_row [float_of 5, NaN]) (image_of_row [float_of 1])
      = Raised e21 s21"
    by (simp add: correctImageData_policy_image_def ev)
  have "s21 = (image_of_row [float_of 5, NaN])"
    using r21 by (rule c21 [THEN mp])
  with r21 have w21: "\<exists>e. correctImageData_policy_image
      OffsetPolicy (image_of_row [float_of 5, NaN]) (image_of_row [float_of 1])
       = Raised e (image_of_row [float_of 5, NaN])"
    by auto
  obtain e22 s22 where r22: "correctImageData_array
      (WithTBB example_blocks3) (array_of_frames [[float_of 1, NaN]]) (array_of_frames [[float_of 1, NaN]])
      (array_of_frames [[float_of 1]])
      = Raised e22 s22"
    by (simp add: correctImageData_array_def ev)
  have "s22 = (array_of_frames [[float_of 1, NaN]])"
    using r22 by (rule c22 [THEN mp])
  with r22 have w22: "\<exists>e. correctImageData_array
      (WithTBB example_blocks3) (array_of_frames [[float_of 1, NaN]]) (array_of_frames [[float_of 1, NaN]])
      (array_of_frames [[float_of 1]])
       = Raised e (array_of_frames [[float_of 1, NaN]])"
    by auto
  obtain e23 s23 where r23: "correctImageData_image
      (image_of_row [float_of 5, NaN]) (image_of_row [float_of 1, float_of 2]) (image_of_row [float_of 1])
      = Raised e23 s23"
    by (simp add: correctImageData_image_def ev)
  have "s23 = (image_of_row [float_of 5, NaN])"
    using r23 by (rule c23 [THEN mp])
  with r23 have w23: "\<exists>e. correctImageData_image
      (image_of_row [float_of 5, NaN]) (image_of_row [float_of 1, float_of 2]) (image_of_row [float_of 1])
       = Raised e (image_of_row [float_of 5, NaN])"
    by auto
  show ?thesis
    by (intro conjI w1 w2 w3 w4 w5 w6 w7 w8 w9 w10 w11 w12 w13 w14 w15 w16 w17 w18 w19 w20 w21 w22
      w23)
qed

section \<open>Parallel and sequential paths\<close>

lemma parallel_for3_pw1:
  "partition3 blocks shp \<Longrightarrow>
   parallel_for3 blocks (\<lambda>i j k. pw1 F (i, j, k)) a = map_on (inside3 shp) F a"
  by (simp add: parallel_for3_visits3 foldl_pw1 partition3_visits)

lemma xt_filter_assign_map_on:
  "xt_filter_assign a cond v = map_on (inside3 (shape a)) (\<lambda>p x. if cond x then v else x) a"
  by (auto simp: xt_filter_assign_def map_on_def inside3_def fun_eq_iff)

lemma maskImageDataZero_array_paths:
  assumes "partition3 blocks (shape src)"
  shows "maskImageDataZero_array (WithTBB blocks) src = maskImageDataZero_array NoTBB src"
proof -
  have body: "(\<lambda>i j k src. if isnan (at3 src i j k) then put3 src i j k 0 else src)
     = (\<lambda>i j k. pw1 (\<lambda>p v. if isnan v then 0 else v) (i, j, k))"
    by (auto simp: fun_eq_iff pw1_def at3_def put3_def)
  show ?thesis
    unfolding maskImageDataZero_array_def body
    using assms by (simp add: parallel_for3_pw1 xt_filter_assign_map_on)
qed

lemma maskImageDataZero_array_thr_paths:
  assumes "partition3 blocks (shape src)"
  shows "maskImageDataZero_array_thr (WithTBB blocks) src lb ub
     = maskImageDataZero_array_thr NoTBB src lb ub"
proof -
  have body: "(\<lambda>i j k src.
               let v = at3 src i j k in
               if isnan v \<or> v < lb \<or> v > ub then put3 src i j k 0 else src)
     = (\<lambda>i j k. pw1 (\<lambda>p v. if isnan v \<or> v < lb \<or> v > ub then 0 else v) (i, j, k))"
    by (auto simp: fun_eq_iff pw1_def at3_def put3_def Let_def)
  show ?thesis
    unfolding maskImageDataZero_array_thr_def body
    using assms by (simp add: parallel_for3_pw1 xt_filter_assign_map_on)
qed

lemma maskImageDataNan_array_thr_paths:
  assumes "partition3 blocks (shape src)"
  shows "maskImageDataNan_array_thr (WithTBB blocks) src lb ub
     = maskImageDataNan_array_thr NoTBB src lb ub"
proof -
  have body: "(\<lambda>i j k src.
               let v = at3 src i j k in
               if isnan v then src
               else if v < lb \<or> v > ub then put3 src i j k quiet_NaN
               else src)
     = (\<lambda>i j k. pw1 (\<lambda>p v. if v < lb \<or> v > ub then quiet_NaN else v) (i, j, k))"
  proof -
    have "isnan v \<Longrightarrow> \<not> (v < lb \<or> v > ub)" for v
      by (cases v; cases lb; cases ub) (simp_all add: less_fp_def)
    then show ?thesis
      by (auto simp: fun_eq_iff pw1_def at3_def put3_def Let_def)
  qed
  show ?thesis
    unfolding maskImageDataNan_array_thr_def body
    using assms by (simp add: parallel_for3_pw1 xt_filter_assign_map_on)
qed

lemma maskImageDataZero_array_mask_closed:
  assumes "valid3 bld (shape src)"
  shows "maskImageDataZero_array_mask bld src msk =
     (case checkShape (shape3 src) (shape2 msk) ''Image and mask have different shapes'' 1 of
        Some e \<Rightarrow> Raised e src
      | None \<Rightarrow>
          Returned
            (map_on (inside3 (shape src))
               (\<lambda>p v. if elems msk (snd p) \<or> isnan v then 0 else v) src) ())"
proof -
  have body: "(\<lambda>i j k src.
        if at2 msk j k \<or> isnan (at3 src i j k) then put3 src i j k 0 else src)
     = (\<lambda>i j k. pw1 (\<lambda>p v. if elems msk (snd p) \<or> isnan v then 0 else v) (i, j, k))"
    by (auto simp: fun_eq_iff pw1_def at2_def at3_def put3_def)
  show ?thesis
    unfolding maskImageDataZero_array_mask_def body
    using assms by (simp add: run3_pw1 split: option.splits)
qed

lemma maskImageDataNan_array_mask_closed:
  assumes "valid3 bld (shape src)"
  shows "maskImageDataNan_array_mask bld src msk =
     (case checkShape (shape3 src) (shape2 msk) ''Image and mask have different shapes'' 1 of
        Some e \<Rightarrow> Raised e src
      | None \<Rightarrow>
          Returned
            (map_on (inside3 (shape src))
               (\<lambda>p v. if elems msk (snd p) then quiet_NaN else v) src) ())"
proof -
  have body: "(\<lambda>i j k src. if at2 msk j k then put3 src i j k quiet_NaN else src)
     = (\<lambda>i j k. pw1 (\<lambda>p v. if elems msk (snd p) then quiet_NaN else v) (i, j, k))"
    by (auto simp: fun_eq_iff pw1_def at2_def at3_def put3_def)
  show ?thesis
    unfolding maskImageDataNan_array_mask_def body
    using assms by (simp add: run3_pw1 split: option.splits)
qed

lemma maskImageDataZero_array_mask_thr_closed:
  assumes "valid3 bld (shape src)"
  shows "maskImageDataZero_array_mask_thr bld src msk lb ub =
     (case checkShape (shape3 src) (shape2 msk) ''Image and mask have different shapes'' 1 of
        Some e \<Rightarrow> Raised e src
      | None \<Rightarrow>
          Returned
            (map_on (inside3 (shape src))
               (\<lambda>p v. if elems msk (snd p) then 0
                  else if isnan v \<or> v < lb \<or> v > ub then 0 else v) src) ())"
proof -
  have body: "(\<lambda>i j k src.
        if at2 msk j k then put3 src i j k 0
        else
          let v = at3 src i j k in
          if isnan v \<or> v < lb \<or> v > ub then put3 src i j k 0 else src)
     = (\<lambda>i j k. pw1 (\<lambda>p v. if elems msk (snd p) then 0
                  else if isnan v \<or> v < lb \<or> v > ub then 0 else v) (i, j, k))"
    by (auto simp: fun_eq_iff pw1_def at2_def at3_def put3_def Let_def)
  show ?thesis
    unfolding maskImageDataZero_array_mask_thr_def body
    using assms by (simp add: run3_pw1 split: option.splits)
qed

lemma maskImageDataNan_array_mask_thr_closed:
  assumes "valid3 bld (shape src)"
  shows "maskImageDataNan_array_mask_thr bld src msk lb ub =
     (case checkShape (shape3 src) (shape2 msk) ''Image and mask have different shapes'' 1 of
        Some e \<Rightarrow> Raised e src
      | None \<Rightarrow>
          Returned
            (map_on (inside3 (shape src))
               (\<lambda>p v. if elems msk (snd p) then quiet_NaN
                  else if isnan v then v
                  else if v < lb \<or> v > ub then quiet_NaN else v) src) ())"
proof -
  have body: "(\<lambda>i j k src.
        if at2 msk j k then put3 src i j k quiet_NaN
        else
          let v = at3 src i j k in
          if isnan v then src
          else if v < lb \<or> v > ub then put3 src i j k quiet_NaN
          else src)
     = (\<lambda>i j k. pw1 (\<lambda>p v. if elems msk (snd p) then quiet_NaN
                  else if isnan v then v
                  else if v < lb \<or> v > ub then quiet_NaN else v) (i, j, k))"
    by (auto simp: fun_eq_iff pw1_def at2_def at3_def put3_def Let_def)
  show ?thesis
    unfolding maskImageDataNan_array_mask_thr_def body
    using assms by (simp add: run3_pw1 split: option.splits)
qed

lemma nanmeanImageArray_keep_paths:
  assumes "partition2 blocks (snd (shape src))" and "keep \<noteq> []"
  shows "\<exists>m m'.
     nanmeanImageArray_keep (WithTBB blocks) fresh src keep = Returned src m \<and>
     nanmeanImageArray_keep NoTBB fresh src keep = Returned src m' \<and>
     shape m = shape m' \<and>
     (\<forall>j k. j < fst (shape m) \<and> k < snd (shape m) \<longrightarrow> at2 m j k = at2 m' j k)"
proof -
  from assms obtain m where m:
    "nanmeanImageArray_keep (WithTBB blocks) fresh src keep = Returned src m"
    "shape m = snd (shape src)"
    "\<And>j k. j < fst (snd (shape src)) \<and> k < snd (snd (shape src)) \<Longrightarrow>
       at2 m j k = nanmean_of (map (\<lambda>i. at3 src i j k) keep)"
    using nanmeanImageArray_keep_closed [of "WithTBB blocks" src keep fresh]
    by (auto simp: valid2_def)
  from assms obtain m' where m':
    "nanmeanImageArray_keep NoTBB fresh src keep = Returned src m'"
    "shape m' = snd (shape src)"
    "\<And>j k. j < fst (snd (shape src)) \<and> k < snd (snd (shape src)) \<Longrightarrow>
       at2 m' j k = nanmean_of (map (\<lambda>i. at3 src i j k) keep)"
    using nanmeanImageArray_keep_closed [of NoTBB src keep fresh]
    by (auto simp: valid2_def)
  show ?thesis
    using m m' by (intro exI [of _ m] exI [of _ m']) simp
qed

lemma nanmeanImageArray_all_paths:
  assumes "partition2 blocks (snd (shape src))"
  shows "\<exists>m m'.
     nanmeanImageArray_all (WithTBB blocks) fresh src = Returned src m \<and>
     nanmeanImageArray_all NoTBB fresh src = Returned src m' \<and>
     shape m = shape m' \<and>
     (\<forall>j k. j < fst (shape m) \<and> k < snd (shape m) \<longrightarrow> at2 m j k = at2 m' j k)"
proof -
  from assms obtain m where m:
    "nanmeanImageArray_all (WithTBB blocks) fresh src = Returned src m"
    "shape m = snd (shape src)"
    "\<And>j k. j < fst (snd (shape src)) \<and> k < snd (snd (shape src)) \<Longrightarrow>
       at2 m j k = nanmean_of (map (\<lambda>i. at3 src i j k) [0..<fst (shape src)])"
    using nanmeanImageArray_all_closed [of "WithTBB blocks" src fresh]
    by (auto simp: valid2_def)
  from assms obtain m' where m':
    "nanmeanImageArray_all NoTBB fresh src = Returned src m'"
    "shape m' = snd (shape src)"
    "\<And>j k. j < fst (snd (shape src)) \<and> k < snd (snd (shape src)) \<Longrightarrow>
       at2 m' j k = nanmean_of (map (\<lambda>i. at3 src i j k) [0..<fst (shape src)])"
    using nanmeanImageArray_all_closed [of NoTBB src fresh]
    by (auto simp: valid2_def)
  show ?thesis
    using m m' by (intro exI [of _ m] exI [of _ m']) simp
qed

lemma nanmeanImageArray_pair_paths:
  assumes "partition2 blocks (shape src1)"
  shows "(\<exists>e. nanmeanImageArray_pair (WithTBB blocks) fresh src1 src2 = Raised e (src1, src2) \<and>
            nanmeanImageArray_pair NoTBB fresh src1 src2 = Raised e (src1, src2)) \<or>
     (\<exists>m m'.
        nanmeanImageArray_pair (WithTBB blocks) fresh src1 src2 = Returned (src1, src2) m \<and>
        nanmeanImageArray_pair NoTBB fresh src1 src2 = Returned (src1, src2) m' \<and>
        shape m = shape m' \<and>
        (\<forall>j k. j < fst (shape m) \<and> k < snd (shape m) \<longrightarrow> at2 m j k = at2 m' j k))"
proof (cases "shape src2 = shape src1")
  case False
  then have "\<exists>e. nanmeanImageArray_pair (WithTBB blocks) fresh src1 src2 = Raised e (src1, src2) \<and>
            nanmeanImageArray_pair NoTBB fresh src1 src2 = Raised e (src1, src2)"
    by (auto simp: nanmeanImageArray_pair_def checkShape_def shape2_def prod_eq_iff)
  then show ?thesis ..
next
  case True
  with assms obtain m where m:
    "nanmeanImageArray_pair (WithTBB blocks) fresh src1 src2 = Returned (src1, src2) m"
    "shape m = shape src1"
    "\<forall>p \<in> inside2 (shape src1). elems m p = nanmean_of [elems src1 p, elems src2 p]"
    using nanmeanImageArray_pair_closed [of src2 src1 "WithTBB blocks" fresh]
    by (auto simp: valid2_def)
  from True obtain m' where m':
    "nanmeanImageArray_pair NoTBB fresh src1 src2 = Returned (src1, src2) m'"
    "shape m' = shape src1"
    "\<forall>p \<in> inside2 (shape src1). elems m' p = nanmean_of [elems src1 p, elems src2 p]"
    using nanmeanImageArray_pair_closed [of src2 src1 NoTBB fresh]
    by (auto simp: valid2_def)
  have "\<exists>m m'.
        nanmeanImageArray_pair (WithTBB blocks) fresh src1 src2 = Returned (src1, src2) m \<and>
        nanmeanImageArray_pair NoTBB fresh src1 src2 = Returned (src1, src2) m' \<and>
        shape m = shape m' \<and>
        (\<forall>j k. j < fst (shape m) \<and> k < snd (shape m) \<longrightarrow> at2 m j k = at2 m' j k)"
    using m m' by (intro exI [of _ m] exI [of _ m']) (simp add: inside2_def at2_def)
  then show ?thesis ..
qed

text \<open>
  C6, as amended. Let the blocks of a call partition its index range. Every masking
  kernel for image arrays leaves the same buffer, or raises the same error, built with
  TBB as built without. The stack-wide mean with a non-empty selection, the stack-wide
  mean without a selection and the pairwise mean return, under both builds, images of
  one shape that agree at every pixel: the loop nest adds the frames of a pixel in
  order whatever the blocks, and \<^verbatim>\<open>xt::nanmean\<close> is modelled as adding them in
  the same order with the same rounded operations. The empty selection is left out:
  there the two builds differ, as the counterexample below shows.
\<close>

theorem parallel_and_sequential_paths_agree:
  "(partition3 blocks (shape src) \<longrightarrow>
      maskImageDataZero_array (WithTBB blocks) src = maskImageDataZero_array NoTBB src \<and>
      maskImageDataZero_array_thr (WithTBB blocks) src lb ub
        = maskImageDataZero_array_thr NoTBB src lb ub \<and>
      maskImageDataNan_array_thr (WithTBB blocks) src lb ub
        = maskImageDataNan_array_thr NoTBB src lb ub \<and>
      maskImageDataZero_array_mask (WithTBB blocks) src msk
        = maskImageDataZero_array_mask NoTBB src msk \<and>
      maskImageDataNan_array_mask (WithTBB blocks) src msk
        = maskImageDataNan_array_mask NoTBB src msk \<and>
      maskImageDataZero_array_mask_thr (WithTBB blocks) src msk lb ub
        = maskImageDataZero_array_mask_thr NoTBB src msk lb ub \<and>
      maskImageDataNan_array_mask_thr (WithTBB blocks) src msk lb ub
        = maskImageDataNan_array_mask_thr NoTBB src msk lb ub) \<and>
   (partition2 blocks2 (snd (shape src)) \<and> keep \<noteq> [] \<longrightarrow>
      (\<exists>m m'.
         nanmeanImageArray_keep (WithTBB blocks2) fresh src keep = Returned src m \<and>
         nanmeanImageArray_keep NoTBB fresh src keep = Returned src m' \<and>
         shape m = shape m' \<and>
         (\<forall>j k. j < fst (shape m) \<and> k < snd (shape m) \<longrightarrow> at2 m j k = at2 m' j k))) \<and>
   (partition2 blocks2 (snd (shape src)) \<longrightarrow>
      (\<exists>m m'.
         nanmeanImageArray_all (WithTBB blocks2) fresh src = Returned src m \<and>
         nanmeanImageArray_all NoTBB fresh src = Returned src m' \<and>
         shape m = shape m' \<and>
         (\<forall>j k. j < fst (shape m) \<and> k < snd (shape m) \<longrightarrow> at2 m j k = at2 m' j k))) \<and>
   (partition2 blocks2 (shape src1) \<longrightarrow>
      (\<exists>e. nanmeanImageArray_pair (WithTBB blocks2) fresh src1 src2 = Raised e (src1, src2) \<and>
            nanmeanImageArray_pair NoTBB fresh src1 src2 = Raised e (src1, src2)) \<or>
      (\<exists>m m'.
         nanmeanImageArray_pair (WithTBB blocks2) fresh src1 src2 = Returned (src1, src2) m \<and>
         nanmeanImageArray_pair NoTBB fresh src1 src2 = Returned (src1, src2) m' \<and>
         shape m = shape m' \<and>
         (\<forall>j k. j < fst (shape m) \<and> k < snd (shape m) \<longrightarrow> at2 m j k = at2 m' j k)))"
proof (intro conjI impI)
  assume p: "partition3 blocks (shape src)"
  then have v: "valid3 (WithTBB blocks) (shape src)" "valid3 NoTBB (shape src)"
    by (simp_all add: valid3_def)
  show "maskImageDataZero_array (WithTBB blocks) src = maskImageDataZero_array NoTBB src"
    using p by (rule maskImageDataZero_array_paths)
  show "maskImageDataZero_array_thr (WithTBB blocks) src lb ub
        = maskImageDataZero_array_thr NoTBB src lb ub"
    using p by (rule maskImageDataZero_array_thr_paths)
  show "maskImageDataNan_array_thr (WithTBB blocks) src lb ub
        = maskImageDataNan_array_thr NoTBB src lb ub"
    using p by (rule maskImageDataNan_array_thr_paths)
  show "maskImageDataZero_array_mask (WithTBB blocks) src msk
        = maskImageDataZero_array_mask NoTBB src msk"
    by (simp only: maskImageDataZero_array_mask_closed [OF v(1)]
        maskImageDataZero_array_mask_closed [OF v(2)])
  show "maskImageDataNan_array_mask (WithTBB blocks) src msk
        = maskImageDataNan_array_mask NoTBB src msk"
    by (simp only: maskImageDataNan_array_mask_closed [OF v(1)]
        maskImageDataNan_array_mask_closed [OF v(2)])
  show "maskImageDataZero_array_mask_thr (WithTBB blocks) src msk lb ub
        = maskImageDataZero_array_mask_thr NoTBB src msk lb ub"
    by (simp only: maskImageDataZero_array_mask_thr_closed [OF v(1)]
        maskImageDataZero_array_mask_thr_closed [OF v(2)])
  show "maskImageDataNan_array_mask_thr (WithTBB blocks) src msk lb ub
        = maskImageDataNan_array_mask_thr NoTBB src msk lb ub"
    by (simp only: maskImageDataNan_array_mask_thr_closed [OF v(1)]
        maskImageDataNan_array_mask_thr_closed [OF v(2)])
next
  assume "partition2 blocks2 (snd (shape src)) \<and> keep \<noteq> []"
  then show "\<exists>m m'.
         nanmeanImageArray_keep (WithTBB blocks2) fresh src keep = Returned src m \<and>
         nanmeanImageArray_keep NoTBB fresh src keep = Returned src m' \<and>
         shape m = shape m' \<and>
         (\<forall>j k. j < fst (shape m) \<and> k < snd (shape m) \<longrightarrow> at2 m j k = at2 m' j k)"
    using nanmeanImageArray_keep_paths [of blocks2 src keep fresh] by blast
next
  assume "partition2 blocks2 (snd (shape src))"
  then show "\<exists>m m'.
         nanmeanImageArray_all (WithTBB blocks2) fresh src = Returned src m \<and>
         nanmeanImageArray_all NoTBB fresh src = Returned src m' \<and>
         shape m = shape m' \<and>
         (\<forall>j k. j < fst (shape m) \<and> k < snd (shape m) \<longrightarrow> at2 m j k = at2 m' j k)"
    by (rule nanmeanImageArray_all_paths)
next
  assume "partition2 blocks2 (shape src1)"
  then show "(\<exists>e. nanmeanImageArray_pair (WithTBB blocks2) fresh src1 src2 = Raised e (src1, src2) \<and>
            nanmeanImageArray_pair NoTBB fresh src1 src2 = Raised e (src1, src2)) \<or>
      (\<exists>m m'.
         nanmeanImageArray_pair (WithTBB blocks2) fresh src1 src2 = Returned (src1, src2) m \<and>
         nanmeanImageArray_pair NoTBB fresh src1 src2 = Returned (src1, src2) m' \<and>
         shape m = shape m' \<and>
         (\<forall>j k. j < fst (shape m) \<and> k < snd (shape m) \<longrightarrow> at2 m j k = at2 m' j k))"
    by (rule nanmeanImageArray_pair_paths)
qed

text \<open>
  The claim as first stated fails for the stack-wide mean at the empty selection: with a
  valid partition, the build with TBB raises and the build without returns.
\<close>

theorem empty_keep_paths_differ:
  "partition2 example_blocks2 (snd (shape (array_of_frames [[float_of 1, NaN, float_of 2]]))) \<and>
   nanmeanImageArray_keep (WithTBB example_blocks2) (constant_image (0, 0) 0)
       (array_of_frames [[float_of 1, NaN, float_of 2]]) []
     \<noteq> nanmeanImageArray_keep NoTBB (constant_image (0, 0) 0)
         (array_of_frames [[float_of 1, NaN, float_of 2]]) []"
proof -
  have "snd (shape (array_of_frames [[float_of 1, NaN, float_of 2]])) = (1, 3)"
    by (simp add: array_of_frames_def)
  then show ?thesis
    using example_blocks2_partition by (simp add: nanmeanImageArray_keep_def)
qed

theorem parallel_and_sequential_paths_agree_example:
  "(maskImageDataZero_array (WithTBB example_blocks3)
        (array_of_frames [[float_of 5, NaN], [float_of (- 1), float_of 20]])
      = maskImageDataZero_array NoTBB (array_of_frames [[float_of 5, NaN], [float_of (- 1), float_of 20]]) \<and>
    maskImageDataZero_array_thr (WithTBB example_blocks3)
        (array_of_frames [[float_of 5, NaN], [float_of (- 1), float_of 20]]) (float_of 0) (float_of 10)
      = maskImageDataZero_array_thr NoTBB
          (array_of_frames [[float_of 5, NaN], [float_of (- 1), float_of 20]]) (float_of 0) (float_of 10) \<and>
    maskImageDataNan_array_thr (WithTBB example_blocks3)
        (array_of_frames [[float_of 5, NaN], [float_of (- 1), float_of 20]]) (float_of 0) (float_of 10)
      = maskImageDataNan_array_thr NoTBB
          (array_of_frames [[float_of 5, NaN], [float_of (- 1), float_of 20]]) (float_of 0) (float_of 10) \<and>
    maskImageDataZero_array_mask (WithTBB example_blocks3)
        (array_of_frames [[float_of 5, NaN], [float_of (- 1), float_of 20]]) (image_of_row [True, False])
      = maskImageDataZero_array_mask NoTBB
          (array_of_frames [[float_of 5, NaN], [float_of (- 1), float_of 20]]) (image_of_row [True, False]) \<and>
    maskImageDataNan_array_mask (WithTBB example_blocks3)
        (array_of_frames [[float_of 5, NaN], [float_of (- 1), float_of 20]]) (image_of_row [True, False])
      = maskImageDataNan_array_mask NoTBB
          (array_of_frames [[float_of 5, NaN], [float_of (- 1), float_of 20]]) (image_of_row [True, False]) \<and>
    maskImageDataZero_array_mask_thr (WithTBB example_blocks3)
        (array_of_frames [[float_of 5, NaN], [float_of (- 1), float_of 20]]) (image_of_row [True, False])
        (float_of 0) (float_of 10)
      = maskImageDataZero_array_mask_thr NoTBB
          (array_of_frames [[float_of 5, NaN], [float_of (- 1), float_of 20]]) (image_of_row [True, False])
          (float_of 0) (float_of 10) \<and>
    maskImageDataNan_array_mask_thr (WithTBB example_blocks3)
        (array_of_frames [[float_of 5, NaN], [float_of (- 1), float_of 20]]) (image_of_row [True, False])
        (float_of 0) (float_of 10)
      = maskImageDataNan_array_mask_thr NoTBB
          (array_of_frames [[float_of 5, NaN], [float_of (- 1), float_of 20]]) (image_of_row [True, False])
          (float_of 0) (float_of 10)) \<and>
   (\<exists>m m'.
      nanmeanImageArray_keep (WithTBB example_blocks2) (constant_image (0, 0) 0)
          (array_of_frames [[float_of 1, NaN, float_of 2], [NaN, NaN, float_of 7], [float_of 3, NaN, float_of 6]]) [2, 0]
        = Returned (array_of_frames [[float_of 1, NaN, float_of 2], [NaN, NaN, float_of 7], [float_of 3, NaN, float_of 6]]) m \<and>
      nanmeanImageArray_keep NoTBB (constant_image (0, 0) 0)
          (array_of_frames [[float_of 1, NaN, float_of 2], [NaN, NaN, float_of 7], [float_of 3, NaN, float_of 6]]) [2, 0]
        = Returned (array_of_frames [[float_of 1, NaN, float_of 2], [NaN, NaN, float_of 7], [float_of 3, NaN, float_of 6]]) m' \<and>
      at2 m 0 0 = at2 m' 0 0 \<and> at2 m 0 1 = at2 m' 0 1 \<and> at2 m 0 2 = at2 m' 0 2) \<and>
   (\<exists>m m'.
      nanmeanImageArray_all (WithTBB example_blocks2) (constant_image (0, 0) 0)
          (array_of_frames [[float_of 1, NaN, float_of 2], [NaN, NaN, float_of 7], [float_of 3, NaN, float_of 6]])
        = Returned (array_of_frames [[float_of 1, NaN, float_of 2], [NaN, NaN, float_of 7], [float_of 3, NaN, float_of 6]]) m \<and>
      nanmeanImageArray_all NoTBB (constant_image (0, 0) 0)
          (array_of_frames [[float_of 1, NaN, float_of 2], [NaN, NaN, float_of 7], [float_of 3, NaN, float_of 6]])
        = Returned (array_of_frames [[float_of 1, NaN, float_of 2], [NaN, NaN, float_of 7], [float_of 3, NaN, float_of 6]]) m' \<and>
      at2 m 0 0 = at2 m' 0 0 \<and> at2 m 0 1 = at2 m' 0 1 \<and> at2 m 0 2 = at2 m' 0 2) \<and>
   (\<exists>m m'.
      nanmeanImageArray_pair (WithTBB example_blocks2) (constant_image (0, 0) 0)
          (image_of_row [float_of 5, NaN, float_of 2]) (image_of_row [NaN, NaN, float_of 4])
        = Returned (image_of_row [float_of 5, NaN, float_of 2], image_of_row [NaN, NaN, float_of 4]) m \<and>
      nanmeanImageArray_pair NoTBB (constant_image (0, 0) 0)
          (image_of_row [float_of 5, NaN, float_of 2]) (image_of_row [NaN, NaN, float_of 4])
        = Returned (image_of_row [float_of 5, NaN, float_of 2], image_of_row [NaN, NaN, float_of 4]) m' \<and>
      at2 m 0 0 = at2 m' 0 0 \<and> at2 m 0 1 = at2 m' 0 1 \<and> at2 m 0 2 = at2 m' 0 2)"
proof -
  let ?s = "array_of_frames [[float_of 5, NaN], [float_of (- 1), float_of 20]]"
  let ?t = "array_of_frames [[float_of 1, NaN, float_of 2], [NaN, NaN, float_of 7], [float_of 3, NaN, float_of 6]]"
  let ?a = "image_of_row [float_of 5, NaN, float_of 2]"
  let ?b = "image_of_row [NaN, NaN, float_of 4]"
  let ?fresh = "constant_image (0, 0) (0::fp)"
  have shs: "shape ?s = (2, 1, 2)" and sht: "shape ?t = (3, 1, 3)"
    by (simp_all add: array_of_frames_def)
  have sha: "shape ?a = (1, 3)" "shape ?b = (1, 3)"
    by (simp_all add: image_of_row_def)
  have h1: "partition3 example_blocks3 (shape ?s)"
    using example_blocks3_partition by (simp add: shs)
  have h2: "partition2 example_blocks2 (snd (shape ?t)) \<and> [2, 0] \<noteq> ([]::nat list)"
    using example_blocks2_partition by (simp add: sht)
  have h3: "partition2 example_blocks2 (snd (shape ?t))"
    using h2 by simp
  have h4: "partition2 example_blocks2 (shape ?a)"
    using example_blocks2_partition by (simp add: sha)
  note masks = parallel_and_sequential_paths_agree [where blocks = example_blocks3 and src = ?s
      and lb = "float_of 0" and ub = "float_of 10" and msk = "image_of_row [True, False]",
      THEN conjunct1, rule_format, OF h1]
  note kept = parallel_and_sequential_paths_agree [where ?blocks2.0 = example_blocks2
      and src = ?t and keep = "[2, 0]" and fresh = ?fresh,
      THEN conjunct2, THEN conjunct1, rule_format, OF h2]
  note every = parallel_and_sequential_paths_agree [where ?blocks2.0 = example_blocks2
      and src = ?t and fresh = ?fresh,
      THEN conjunct2, THEN conjunct2, THEN conjunct1, rule_format, OF h3]
  note pair = parallel_and_sequential_paths_agree [where ?blocks2.0 = example_blocks2
      and ?src1.0 = ?a and ?src2.0 = ?b and fresh = ?fresh,
      THEN conjunct2, THEN conjunct2, THEN conjunct2, rule_format, OF h4]
  from kept obtain m m' where
    r: "nanmeanImageArray_keep (WithTBB example_blocks2) ?fresh ?t [2, 0] = Returned ?t m"
       "nanmeanImageArray_keep NoTBB ?fresh ?t [2, 0] = Returned ?t m'"
    and sh: "shape m = shape m'"
    and px: "\<And>j k. j < fst (shape m) \<and> k < snd (shape m) \<Longrightarrow> at2 m j k = at2 m' j k"
    by blast
  have "shape m' = (1, 3)"
    using r(2) by (auto simp: nanmeanImageArray_keep_def xt_nanmean_axis0_def xt_view_keep_def sht)
  with sh have "shape m = (1, 3)"
    by simp
  then have "at2 m 0 0 = at2 m' 0 0 \<and> at2 m 0 1 = at2 m' 0 1 \<and> at2 m 0 2 = at2 m' 0 2"
    using px [of 0 0] px [of 0 1] px [of 0 2] by simp
  with r have second: "\<exists>m m'.
      nanmeanImageArray_keep (WithTBB example_blocks2) ?fresh ?t [2, 0] = Returned ?t m \<and>
      nanmeanImageArray_keep NoTBB ?fresh ?t [2, 0] = Returned ?t m' \<and>
      at2 m 0 0 = at2 m' 0 0 \<and> at2 m 0 1 = at2 m' 0 1 \<and> at2 m 0 2 = at2 m' 0 2"
    by blast
  from every obtain n n' where
    q: "nanmeanImageArray_all (WithTBB example_blocks2) ?fresh ?t = Returned ?t n"
       "nanmeanImageArray_all NoTBB ?fresh ?t = Returned ?t n'"
    and shn: "shape n = shape n'"
    and pxn: "\<And>j k. j < fst (shape n) \<and> k < snd (shape n) \<Longrightarrow> at2 n j k = at2 n' j k"
    by blast
  have "shape n' = (1, 3)"
    using q(2) by (auto simp: nanmeanImageArray_all_def xt_nanmean_axis0_def sht)
  with shn have "shape n = (1, 3)"
    by simp
  then have "at2 n 0 0 = at2 n' 0 0 \<and> at2 n 0 1 = at2 n' 0 1 \<and> at2 n 0 2 = at2 n' 0 2"
    using pxn [of 0 0] pxn [of 0 1] pxn [of 0 2] by simp
  with q have third: "\<exists>m m'.
      nanmeanImageArray_all (WithTBB example_blocks2) ?fresh ?t = Returned ?t m \<and>
      nanmeanImageArray_all NoTBB ?fresh ?t = Returned ?t m' \<and>
      at2 m 0 0 = at2 m' 0 0 \<and> at2 m 0 1 = at2 m' 0 1 \<and> at2 m 0 2 = at2 m' 0 2"
    by blast
  have ret: "\<exists>x. nanmeanImageArray_pair NoTBB ?fresh ?a ?b = Returned (?a, ?b) x \<and>
      shape x = (1, 3)"
    by (simp add: nanmeanImageArray_pair_def checkShape_def shape2_def sha xt_nanmean_axis0_def
        xt_stack_def)
  then have no: "\<not> (\<exists>e. nanmeanImageArray_pair (WithTBB example_blocks2) ?fresh ?a ?b
        = Raised e (?a, ?b) \<and>
      nanmeanImageArray_pair NoTBB ?fresh ?a ?b = Raised e (?a, ?b))"
    by auto
  have "\<exists>m m'.
      nanmeanImageArray_pair (WithTBB example_blocks2) ?fresh ?a ?b = Returned (?a, ?b) m \<and>
      nanmeanImageArray_pair NoTBB ?fresh ?a ?b = Returned (?a, ?b) m' \<and>
      shape m = shape m' \<and>
      (\<forall>j k. j < fst (shape m) \<and> k < snd (shape m) \<longrightarrow> at2 m j k = at2 m' j k)"
    using pair
  proof (rule disjE)
    assume "\<exists>e. nanmeanImageArray_pair (WithTBB example_blocks2) ?fresh ?a ?b
        = Raised e (?a, ?b) \<and>
      nanmeanImageArray_pair NoTBB ?fresh ?a ?b = Raised e (?a, ?b)"
    with no show ?thesis ..
  qed
  then obtain p p' where
    u: "nanmeanImageArray_pair (WithTBB example_blocks2) ?fresh ?a ?b = Returned (?a, ?b) p"
       "nanmeanImageArray_pair NoTBB ?fresh ?a ?b = Returned (?a, ?b) p'"
    and shp: "shape p = shape p'"
    and pxp: "\<And>j k. j < fst (shape p) \<and> k < snd (shape p) \<Longrightarrow> at2 p j k = at2 p' j k"
    by blast
  have "shape p' = (1, 3)"
    using ret u(2) by auto
  with shp have "shape p = (1, 3)"
    by simp
  then have "at2 p 0 0 = at2 p' 0 0 \<and> at2 p 0 1 = at2 p' 0 1 \<and> at2 p 0 2 = at2 p' 0 2"
    using pxp [of 0 0] pxp [of 0 1] pxp [of 0 2] by simp
  with u have fourth: "\<exists>m m'.
      nanmeanImageArray_pair (WithTBB example_blocks2) ?fresh ?a ?b = Returned (?a, ?b) m \<and>
      nanmeanImageArray_pair NoTBB ?fresh ?a ?b = Returned (?a, ?b) m' \<and>
      at2 m 0 0 = at2 m' 0 0 \<and> at2 m 0 1 = at2 m' 0 1 \<and> at2 m 0 2 = at2 m' 0 2"
    by blast
  from masks second third fourth show ?thesis
    by (intro conjI) simp_all
qed

section \<open>Moving average and correction under both builds\<close>

lemma movingAvgImageData_array_general:
  assumes "valid3 bld (shape src)"
  shows "movingAvgImageData_array bld src data cnt =
     (if cnt = 0 then Raised (InvalidArgument '''count' cannot be zero!'') src
      else
     (case checkShape (shape3 src) (shape3 data) ''Inconsistent data shapes'' 0 of
        Some e \<Rightarrow> Raised e src
      | None \<Rightarrow>
          Returned
            (map_on (inside3 (shape src))
               (\<lambda>p v. v + (elems data p - v) / value_of_count cnt) src) ()))"
proof -
  have body: "(\<lambda>i j k src.
        put3 src i j k (at3 src i j k + (at3 data i j k - at3 src i j k) / value_of_count cnt))
     = (\<lambda>i j k. pw1 (\<lambda>p v. v + (elems data p - v) / value_of_count cnt) (i, j, k))"
    by (simp add: fun_eq_iff pw1_def at3_def put3_def)
  show ?thesis
    unfolding movingAvgImageData_array_def body
    using assms by (simp add: run3_pw1 split: option.splits)
qed

lemma correctImageData_policy_array_general:
  assumes "valid3 bld (shape src)"
  shows "correctImageData_policy_array bld pol src constants =
     (case checkShape (shape3 src) (shape3 constants) ''data and constants have different shapes'' 0 of
        Some e \<Rightarrow> Raised e src
      | None \<Rightarrow>
          Returned
            (map_on (inside3 (shape src)) (\<lambda>p v. correct pol v (elems constants p)) src) ())"
proof -
  have body: "(\<lambda>i j k src. put3 src i j k (correct pol (at3 src i j k) (at3 constants i j k)))
     = (\<lambda>i j k. pw1 (\<lambda>p v. correct pol v (elems constants p)) (i, j, k))"
    by (simp add: fun_eq_iff pw1_def at3_def put3_def)
  show ?thesis
    unfolding correctImageData_policy_array_def body
    using assms by (simp add: run3_pw1 split: option.splits)
qed

lemma correctImageData_array_general:
  assumes "valid3 bld (shape src)"
  shows "correctImageData_array bld src gain offset =
     (case checkShape (shape3 src) (shape3 gain) ''data and gain constants have different shapes'' 0 of
        Some e \<Rightarrow> Raised e src
      | None \<Rightarrow>
     (case checkShape (shape3 src) (shape3 offset) ''data and offset constants have different shapes'' 0 of
        Some e \<Rightarrow> Raised e src
      | None \<Rightarrow>
          Returned
            (map_on (inside3 (shape src)) (\<lambda>p v. elems gain p * (v - elems offset p)) src) ()))"
proof -
  have body: "(\<lambda>i j k src. put3 src i j k (at3 gain i j k * (at3 src i j k - at3 offset i j k)))
     = (\<lambda>i j k. pw1 (\<lambda>p v. elems gain p * (v - elems offset p)) (i, j, k))"
    by (simp add: fun_eq_iff pw1_def at3_def put3_def)
  show ?thesis
    unfolding correctImageData_array_def body
    using assms by (simp add: run3_pw1 split: option.splits)
qed

text \<open>
  For every partition of the stack's index range into blocks, taken in any order, the
  moving-average update and the two corrections for image arrays leave the same buffer,
  or raise the same error, built with TBB as built without.
\<close>

theorem update_kernels_schedule_independent:
  "partition3 blocks (shape src) \<longrightarrow>
     movingAvgImageData_array (WithTBB blocks) src data cnt
       = movingAvgImageData_array NoTBB src data cnt \<and>
     correctImageData_policy_array (WithTBB blocks) pol src constants
       = correctImageData_policy_array NoTBB pol src constants \<and>
     correctImageData_array (WithTBB blocks) src gain offset
       = correctImageData_array NoTBB src gain offset"
proof
  assume "partition3 blocks (shape src)"
  then have v: "valid3 (WithTBB blocks) (shape src)" "valid3 NoTBB (shape src)"
    by (simp_all add: valid3_def)
  show "movingAvgImageData_array (WithTBB blocks) src data cnt
       = movingAvgImageData_array NoTBB src data cnt \<and>
     correctImageData_policy_array (WithTBB blocks) pol src constants
       = correctImageData_policy_array NoTBB pol src constants \<and>
     correctImageData_array (WithTBB blocks) src gain offset
       = correctImageData_array NoTBB src gain offset"
    by (simp only: movingAvgImageData_array_general [OF v(1)]
        movingAvgImageData_array_general [OF v(2)]
        correctImageData_policy_array_general [OF v(1)]
        correctImageData_policy_array_general [OF v(2)]
        correctImageData_array_general [OF v(1)]
        correctImageData_array_general [OF v(2)] simp_thms)
qed

theorem update_kernels_schedule_independent_example:
  "movingAvgImageData_array (WithTBB example_blocks3)
       (array_of_frames [[float_of 0, float_of 2], [float_of 4, float_of 5]])
       (array_of_frames [[float_of 2, float_of 6], [float_of 8, NaN]]) 2
     = movingAvgImageData_array NoTBB
         (array_of_frames [[float_of 0, float_of 2], [float_of 4, float_of 5]])
         (array_of_frames [[float_of 2, float_of 6], [float_of 8, NaN]]) 2 \<and>
   correctImageData_policy_array (WithTBB example_blocks3) GainPolicy
       (array_of_frames [[float_of 0, float_of 2], [float_of 4, float_of 5]])
       (array_of_frames [[float_of 2, float_of 6], [float_of 8, NaN]])
     = correctImageData_policy_array NoTBB GainPolicy
         (array_of_frames [[float_of 0, float_of 2], [float_of 4, float_of 5]])
         (array_of_frames [[float_of 2, float_of 6], [float_of 8, NaN]])"
proof -
  let ?s = "array_of_frames [[float_of 0, float_of 2], [float_of 4, float_of 5]]"
  have "shape ?s = (2, 1, 2)"
    by (simp add: array_of_frames_def)
  then have h: "partition3 example_blocks3 (shape ?s)"
    using example_blocks3_partition by simp
  from update_kernels_schedule_independent [where blocks = example_blocks3 and src = ?s
      and data = "array_of_frames [[float_of 2, float_of 6], [float_of 8, NaN]]" and cnt = 2
      and pol = GainPolicy and constants = "array_of_frames [[float_of 2, float_of 6], [float_of 8, NaN]]",
      rule_format, OF h]
  show ?thesis by simp
qed

end
